theory Spec2Isabelle
  imports Complex_Main "HOL-Library.Sublist" "HOL-Library.Product_Lexorder"
begin

section \<open>PocketPlans: the plan route (app/api/plan/route.ts)\<close>

text \<open>
  A shallow embedding of the candidate filtering, mapping and selection code of
  \<^verbatim>\<open>app/api/plan/route.ts\<close>. JavaScript numbers are modelled as \<open>real\<close> (coordinates,
  ratings, scores) or \<open>int\<close> (millisecond instants, minutes); NaN, infinities and
  rounding are not modelled. Strings are byte lists: \<open>toLowerCase\<close> folds the ASCII
  letters only. The clock (\<^verbatim>\<open>Date.now()\<close>, one reading per request) and the random
  source (\<^verbatim>\<open>Math.random()\<close>) are explicit parameters.
\<close>

subsection \<open>Strings\<close>

definition lowerChar :: "char \<Rightarrow> char" where
  "lowerChar c =
     (let n = (of_char c :: nat) in if 65 \<le> n \<and> n \<le> 90 then char_of (n + 32) else c)"

definition toLowerCase :: "string \<Rightarrow> string" where
  "toLowerCase s = map lowerChar s"

text \<open>\<^verbatim>\<open>s.includes(sub)\<close>: \<open>sub\<close> occurs in \<open>s\<close> as a contiguous block.\<close>

fun str_includes :: "string \<Rightarrow> string \<Rightarrow> bool" where
  "str_includes [] sub = (sub = [])"
| "str_includes (x # xs) sub = (prefix sub (x # xs) \<or> str_includes xs sub)"

definition isSpaceChar :: "char \<Rightarrow> bool" where
  "isSpaceChar c = ((of_char c :: nat) \<in> {9, 10, 11, 12, 13, 32})"

text \<open>\<^verbatim>\<open>s.trim()\<close> on the ASCII white space.\<close>

definition trim :: "string \<Rightarrow> string" where
  "trim s = rev (dropWhile isSpaceChar (rev (dropWhile isSpaceChar s)))"

definition isDigit :: "char \<Rightarrow> bool" where
  "isDigit c = (48 \<le> (of_char c :: nat) \<and> (of_char c :: nat) \<le> 57)"

definition digitVal :: "char \<Rightarrow> int" where
  "digitVal c = int (of_char c) - 48"

lemma lowerChar_Char [simp]:
  "lowerChar (Char b0 b1 b2 b3 b4 b5 b6 b7) =
     (if \<not> b7 \<and> b6 \<and> \<not> b5
         \<and> 65 \<le> (of_char (Char b0 b1 b2 b3 b4 b5 b6 b7) :: nat)
         \<and> (of_char (Char b0 b1 b2 b3 b4 b5 b6 b7) :: nat) \<le> 90
      then Char b0 b1 b2 b3 b4 True b6 b7 else Char b0 b1 b2 b3 b4 b5 b6 b7)"
  apply (cases b0; cases b1; cases b2; cases b3; cases b4; cases b5; cases b6; cases b7)
  apply (simp_all add: lowerChar_def)
  apply code_simp+
  done

subsection \<open>Types\<close>

record LatLng =
  lat :: real
  lng :: real

text \<open>
  \<^verbatim>\<open>type Option\<close> of the route. \<open>lat\<close> and \<open>lng\<close> are the fields inherited from
  \<open>LatLng\<close>; \<open>opt_id\<close> is \<^verbatim>\<open>id\<close> and \<open>score\<close> is \<^verbatim>\<open>_score\<close>. \<open>rating\<close> is kept
  nullable because \<^verbatim>\<open>scoreOption\<close> reads it as \<^verbatim>\<open>opt.rating ?? 4.2\<close>.
\<close>

record PlanOption = LatLng +
  opt_id :: string
  name :: string
  category :: string
  rating :: "real option"
  etaMin :: int
  openStatus :: string
  why :: string
  watchouts :: "string list"
  address :: string
  closingTime :: "string option"
  placeId :: "string option"
  priceLevel :: "int option"
  userRatingsTotal :: "nat option"
  closeTs :: "int option"
  photoUrls :: "string list"
  score :: "real option"

text \<open>The result of \<^verbatim>\<open>getWeatherFlags\<close>.\<close>

record Flags =
  precip :: bool
  cold :: bool
  veryCold :: bool
  windy :: bool
  veryWindy :: bool
  minTemp :: real

text \<open>The second argument of \<^verbatim>\<open>hardReject\<close>; \<open>cityNow\<close> is the Date's millisecond value.\<close>

record RejectArgs =
  minRemaining :: int
  allowUnknownHours :: bool
  maxDistKm :: real
  allowedSet :: "string set"
  center :: LatLng
  cityNow :: int
  cityHour :: int
  flags :: Flags

subsection \<open>Constants\<close>

definition MIN_REMAINING_MIN :: int where
  "MIN_REMAINING_MIN = 75"

definition RELAXED_REMAINING_MIN :: int where
  "RELAXED_REMAINING_MIN = 45"

definition MAX_DIST_KM_SHORTLIST :: real where
  "MAX_DIST_KM_SHORTLIST = 10"

definition MAX_DIST_KM_SWAP :: real where
  "MAX_DIST_KM_SWAP = 14"

subsection \<open>Helpers\<close>

definition haversineKm :: "LatLng \<Rightarrow> LatLng \<Rightarrow> real" where
  "haversineKm a b =
     (let R = 6371;
          dLat = ((lat b - lat a) * pi) / 180;
          dLng = ((lng b - lng a) * pi) / 180;
          lat1 = (lat a * pi) / 180;
          lat2 = (lat b * pi) / 180;
          sin1 = sin (dLat / 2);
          sin2 = sin (dLng / 2);
          h = sin1 * sin1 + cos lat1 * cos lat2 * sin2 * sin2
      in 2 * R * arcsin (min 1 (sqrt h)))"

definition isOutdoorishCategory :: "string \<Rightarrow> bool" where
  "isOutdoorishCategory category' =
     (let cat = toLowerCase category' in
        str_includes cat ''park'' \<or>
        str_includes cat ''walk'' \<or>
        str_includes cat ''water'' \<or>
        str_includes cat ''outdoor'' \<or>
        str_includes cat ''waterfront'' \<or>
        str_includes cat ''scenic'' \<or>
        str_includes cat ''market'' \<or>
        str_includes cat ''activity'')"

text \<open>\<^verbatim>\<open>d.getUTCHours() * 60 + d.getUTCMinutes()\<close> of the Date with millisecond value \<open>d\<close>.\<close>

definition minutesSinceMidnight :: "int \<Rightarrow> int" where
  "minutesSinceMidnight d = (d div 60000) mod 1440"

text \<open>
  The match of \<^verbatim>\<open>/^(\d{1,2}):(\d{2})\s(AM|PM)$/i\<close>: hour, minute and whether the
  suffix is PM.
\<close>

definition matchTail :: "int \<Rightarrow> string \<Rightarrow> (int \<times> int \<times> bool) option" where
  "matchTail hour rest =
     (case rest of
        [c, m1, m2, sp, a, m] \<Rightarrow>
          if c = CHR '':'' \<and> isDigit m1 \<and> isDigit m2 \<and> isSpaceChar sp
             \<and> (toLowerCase [a, m] = ''am'' \<or> toLowerCase [a, m] = ''pm'')
          then Some (hour, 10 * digitVal m1 + digitVal m2, toLowerCase [a, m] = ''pm'')
          else None
      | _ \<Rightarrow> None)"

definition matchClosingTime :: "string \<Rightarrow> (int \<times> int \<times> bool) option" where
  "matchClosingTime s =
     (case s of
        h1 # h2 # rest \<Rightarrow>
          if isDigit h1 \<and> isDigit h2 then matchTail (10 * digitVal h1 + digitVal h2) rest
          else if isDigit h1 then matchTail (digitVal h1) (h2 # rest)
          else None
      | _ \<Rightarrow> None)"

definition parseClosingTimeToMinutes :: "string option \<Rightarrow> int option" where
  "parseClosingTimeToMinutes closingTime' =
     (case closingTime' of
        None \<Rightarrow> None
      | Some s \<Rightarrow>
          if s = [] then None
          else (case matchClosingTime s of
                  None \<Rightarrow> None
                | Some (hour, mn, pm) \<Rightarrow>
                    let hour1 = (if pm \<and> hour \<noteq> 12 then hour + 12 else hour);
                        hour2 = (if \<not> pm \<and> hour1 = 12 then 0 else hour1)
                    in Some (hour2 * 60 + mn)))"

text \<open>\<open>nowMs\<close> is the value of \<^verbatim>\<open>Date.now()\<close> read by the function.\<close>

definition minutesUntilClose :: "int \<Rightarrow> int \<Rightarrow> string option \<Rightarrow> int option \<Rightarrow> int option" where
  "minutesUntilClose nowMs cityNow' closingTime' closeTs' =
     (case closeTs' of
        Some ts \<Rightarrow>
          let diff = ts - nowMs in Some (if diff > 0 then diff div 60000 else 0)
      | None \<Rightarrow>
          (case parseClosingTimeToMinutes closingTime' of
             None \<Rightarrow> None
           | Some closeMin \<Rightarrow>
               let nowMin = minutesSinceMidnight cityNow' in
               Some (if closeMin \<ge> nowMin then closeMin - nowMin
                     else 24 * 60 - nowMin + closeMin)))"

subsection \<open>Feasibility rules\<close>

definition hardReject :: "int \<Rightarrow> PlanOption \<Rightarrow> RejectArgs \<Rightarrow> string option" where
  "hardReject nowMs opt args =
     (if category opt \<notin> allowedSet args then Some ''vibe_mismatch''
      else if str_includes (toLowerCase (openStatus opt)) ''closed'' then Some ''closed''
      else if haversineKm (center args) \<lparr>lat = lat opt, lng = lng opt\<rparr> > maxDistKm args
        then Some ''too_far''
      else
        (case minutesUntilClose nowMs (cityNow args) (closingTime opt) (closeTs opt) of
           None \<Rightarrow> if allowUnknownHours args then None else Some ''unknown_hours''
         | Some minsLeft \<Rightarrow>
             if minsLeft < minRemaining args then Some ''closing_soon''
             else if isOutdoorishCategory (category opt)
                     \<and> (precip (flags args) \<or> veryCold (flags args) \<or> veryWindy (flags args))
               then Some ''weather_block''
             else if isOutdoorishCategory (category opt)
                     \<and> cold (flags args) \<and> cityHour args \<ge> 18
               then Some ''weather_block''
             else None))"

text \<open>The two profiles, as the route's two calls of \<^verbatim>\<open>hardReject\<close> build them.\<close>

definition strictArgs :: "string set \<Rightarrow> LatLng \<Rightarrow> int \<Rightarrow> int \<Rightarrow> Flags \<Rightarrow> RejectArgs" where
  "strictArgs allowed ctr cityNow' cityHour' flags' =
     \<lparr>minRemaining = MIN_REMAINING_MIN, allowUnknownHours = False,
      maxDistKm = MAX_DIST_KM_SHORTLIST, allowedSet = allowed, center = ctr,
      cityNow = cityNow', cityHour = cityHour', flags = flags'\<rparr>"

definition relaxedArgs :: "string set \<Rightarrow> LatLng \<Rightarrow> int \<Rightarrow> int \<Rightarrow> Flags \<Rightarrow> RejectArgs" where
  "relaxedArgs allowed ctr cityNow' cityHour' flags' =
     \<lparr>minRemaining = RELAXED_REMAINING_MIN, allowUnknownHours = True,
      maxDistKm = MAX_DIST_KM_SWAP, allowedSet = allowed, center = ctr,
      cityNow = cityNow', cityHour = cityHour', flags = flags'\<rparr>"

subsection \<open>Tables\<close>

definition CITY_CENTERS :: "string \<rightharpoonup> LatLng" where
  "CITY_CENTERS = map_of
     [(''Boston'', \<lparr>lat = 42.3601, lng = -71.0589\<rparr>),
      (''New York'', \<lparr>lat = 40.7128, lng = -74.006\<rparr>),
      (''San Francisco'', \<lparr>lat = 37.7749, lng = -122.4194\<rparr>),
      (''Chicago'', \<lparr>lat = 41.8781, lng = -87.6298\<rparr>),
      (''Seattle'', \<lparr>lat = 47.6062, lng = -122.3321\<rparr>),
      (''Austin'', \<lparr>lat = 30.2672, lng = -97.7431\<rparr>),
      (''Los Angeles'', \<lparr>lat = 34.0522, lng = -118.2437\<rparr>),
      (''Washington DC'', \<lparr>lat = 38.9072, lng = -77.0369\<rparr>),
      (''Miami'', \<lparr>lat = 25.7617, lng = -80.1918\<rparr>),
      (''Atlanta'', \<lparr>lat = 33.749, lng = -84.388\<rparr>)]"

definition ALLOWED_BY_VIBE :: "string \<rightharpoonup> string list" where
  "ALLOWED_BY_VIBE = map_of
     [(''Cozy'', [''Cafe'', ''Dessert'', ''Bookstore'', ''Wine Bar'', ''Tea House'']),
      (''Outdoors'', [''Park'', ''Scenic Walk'', ''Waterfront'', ''Outdoor Market'', ''Activity'']),
      (''Productive'', [''Library'', ''Work Cafe'', ''Quiet Workspace'', ''Study Spot'']),
      (''Social'', [''Bar'', ''Group Dining'', ''Activity Venue'', ''Event Space'']),
      (''Luxury'', [''Fine Dining'', ''Rooftop Bar'', ''Specialty Dessert'', ''Premium Spot''])]"

text \<open>\<^verbatim>\<open>ALLOWED_BY_VIBE[vibe] ?? ALLOWED_BY_VIBE["Social"]\<close>.\<close>

definition allowedFor :: "string \<Rightarrow> string list" where
  "allowedFor vibe =
     (case ALLOWED_BY_VIBE vibe of
        Some cs \<Rightarrow> cs
      | None \<Rightarrow> [''Bar'', ''Group Dining'', ''Activity Venue'', ''Event Space''])"

subsection \<open>Distances at hand\<close>

lemma haversine_same_point:
  "lat a = lat b \<Longrightarrow> lng a = lng b \<Longrightarrow> haversineKm a b = 0"
  by (simp add: haversineKm_def)

text \<open>Along a meridian the formula is the arc length: 6371 km times the angle.\<close>

lemma haversine_same_lng:
  assumes "lng a = lng b" "0 \<le> lat b - lat a" "lat b - lat a \<le> 180"
  shows "haversineKm a b = 6371 * ((lat b - lat a) * pi / 180)"
proof -
  let ?x = "(lat b - lat a) * pi / 180 / 2"
  have x0: "0 \<le> ?x" using assms(2) by simp
  have "(lat b - lat a) * pi \<le> 180 * pi" using assms(3) by simp
  then have x1: "?x \<le> pi / 2" by simp
  have s0: "0 \<le> sin ?x" using x0 x1 by (intro sin_ge_zero) auto
  have h: "sqrt (sin ?x * sin ?x) = sin ?x" using s0 by simp
  have m: "min 1 (sin ?x) = sin ?x" by simp
  have "- (pi / 2) \<le> 0" by simp
  then have x2: "- (pi / 2) \<le> ?x" using x0 by linarith
  have a: "arcsin (sin ?x) = ?x" using x2 x1 by (rule arcsin_sin)
  show ?thesis
    using assms(1) h m a by (simp add: haversineKm_def Let_def mult.commute)
qed

subsection \<open>Sample data\<close>

definition Boston :: LatLng where
  "Boston = \<lparr>lat = 42.3601, lng = -71.0589\<rparr>"

text \<open>One degree of latitude north of the Boston center: about 111 km away.\<close>

definition northOfBoston :: LatLng where
  "northOfBoston = \<lparr>lat = 43.3601, lng = -71.0589\<rparr>"

definition bullet :: string where
  "bullet = [CHR 0xE2, CHR 0x80, CHR 0xA2]"

definition sampleOption :: "string \<Rightarrow> string \<Rightarrow> LatLng \<Rightarrow> string option \<Rightarrow> int option \<Rightarrow> PlanOption" where
  "sampleOption cat status pos closing ts =
     \<lparr>lat = lat pos, lng = lng pos, opt_id = ''p1'', name = ''Venue'', category = cat,
      rating = Some 4.4, etaMin = 20, openStatus = status, why = ''-'',
      watchouts = [], address = [], closingTime = closing, placeId = Some ''p1'',
      priceLevel = None, userRatingsTotal = None, closeTs = ts, photoUrls = [],
      score = None\<rparr>"

definition rainy :: Flags where
  "rainy = \<lparr>precip = True, cold = False, veryCold = False, windy = False,
            veryWindy = False, minTemp = 12\<rparr>"

definition fair :: Flags where
  "fair = \<lparr>precip = False, cold = False, veryCold = False, windy = False,
           veryWindy = False, minTemp = 18\<rparr>"

lemma northOfBoston_far: "haversineKm Boston northOfBoston > 14"
proof -
  have "haversineKm Boston northOfBoston = 6371 * (1 * pi / 180)"
    by (subst haversine_same_lng) (simp_all add: Boston_def northOfBoston_def)
  moreover have "6371 * (1 * pi / 180) > (14::real)"
    using pi_ge_two by simp
  ultimately show ?thesis by simp
qed

lemma allowedFor_Cozy:
  "allowedFor ''Cozy'' = [''Cafe'', ''Dessert'', ''Bookstore'', ''Wine Bar'', ''Tea House'']"
  by (simp add: allowedFor_def ALLOWED_BY_VIBE_def)

lemma allowedFor_Outdoors:
  "allowedFor ''Outdoors'' =
     [''Park'', ''Scenic Walk'', ''Waterfront'', ''Outdoor Market'', ''Activity'']"
  by (simp add: allowedFor_def ALLOWED_BY_VIBE_def)

section \<open>The feasibility filter\<close>

text \<open>
  C6 (as amended). The checks of the feasibility filter run in this order, the first
  match giving the reason: category outside the allowed set, provider text says
  "closed", distance above the profile's maximum, remaining minutes unknown under a
  profile that disallows unknown hours, remaining minutes known and below the profile's
  minimum, weather block of an outdoor-leaning category (whose minutes are known).
\<close>

theorem C6_rejection_order:
  "(category opt \<notin> allowedSet args \<longrightarrow> hardReject nowMs opt args = Some ''vibe_mismatch'') \<and>
   (category opt \<in> allowedSet args \<and> str_includes (toLowerCase (openStatus opt)) ''closed''
      \<longrightarrow> hardReject nowMs opt args = Some ''closed'') \<and>
   (category opt \<in> allowedSet args \<and> \<not> str_includes (toLowerCase (openStatus opt)) ''closed''
      \<and> haversineKm (center args) \<lparr>lat = lat opt, lng = lng opt\<rparr> > maxDistKm args
      \<longrightarrow> hardReject nowMs opt args = Some ''too_far'') \<and>
   (category opt \<in> allowedSet args \<and> \<not> str_includes (toLowerCase (openStatus opt)) ''closed''
      \<and> haversineKm (center args) \<lparr>lat = lat opt, lng = lng opt\<rparr> \<le> maxDistKm args
      \<and> minutesUntilClose nowMs (cityNow args) (closingTime opt) (closeTs opt) = None
      \<and> \<not> allowUnknownHours args
      \<longrightarrow> hardReject nowMs opt args = Some ''unknown_hours'') \<and>
   (category opt \<in> allowedSet args \<and> \<not> str_includes (toLowerCase (openStatus opt)) ''closed''
      \<and> haversineKm (center args) \<lparr>lat = lat opt, lng = lng opt\<rparr> \<le> maxDistKm args
      \<and> minutesUntilClose nowMs (cityNow args) (closingTime opt) (closeTs opt) = Some m
      \<and> m < minRemaining args
      \<longrightarrow> hardReject nowMs opt args = Some ''closing_soon'') \<and>
   (category opt \<in> allowedSet args \<and> \<not> str_includes (toLowerCase (openStatus opt)) ''closed''
      \<and> haversineKm (center args) \<lparr>lat = lat opt, lng = lng opt\<rparr> \<le> maxDistKm args
      \<and> minutesUntilClose nowMs (cityNow args) (closingTime opt) (closeTs opt) = Some m
      \<and> minRemaining args \<le> m
      \<and> isOutdoorishCategory (category opt)
      \<and> (precip (flags args) \<or> veryCold (flags args) \<or> veryWindy (flags args)
          \<or> cold (flags args) \<and> cityHour args \<ge> 18)
      \<longrightarrow> hardReject nowMs opt args = Some ''weather_block'')"
  by (auto simp add: hardReject_def)

lemma pos_north [simp]: "\<lparr>lat = lat northOfBoston, lng = lng northOfBoston\<rparr> = northOfBoston"
  by simp
lemma pos_boston [simp]: "\<lparr>lat = lat Boston, lng = lng Boston\<rparr> = Boston"
  by simp

lemmas sample_eval = sampleOption_def strictArgs_def relaxedArgs_def
  minutesUntilClose_def parseClosingTimeToMinutes_def isOutdoorishCategory_def
  toLowerCase_def haversine_same_point MIN_REMAINING_MIN_def RELAXED_REMAINING_MIN_def
  MAX_DIST_KM_SHORTLIST_def MAX_DIST_KM_SWAP_def bullet_def

text \<open>
  The order at six concrete candidates, one per reason; the second one is both too far
  (about 111 km) and reported closed, and its reason is "closed".
\<close>

theorem C6_rejection_order_witness:
  "hardReject 0 (sampleOption ''Casino'' ''Open now'' Boston None (Some 7200000))
     (strictArgs (set (allowedFor ''Cozy'')) Boston 0 12 fair) = Some ''vibe_mismatch'' \<and>
   hardReject 0 (sampleOption ''Dessert'' ''Closed'' northOfBoston None (Some 60000))
     (strictArgs (set (allowedFor ''Cozy'')) Boston 0 12 fair) = Some ''closed'' \<and>
   hardReject 0 (sampleOption ''Dessert'' ''Open now'' northOfBoston None (Some 60000))
     (strictArgs (set (allowedFor ''Cozy'')) Boston 0 12 fair) = Some ''too_far'' \<and>
   hardReject 0 (sampleOption ''Dessert'' ''Open now'' Boston None None)
     (strictArgs (set (allowedFor ''Cozy'')) Boston 0 12 fair) = Some ''unknown_hours'' \<and>
   hardReject 0 (sampleOption ''Park'' ''Open now'' Boston None (Some 60000))
     (strictArgs (set (allowedFor ''Outdoors'')) Boston 0 12 rainy) = Some ''closing_soon'' \<and>
   hardReject 0 (sampleOption ''Park'' ''Open now'' Boston None (Some 7200000))
     (strictArgs (set (allowedFor ''Outdoors'')) Boston 0 12 rainy) = Some ''weather_block''"
proof -
  let ?cozy = "strictArgs (set (allowedFor ''Cozy'')) Boston 0 12 fair"
  let ?out = "strictArgs (set (allowedFor ''Outdoors'')) Boston 0 12 rainy"
  have far: "haversineKm Boston northOfBoston > 10"
    using northOfBoston_far by simp
  have 1: "hardReject 0 (sampleOption ''Casino'' ''Open now'' Boston None (Some 7200000)) ?cozy
             = Some ''vibe_mismatch''"
    using C6_rejection_order
      [of "sampleOption ''Casino'' ''Open now'' Boston None (Some 7200000)" ?cozy 0 0]
    by (simp add: sample_eval allowedFor_Cozy)
  have 2: "hardReject 0 (sampleOption ''Dessert'' ''Closed'' northOfBoston None (Some 60000)) ?cozy
             = Some ''closed''"
    using C6_rejection_order
      [of "sampleOption ''Dessert'' ''Closed'' northOfBoston None (Some 60000)" ?cozy 0 0]
    by (simp add: sample_eval allowedFor_Cozy)
  have 3: "hardReject 0 (sampleOption ''Dessert'' ''Open now'' northOfBoston None (Some 60000)) ?cozy
             = Some ''too_far''"
    using C6_rejection_order
      [of "sampleOption ''Dessert'' ''Open now'' northOfBoston None (Some 60000)" ?cozy 0 0] far
    by (simp add: sample_eval allowedFor_Cozy)
  have 4: "hardReject 0 (sampleOption ''Dessert'' ''Open now'' Boston None None) ?cozy
             = Some ''unknown_hours''"
    using C6_rejection_order
      [of "sampleOption ''Dessert'' ''Open now'' Boston None None" ?cozy 0 0]
    by (simp add: sample_eval allowedFor_Cozy)
  have 5: "hardReject 0 (sampleOption ''Park'' ''Open now'' Boston None (Some 60000)) ?out
             = Some ''closing_soon''"
    using C6_rejection_order
      [of "sampleOption ''Park'' ''Open now'' Boston None (Some 60000)" ?out 0 1]
    by (simp add: sample_eval allowedFor_Outdoors)
  have 6: "hardReject 0 (sampleOption ''Park'' ''Open now'' Boston None (Some 7200000)) ?out
             = Some ''weather_block''"
    using C6_rejection_order
      [of "sampleOption ''Park'' ''Open now'' Boston None (Some 7200000)" ?out 0 120]
    by (simp add: sample_eval allowedFor_Outdoors rainy_def)
  from 1 2 3 4 5 6 show ?thesis by blast
qed

text \<open>
  C6 as stated: a candidate that is too far and reported closed would be rejected with
  the distance reason. It is rejected with "closed".
\<close>

theorem C6_far_and_closed_counterexample:
  "haversineKm Boston
     \<lparr>lat = lat (sampleOption ''Dessert'' ''Closed'' northOfBoston None (Some 60000)),
      lng = lng (sampleOption ''Dessert'' ''Closed'' northOfBoston None (Some 60000))\<rparr>
     > MAX_DIST_KM_SHORTLIST \<and>
   str_includes
     (toLowerCase (openStatus (sampleOption ''Dessert'' ''Closed'' northOfBoston None (Some 60000))))
     ''closed'' \<and>
   hardReject 0 (sampleOption ''Dessert'' ''Closed'' northOfBoston None (Some 60000))
     (strictArgs (set (allowedFor ''Cozy'')) Boston 0 12 fair) \<noteq> Some ''too_far''"
proof -
  have far: "haversineKm Boston northOfBoston > 10"
    using northOfBoston_far by simp
  then show ?thesis
    by (simp add: hardReject_def sample_eval allowedFor_Cozy)
qed

text \<open>
  C7 (as amended). A "Dessert" candidate under vibe "Cozy", within 10 km, not reported
  closed, whose closeTs lies m minutes ahead: the strict profile rejects it with
  "closing_soon" when m < 75 and the relaxed profile rejects it with "closing_soon" when
  m < 45; otherwise each accepts it. At m = 30 both reject it.
\<close>

theorem C7_closing_minutes_thresholds:
  assumes "category opt = ''Dessert''"
    and "closeTs opt = Some (nowMs + m * 60000)" and "0 \<le> m"
    and "\<not> str_includes (toLowerCase (openStatus opt)) ''closed''"
    and "haversineKm ctr \<lparr>lat = lat opt, lng = lng opt\<rparr> \<le> MAX_DIST_KM_SHORTLIST"
  shows "hardReject nowMs opt (strictArgs (set (allowedFor ''Cozy'')) ctr cityNow' cityHour' flags')
           = (if m < 75 then Some ''closing_soon'' else None) \<and>
         hardReject nowMs opt (relaxedArgs (set (allowedFor ''Cozy'')) ctr cityNow' cityHour' flags')
           = (if m < 45 then Some ''closing_soon'' else None)"
proof -
  have mins: "minutesUntilClose nowMs cityNow' (closingTime opt) (closeTs opt) = Some m"
    using assms(2,3) by (auto simp add: minutesUntilClose_def Let_def)
  have indoor: "\<not> isOutdoorishCategory (category opt)"
    using assms(1) by (simp add: isOutdoorishCategory_def toLowerCase_def)
  have allowed: "category opt \<in> set (allowedFor ''Cozy'')"
    using assms(1) by (simp add: allowedFor_Cozy)
  have near: "\<not> haversineKm ctr \<lparr>lat = lat opt, lng = lng opt\<rparr> > 10"
    "\<not> haversineKm ctr \<lparr>lat = lat opt, lng = lng opt\<rparr> > 14"
    using assms(5) by (simp_all add: MAX_DIST_KM_SHORTLIST_def)
  show ?thesis
    using mins indoor allowed near assms(4)
    by (simp add: hardReject_def strictArgs_def relaxedArgs_def MIN_REMAINING_MIN_def
        RELAXED_REMAINING_MIN_def MAX_DIST_KM_SHORTLIST_def MAX_DIST_KM_SWAP_def)
qed

theorem C7_closing_minutes_thresholds_witness:
  "hardReject 0
     (sampleOption ''Dessert'' (''Open now '' @ bullet @ '' Closes at 9:00 PM'') Boston
        (Some ''9:00 PM'') (Some 1800000))
     (strictArgs (set (allowedFor ''Cozy'')) Boston 0 20 fair) = Some ''closing_soon'' \<and>
   hardReject 0
     (sampleOption ''Dessert'' (''Open now '' @ bullet @ '' Closes at 9:00 PM'') Boston
        (Some ''9:00 PM'') (Some 1800000))
     (relaxedArgs (set (allowedFor ''Cozy'')) Boston 0 20 fair) = Some ''closing_soon''"
  using C7_closing_minutes_thresholds
    [of "sampleOption ''Dessert'' (''Open now '' @ bullet @ '' Closes at 9:00 PM'') Boston
           (Some ''9:00 PM'') (Some 1800000)" 0 30 Boston 0 20 fair]
  by (simp add: sample_eval)

text \<open>
  C7 as stated: the candidate closing in 30 minutes would be accepted by the relaxed
  profile. It is not.
\<close>

theorem C7_relaxed_accepts_counterexample:
  "closeTs (sampleOption ''Dessert'' (''Open now '' @ bullet @ '' Closes at 9:00 PM'') Boston
        (Some ''9:00 PM'') (Some 1800000)) = Some (0 + 30 * 60000) \<and>
   hardReject 0
     (sampleOption ''Dessert'' (''Open now '' @ bullet @ '' Closes at 9:00 PM'') Boston
        (Some ''9:00 PM'') (Some 1800000))
     (relaxedArgs (set (allowedFor ''Cozy'')) Boston 0 20 fair) \<noteq> None"
  by (simp add: hardReject_def sample_eval allowedFor_Cozy)

section \<open>Category mapping, sanitising and scoring\<close>

definition KEYWORD_BY_CATEGORY :: "string \<rightharpoonup> string" where
  "KEYWORD_BY_CATEGORY = map_of
     [(''Cafe'', ''cafe''),
      (''Work Cafe'', ''cafe laptop friendly''),
      (''Dessert'', ''dessert''),
      (''Bookstore'', ''bookstore''),
      (''Wine Bar'', ''wine bar''),
      (''Tea House'', ''tea house''),
      (''Library'', ''library''),
      (''Quiet Workspace'', ''coworking space''),
      (''Study Spot'', ''study cafe''),
      (''Bar'', ''bar''),
      (''Group Dining'', ''restaurant''),
      (''Fine Dining'', ''fine dining''),
      (''Rooftop Bar'', ''rooftop bar''),
      (''Activity Venue'', ''arcade bowling''),
      (''Event Space'', ''museum''),
      (''Park'', ''park''),
      (''Scenic Walk'', ''scenic walk''),
      (''Waterfront'', ''waterfront''),
      (''Outdoor Market'', ''outdoor market''),
      (''Activity'', ''things to do''),
      (''Specialty Dessert'', ''dessert''),
      (''Premium Spot'', ''premium lounge'')]"

definition DETAILS_CAP_TOTAL :: nat where
  "DETAILS_CAP_TOTAL = 55"

definition MAX_SEEN_IDS :: nat where
  "MAX_SEEN_IDS = 220"

definition MAX_SWAPPED_IDS :: nat where
  "MAX_SWAPPED_IDS = 220"

definition TARGET_SWAP_POOL :: nat where
  "TARGET_SWAP_POOL = 26"

definition MAX_POOL_RETURN :: nat where
  "MAX_POOL_RETURN = 60"

text \<open>
  The tables are plain JavaScript objects, so a lookup also finds the properties every
  object inherits; \<^verbatim>\<open>pickDefaultCity\<close> and \<^verbatim>\<open>pickDefaultVibe\<close> test the looked-up
  value for truthiness only.
\<close>

definition objectPrototypeKeys :: "string list" where
  "objectPrototypeKeys =
     [''constructor'', ''__proto__'', ''hasOwnProperty'', ''isPrototypeOf'',
      ''propertyIsEnumerable'', ''toLocaleString'', ''toString'', ''valueOf'',
      ''__defineGetter__'', ''__defineSetter__'', ''__lookupGetter__'', ''__lookupSetter__'']"

definition pickDefaultCity :: "string option \<Rightarrow> string" where
  "pickDefaultCity city =
     (let c = trim (case city of None \<Rightarrow> ''Boston'' | Some x \<Rightarrow> if x = [] then ''Boston'' else x)
      in if CITY_CENTERS c \<noteq> None \<or> c \<in> set objectPrototypeKeys then c else ''Boston'')"

definition pickDefaultVibe :: "string option \<Rightarrow> string" where
  "pickDefaultVibe vibe =
     (let v = trim (case vibe of None \<Rightarrow> ''Social'' | Some x \<Rightarrow> if x = [] then ''Social'' else x)
      in if ALLOWED_BY_VIBE v \<noteq> None \<or> v \<in> set objectPrototypeKeys then v else ''Social'')"

definition clamp :: "real \<Rightarrow> real \<Rightarrow> real \<Rightarrow> real" where
  "clamp n mn mx = max mn (min mx n)"

definition safeString :: "string option \<Rightarrow> string \<Rightarrow> string" where
  "safeString x fallback =
     (case x of None \<Rightarrow> fallback | Some s \<Rightarrow> if trim s \<noteq> [] then trim s else fallback)"

text \<open>
  \<^verbatim>\<open>sanitizeIdList\<close>: the entries are typed as strings here (the code skips the others);
  the loop stops once \<open>cap\<close> entries are kept.
\<close>

fun sanitizeLoop :: "nat \<Rightarrow> string list \<Rightarrow> string list \<Rightarrow> string list" where
  "sanitizeLoop cap out [] = out"
| "sanitizeLoop cap out (v # vs) =
     (let s = trim v in
      if s = [] then sanitizeLoop cap out vs
      else if length (out @ [s]) \<ge> cap then out @ [s]
      else sanitizeLoop cap (out @ [s]) vs)"

definition sanitizeIdList :: "string list \<Rightarrow> nat \<Rightarrow> string list" where
  "sanitizeIdList x cap = sanitizeLoop cap [] x"

text \<open>\<^verbatim>\<open>ALLOWED_BY_VIBE[vibe]?.[0] ?? fallback\<close>.\<close>

definition firstAllowedOr :: "string \<Rightarrow> string \<Rightarrow> string" where
  "firstAllowedOr vibe fallback =
     (case ALLOWED_BY_VIBE vibe of Some (c # cs) \<Rightarrow> c | _ \<Rightarrow> fallback)"

definition googleTypeToInternalCategory :: "string list \<Rightarrow> string \<Rightarrow> string" where
  "googleTypeToInternalCategory types vibe =
     (let allowed = set (allowedFor vibe); t = set types in
      if ''bar'' \<in> t \<or> ''night_club'' \<in> t
        then (if ''Bar'' \<in> allowed then ''Bar'' else firstAllowedOr vibe ''Venue'')
      else if ''bowling_alley'' \<in> t \<or> ''movie_theater'' \<in> t \<or> ''amusement_park'' \<in> t
              \<or> ''casino'' \<in> t
        then (if ''Activity Venue'' \<in> allowed then ''Activity Venue''
              else firstAllowedOr vibe ''Activity'')
      else if ''restaurant'' \<in> t
        then (if ''Group Dining'' \<in> allowed then ''Group Dining''
              else if ''Fine Dining'' \<in> allowed then ''Fine Dining''
              else if ''Work Cafe'' \<in> allowed then ''Work Cafe''
              else if ''Study Spot'' \<in> allowed then ''Study Spot''
              else if ''Cafe'' \<in> allowed then ''Cafe''
              else firstAllowedOr vibe ''Restaurant'')
      else if ''cafe'' \<in> t
        then (if ''Work Cafe'' \<in> allowed then ''Work Cafe''
              else if ''Cafe'' \<in> allowed then ''Cafe''
              else firstAllowedOr vibe ''Cafe'')
      else if ''bakery'' \<in> t
        then (if ''Dessert'' \<in> allowed then ''Dessert'' else firstAllowedOr vibe ''Dessert'')
      else if ''library'' \<in> t
        then (if ''Library'' \<in> allowed then ''Library'' else firstAllowedOr vibe ''Study Spot'')
      else if ''book_store'' \<in> t
        then (if ''Bookstore'' \<in> allowed then ''Bookstore''
              else firstAllowedOr vibe ''Bookstore'')
      else if ''park'' \<in> t
        then (if ''Park'' \<in> allowed then ''Park'' else firstAllowedOr vibe ''Park'')
      else if (''tourist_attraction'' \<in> t \<or> ''point_of_interest'' \<in> t)
              \<and> ''Scenic Walk'' \<in> allowed then ''Scenic Walk''
      else if (''tourist_attraction'' \<in> t \<or> ''point_of_interest'' \<in> t)
              \<and> ''Waterfront'' \<in> allowed then ''Waterfront''
      else if (''tourist_attraction'' \<in> t \<or> ''point_of_interest'' \<in> t)
              \<and> ''Activity'' \<in> allowed then ''Activity''
      else if (''museum'' \<in> t \<or> ''art_gallery'' \<in> t \<or> ''stadium'' \<in> t \<or> ''theater'' \<in> t)
              \<and> ''Event Space'' \<in> allowed then ''Event Space''
      else if (''museum'' \<in> t \<or> ''art_gallery'' \<in> t \<or> ''stadium'' \<in> t \<or> ''theater'' \<in> t)
              \<and> ''Activity Venue'' \<in> allowed then ''Activity Venue''
      else if (''museum'' \<in> t \<or> ''art_gallery'' \<in> t \<or> ''stadium'' \<in> t \<or> ''theater'' \<in> t)
              \<and> ''Activity'' \<in> allowed then ''Activity''
      else firstAllowedOr vibe ''Cafe'')"

lemma dom_ALLOWED_BY_VIBE:
  "dom ALLOWED_BY_VIBE = {''Cozy'', ''Outdoors'', ''Productive'', ''Social'', ''Luxury''}"
  by (auto simp add: ALLOWED_BY_VIBE_def split: if_splits)

lemma allowedFor_Productive:
  "allowedFor ''Productive'' = [''Library'', ''Work Cafe'', ''Quiet Workspace'', ''Study Spot'']"
  by (simp add: allowedFor_def ALLOWED_BY_VIBE_def)

lemma allowedFor_Social:
  "allowedFor ''Social'' = [''Bar'', ''Group Dining'', ''Activity Venue'', ''Event Space'']"
  by (simp add: allowedFor_def ALLOWED_BY_VIBE_def)

lemma allowedFor_Luxury:
  "allowedFor ''Luxury'' =
     [''Fine Dining'', ''Rooftop Bar'', ''Specialty Dessert'', ''Premium Spot'']"
  by (simp add: allowedFor_def ALLOWED_BY_VIBE_def)

lemma firstAllowedOr_keys:
  "firstAllowedOr ''Cozy'' d = ''Cafe''"
  "firstAllowedOr ''Outdoors'' d = ''Park''"
  "firstAllowedOr ''Productive'' d = ''Library''"
  "firstAllowedOr ''Social'' d = ''Bar''"
  "firstAllowedOr ''Luxury'' d = ''Fine Dining''"
  by (simp_all add: firstAllowedOr_def ALLOWED_BY_VIBE_def)

text \<open>Every result is an allowed category that was tested, or the indexed fallback.\<close>

lemma if_branches: "(c \<Longrightarrow> Q a) \<Longrightarrow> (\<not> c \<Longrightarrow> Q b) \<Longrightarrow> Q (if c then a else b)"
  by simp

lemma googleTypeToInternalCategory_cases:
  assumes "\<And>c. c \<in> set (allowedFor vibe) \<Longrightarrow> P c"
    and "\<And>d. P (firstAllowedOr vibe d)"
  shows "P (googleTypeToInternalCategory types vibe)"
  unfolding googleTypeToInternalCategory_def Let_def
  apply (intro if_branches [where Q = P])
  apply (elim conjE | erule assms(1) | rule assms(2))+
  done

lemma firstAllowedOr_allowed:
  assumes "vibe \<in> dom ALLOWED_BY_VIBE"
  shows "firstAllowedOr vibe d \<in> set (allowedFor vibe)"
proof -
  from assms consider "vibe = ''Cozy''" | "vibe = ''Outdoors''" | "vibe = ''Productive''"
    | "vibe = ''Social''" | "vibe = ''Luxury''"
    unfolding dom_ALLOWED_BY_VIBE by blast
  then show ?thesis
    by cases (simp_all add: firstAllowedOr_keys allowedFor_Cozy allowedFor_Outdoors
        allowedFor_Productive allowedFor_Social allowedFor_Luxury)
qed

lemma googleTypeToInternalCategory_allowed:
  assumes "vibe \<in> dom ALLOWED_BY_VIBE"
  shows "googleTypeToInternalCategory types vibe \<in> set (allowedFor vibe)"
  by (rule googleTypeToInternalCategory_cases) (simp_all add: firstAllowedOr_allowed assms)

subsection \<open>Scoring\<close>

definition vibeStrengthBoost :: "string \<Rightarrow> string \<Rightarrow> real" where
  "vibeStrengthBoost vibe category' =
     (let c = toLowerCase category'; v = toLowerCase vibe in
      if v = ''productive'' then
        (if str_includes c ''library'' then 18
         else if str_includes c ''quiet workspace'' then 14
         else if str_includes c ''work cafe'' then 12
         else if str_includes c ''study'' then 10
         else 6)
      else if v = ''social'' then
        (if str_includes c ''bar'' then 16
         else if str_includes c ''activity venue'' then 16
         else if str_includes c ''group dining'' then 12
         else if str_includes c ''event space'' then 10
         else 6)
      else if v = ''cozy'' then
        (if str_includes c ''tea'' then 14
         else if str_includes c ''dessert'' then 12
         else if str_includes c ''cafe'' then 10
         else if str_includes c ''book'' then 10
         else if str_includes c ''wine'' then 10
         else 6)
      else if v = ''outdoors'' then
        (if str_includes c ''waterfront'' then 14
         else if str_includes c ''park'' then 12
         else if str_includes c ''scenic'' then 12
         else if str_includes c ''outdoor market'' then 10
         else if str_includes c ''activity'' then 10
         else 6)
      else if v = ''luxury'' then
        (if str_includes c ''fine dining'' then 16
         else if str_includes c ''rooftop'' then 14
         else if str_includes c ''premium'' then 12
         else if str_includes c ''specialty dessert'' then 10
         else 6)
      else 6)"

definition timeOfDayBoost :: "int \<Rightarrow> string \<Rightarrow> real" where
  "timeOfDayBoost cityHour' category' =
     (let c = toLowerCase category';
          morning = (cityHour' \<ge> 6 \<and> cityHour' \<le> 11);
          afternoon = (cityHour' \<ge> 12 \<and> cityHour' \<le> 16);
          evening = (cityHour' \<ge> 17 \<and> cityHour' \<le> 21);
          late = (cityHour' \<ge> 22 \<or> cityHour' \<le> 2)
      in
      if morning then
        (if str_includes c ''cafe'' \<or> str_includes c ''tea'' \<or> str_includes c ''dessert''
         then 10 else 0)
        + (if str_includes c ''library'' \<or> str_includes c ''study''
              \<or> str_includes c ''quiet workspace'' then 8 else 0)
      else if afternoon then
        (if str_includes c ''cafe'' \<or> str_includes c ''dessert'' then 6 else 0)
        + (if str_includes c ''activity'' then 6 else 0)
        + (if str_includes c ''park'' \<or> str_includes c ''scenic''
              \<or> str_includes c ''waterfront'' \<or> str_includes c ''outdoor'' then 4 else 0)
      else if evening then
        (if str_includes c ''bar'' \<or> str_includes c ''group dining''
            \<or> str_includes c ''fine dining'' \<or> str_includes c ''rooftop'' then 10 else 0)
        + (if str_includes c ''event space'' \<or> str_includes c ''activity venue''
           then 6 else 0)
      else if late then
        (if str_includes c ''bar'' \<or> str_includes c ''rooftop''
            \<or> str_includes c ''group dining'' then 8 else 0)
        - (if str_includes c ''cafe'' \<or> str_includes c ''library''
              \<or> str_includes c ''book'' then 6 else 0)
        - (if str_includes c ''park'' \<or> str_includes c ''scenic''
              \<or> str_includes c ''waterfront'' then 10 else 0)
      else 0)"

definition weatherSoftBoost :: "Flags \<Rightarrow> string \<Rightarrow> real" where
  "weatherSoftBoost flags' category' =
     (let outdoorish = isOutdoorishCategory category';
          bad = (precip flags' \<or> veryCold flags' \<or> veryWindy flags')
      in if \<not> bad then (if outdoorish then 4 else 0)
         else (if outdoorish then - 6 else 6))"

text \<open>
  \<^verbatim>\<open>scoreOption\<close>; \<open>jitter\<close> is the value of \<^verbatim>\<open>Math.random()\<close> the call draws.
\<close>

definition scoreOption ::
  "PlanOption \<Rightarrow> Flags \<Rightarrow> int \<Rightarrow> string \<Rightarrow> bool \<Rightarrow> string set \<Rightarrow> string set \<Rightarrow> real \<Rightarrow> real" where
  "scoreOption opt flags' cityHour' vibe vegFriendly seenSet swappedSet jitter =
     (let s1 = (case rating opt of None \<Rightarrow> 4.2 | Some r \<Rightarrow> r) * 10;
          s2 = (case userRatingsTotal opt of
                  None \<Rightarrow> 0
                | Some n \<Rightarrow> if n = 0 then 0 else log 10 (real n + 1) * 6);
          s3 = vibeStrengthBoost vibe (category opt);
          s4 = timeOfDayBoost cityHour' (category opt);
          s5 = weatherSoftBoost flags' (category opt);
          pid = trim (case placeId opt of None \<Rightarrow> [] | Some p \<Rightarrow> p);
          s6 = (if pid \<noteq> [] then
                  (if pid \<in> swappedSet then - 80 else if pid \<in> seenSet then - 35 else 0)
                else 0);
          openText = toLowerCase (openStatus opt);
          s7 = (if str_includes openText ''hours unknown'' then - 4 else 0);
          cat = toLowerCase (category opt);
          foodish = (str_includes cat ''dining'' \<or> str_includes cat ''fine dining''
                     \<or> str_includes cat ''cafe'' \<or> str_includes cat ''dessert''
                     \<or> str_includes cat ''rooftop'' \<or> str_includes cat ''wine''
                     \<or> str_includes cat ''bar'');
          s8 = (if vegFriendly \<and> foodish then 6 else 0)
      in s1 + s2 + s3 + s4 + s5 + s6 + s7 + s8 + (jitter - 0.5) * 2.6)"

subsection \<open>Weighted pick\<close>

fun pickLoop :: "real \<Rightarrow> (real \<times> 'a) list \<Rightarrow> 'a option" where
  "pickLoop r [] = None"
| "pickLoop r ((w, x) # rest) = (if r - w \<le> 0 then Some x else pickLoop (r - w) rest)"

text \<open>
  \<^verbatim>\<open>weightedPick\<close>; \<open>draw\<close> is the value of \<^verbatim>\<open>Math.random()\<close>. The sum of the
  weights is a real here, so the \<^verbatim>\<open>isFinite\<close> test always passes.
\<close>

definition weightedPick :: "real \<Rightarrow> PlanOption list \<Rightarrow> PlanOption option" where
  "weightedPick draw items =
     (let temp = 18;
          weights = map (\<lambda>x. exp ((case score x of None \<Rightarrow> 0 | Some s \<Rightarrow> s) / temp)) items;
          sum = sum_list weights
      in if sum \<le> 0 then (case items of [] \<Rightarrow> None | x # xs \<Rightarrow> Some x)
         else (case pickLoop (draw * sum) (zip weights items) of
                 Some x \<Rightarrow> Some x
               | None \<Rightarrow> if items = [] then None else Some (last items)))"

lemma pickLoop_mem: "pickLoop r wxs = Some x \<Longrightarrow> x \<in> snd ` set wxs"
  by (induction r wxs rule: pickLoop.induct) (auto split: if_splits)

lemma weightedPick_mem:
  assumes "weightedPick draw items = Some x"
  shows "x \<in> set items"
proof (cases "sum_list (map (\<lambda>x. exp ((case score x of None \<Rightarrow> 0 | Some s \<Rightarrow> s) / 18)) items) \<le> 0")
  case True
  with assms show ?thesis
    by (cases items) (auto simp add: weightedPick_def)
next
  case False
  let ?ws = "map (\<lambda>x. exp ((case score x of None \<Rightarrow> 0 | Some s \<Rightarrow> s) / 18)) items"
  show ?thesis
  proof (cases "pickLoop (draw * sum_list ?ws) (zip ?ws items)")
    case None
    with assms False show ?thesis
      by (auto simp add: weightedPick_def split: if_splits)
  next
    case (Some y)
    with assms False have "y = x"
      by (simp add: weightedPick_def)
    moreover from Some have "y \<in> snd ` set (zip ?ws items)"
      by (rule pickLoop_mem)
    ultimately show ?thesis
      by (auto dest: set_zip_rightD)
  qed
qed

lemma weightedPick_nonempty:
  "items \<noteq> [] \<Longrightarrow> \<exists>x. weightedPick draw items = Some x"
  by (cases items) (auto simp add: weightedPick_def Let_def split: option.splits)

text \<open>With draw 0 the loop stops at the first item: every weight is positive.\<close>

lemma weightedPick_zero: "weightedPick 0 (x # xs) = Some x"
proof -
  let ?w = "\<lambda>x. exp ((case score x of None \<Rightarrow> 0 | Some s \<Rightarrow> s) / 18)"
  have "0 \<le> sum_list (map ?w xs)"
    by (rule sum_list_nonneg) auto
  moreover have "0 < ?w x" by simp
  ultimately have pos: "\<not> ?w x + sum_list (map ?w xs) \<le> 0"
    by linarith
  show ?thesis
    using pos by (simp add: weightedPick_def)
qed

subsection \<open>Selection loop and pool diversity\<close>

text \<open>\<^verbatim>\<open>o.category || "Other"\<close>, the key of the per-category counters.\<close>

definition catKey :: "PlanOption \<Rightarrow> string" where
  "catKey opt = (if category opt = [] then ''Other'' else category opt)"

text \<open>\<^verbatim>\<open>(o.placeId ?? "").trim() || o.name.toLowerCase()\<close>.\<close>

definition pickKey :: "PlanOption \<Rightarrow> string" where
  "pickKey opt =
     (let p = trim (case placeId opt of None \<Rightarrow> [] | Some p \<Rightarrow> p)
      in if p \<noteq> [] then p else toLowerCase (name opt))"

definition getCount :: "(string \<rightharpoonup> nat) \<Rightarrow> string \<Rightarrow> nat" where
  "getCount counts c = (case counts c of None \<Rightarrow> 0 | Some n \<Rightarrow> n)"

text \<open>
  The \<^verbatim>\<open>while\<close> loop that picks the shortlist: \<open>rnd\<close> is the random source, \<open>k\<close> the
  index of its next draw.
\<close>

function selectLoop ::
  "(nat \<Rightarrow> real) \<Rightarrow> nat \<Rightarrow> PlanOption list \<Rightarrow> (string \<rightharpoonup> nat) \<Rightarrow> PlanOption list
     \<Rightarrow> PlanOption list" where
  "selectLoop rnd k picked catCount remaining =
     (if length picked < 5 \<and> remaining \<noteq> [] then
        (let candidatesNow = filter (\<lambda>p. getCount catCount (catKey p) < 2) remaining;
             poolForPick = (if candidatesNow \<noteq> [] then candidatesNow else remaining)
         in case weightedPick (rnd k) poolForPick of
              None \<Rightarrow> picked
            | Some chosen \<Rightarrow>
                selectLoop rnd (k + 1) (picked @ [chosen])
                  (catCount(catKey chosen \<mapsto> getCount catCount (catKey chosen) + 1))
                  (filter (\<lambda>p. pickKey p \<noteq> pickKey chosen) remaining))
      else picked)"
  by pat_completeness auto
termination
proof (relation "measure (\<lambda>(rnd, k, picked, catCount, remaining). length remaining)")
  show "wf (measure (\<lambda>(rnd, k, picked, catCount, remaining). length remaining))"
    by simp
next
  fix rnd :: "nat \<Rightarrow> real" and k :: nat and picked :: "PlanOption list"
    and catCount :: "string \<rightharpoonup> nat" and remaining candidatesNow poolForPick :: "PlanOption list"
    and chosen :: PlanOption
  assume cn: "candidatesNow = filter (\<lambda>p. getCount catCount (catKey p) < 2) remaining"
    and pp: "poolForPick = (if candidatesNow \<noteq> [] then candidatesNow else remaining)"
    and wp: "weightedPick (rnd k) poolForPick = Some chosen"
  from wp have "chosen \<in> set poolForPick"
    by (rule weightedPick_mem)
  with cn pp have "chosen \<in> set remaining"
    by (auto split: if_splits)
  then have "length (filter (\<lambda>p. pickKey p \<noteq> pickKey chosen) remaining) < length remaining"
    by (intro length_filter_less) auto
  then show "((rnd, k + 1, picked @ [chosen],
               catCount(catKey chosen \<mapsto> getCount catCount (catKey chosen) + 1),
               filter (\<lambda>p. pickKey p \<noteq> pickKey chosen) remaining),
              (rnd, k, picked, catCount, remaining))
             \<in> measure (\<lambda>(rnd, k, picked, catCount, remaining). length remaining)"
    by simp
qed

declare selectLoop.simps [simp del]

text \<open>
  The shortlist: the loop over the first 30 strict candidates, then the check that
  replaces the last pick when all five share one category.
\<close>

definition selectShortlist :: "(nat \<Rightarrow> real) \<Rightarrow> nat \<Rightarrow> PlanOption list \<Rightarrow> PlanOption list" where
  "selectShortlist rnd k strictCandidates =
     (let top30 = take 30 strictCandidates;
          picked = selectLoop rnd k [] Map.empty top30
      in if length picked = 5 \<and> card (set (map category picked)) = 1 then
           (case find (\<lambda>p. category p \<noteq> category (picked ! 0)) top30 of
              Some alt \<Rightarrow> picked[length picked - 1 := alt]
            | None \<Rightarrow> picked)
         else picked)"

fun diversifyLoop :: "nat \<Rightarrow> (string \<rightharpoonup> nat) \<Rightarrow> PlanOption list \<Rightarrow> PlanOption list" where
  "diversifyLoop maxPerCategory counts [] = []"
| "diversifyLoop maxPerCategory counts (it # items) =
     (let c = catKey it; n = getCount counts c in
      if n \<ge> maxPerCategory then diversifyLoop maxPerCategory counts items
      else it # diversifyLoop maxPerCategory (counts(c \<mapsto> n + 1)) items)"

definition diversifyPool :: "PlanOption list \<Rightarrow> nat \<Rightarrow> PlanOption list" where
  "diversifyPool items maxPerCategory = diversifyLoop maxPerCategory Map.empty items"

section \<open>Provider, cache and retrieval\<close>

text \<open>\<^verbatim>\<open>type GoogleCandidate = { placeId, name, lat, lng }\<close>.\<close>

record GoogleCandidate = LatLng +
  cand_placeId :: string
  cand_name :: string

text \<open>The payload \<^verbatim>\<open>fetchPlaceDetailsById\<close> builds and caches.\<close>

record PlaceDetails =
  d_placeId :: string
  d_name :: string
  d_rating :: "real option"
  d_userRatingsTotal :: "nat option"
  d_priceLevel :: "int option"
  d_types :: "string list"
  d_openNow :: "bool option"
  d_businessStatus :: "string option"
  d_closingTime :: "string option"
  d_closeTs :: "int option"
  d_formattedAddress :: "string option"
  d_lat :: "real option"
  d_lng :: "real option"
  d_photoUrls :: "string list"

text \<open>An exception thrown by a call, and the reply of an HTTP call that returned.\<close>

datatype thrown = RedisFailure | FetchFailure | TypeError | OpenAIFailure | AuthFailure

datatype 'a http = NotOk | BadJson | Body 'a

text \<open>
  What the outside world answers during one request. \<open>redisGet\<close> and \<open>redisSetPx\<close> are
  the results of the two Redis helpers (an \<open>Inl\<close> is a thrown error: store not
  reachable, reply not ok, timeout); the store is read as a snapshot. The fetch fields
  are the results of \<^verbatim>\<open>fetchWithTimeout\<close> with the body already mapped to candidates
  or to the details payload. The cache keys (a hash), \<^verbatim>\<open>JSON.parse\<close> and
  \<^verbatim>\<open>JSON.stringify\<close> are parameters: \<open>parseCandidates\<close> is \<open>None\<close> when the text
  does not parse to an array, \<open>parseDetails\<close> is \<open>None\<close> when it does not parse and
  \<open>Some None\<close> when it parses to a falsy value.
\<close>

record Backend =
  googleKey :: bool
  hasRedis :: bool
  redisGet :: "string \<Rightarrow> thrown + string option"
  redisSetPx :: "string \<Rightarrow> string \<Rightarrow> int \<Rightarrow> thrown + unit"
  searchCacheKey :: "string \<Rightarrow> LatLng \<Rightarrow> int \<Rightarrow> string \<Rightarrow> string"
  detailsCacheKey :: "string \<Rightarrow> int \<Rightarrow> string"
  parseCandidates :: "string \<Rightarrow> GoogleCandidate list option"
  stringifyCandidates :: "GoogleCandidate list \<Rightarrow> string"
  parseDetails :: "string \<Rightarrow> PlaceDetails option option"
  stringifyDetails :: "PlaceDetails \<Rightarrow> string"
  fetchNearby :: "LatLng \<Rightarrow> int \<Rightarrow> string \<Rightarrow> thrown + GoogleCandidate list http"
  fetchText :: "LatLng \<Rightarrow> int \<Rightarrow> string \<Rightarrow> thrown + GoogleCandidate list http"
  fetchDetails :: "string \<Rightarrow> int \<Rightarrow> thrown + PlaceDetails option http"

definition DETAILS_TTL_MS :: int where
  "DETAILS_TTL_MS = 30 * 60 * 1000"

definition SEARCH_TTL_MS :: int where
  "SEARCH_TTL_MS = 3 * 60 * 1000"

definition CITY_CENTER_RADIUS_SWAP_M :: int where
  "CITY_CENTER_RADIUS_SWAP_M = 16000"

text \<open>\<^verbatim>\<open>try { await redisSetPx(...) } catch {}\<close>.\<close>

definition trySetPx :: "Backend \<Rightarrow> string \<Rightarrow> string \<Rightarrow> int \<Rightarrow> thrown + unit" where
  "trySetPx be key v ttlMs =
     (case redisSetPx be key v ttlMs of Inl e \<Rightarrow> Inr () | Inr u \<Rightarrow> Inr ())"

text \<open>
  The body shared by \<^verbatim>\<open>googleNearbySearch\<close> and \<^verbatim>\<open>googleTextSearch\<close>, which differ in
  the cache key and the URL only. \<^verbatim>\<open>await redisGet(cacheKey)\<close> stands outside the
  \<^verbatim>\<open>try\<close> that guards \<^verbatim>\<open>JSON.parse\<close>.
\<close>

definition searchLane ::
  "Backend \<Rightarrow> bool \<Rightarrow> string \<Rightarrow> (thrown + GoogleCandidate list http)
     \<Rightarrow> thrown + GoogleCandidate list" where
  "searchLane be allowCache cacheKey fetched =
     (if \<not> googleKey be then Inr []
      else
        (case (if allowCache \<and> hasRedis be then
                 (case redisGet be cacheKey of
                    Inl e \<Rightarrow> Inl e
                  | Inr None \<Rightarrow> Inr None
                  | Inr (Some cached) \<Rightarrow>
                      if cached = [] then Inr None else Inr (parseCandidates be cached))
               else Inr None) of
           Inl e \<Rightarrow> Inl e
         | Inr (Some arr) \<Rightarrow> Inr arr
         | Inr None \<Rightarrow>
             (case fetched of
                Inl e \<Rightarrow> Inl e
              | Inr NotOk \<Rightarrow> Inr []
              | Inr BadJson \<Rightarrow> Inr []
              | Inr (Body out) \<Rightarrow>
                  (case (if allowCache \<and> hasRedis be
                         then trySetPx be cacheKey (stringifyCandidates be out) SEARCH_TTL_MS
                         else Inr ()) of
                     Inl e \<Rightarrow> Inl e
                   | Inr u \<Rightarrow> Inr out))))"

definition googleNearbySearch ::
  "Backend \<Rightarrow> LatLng \<Rightarrow> int \<Rightarrow> string \<Rightarrow> bool \<Rightarrow> thrown + GoogleCandidate list" where
  "googleNearbySearch be pos radiusM keyword allowCache =
     searchLane be allowCache
       (searchCacheKey be ''nearby'' pos radiusM (take 80 (toLowerCase keyword)))
       (fetchNearby be pos radiusM keyword)"

definition googleTextSearch ::
  "Backend \<Rightarrow> LatLng \<Rightarrow> int \<Rightarrow> string \<Rightarrow> bool \<Rightarrow> thrown + GoogleCandidate list" where
  "googleTextSearch be pos radiusM query allowCache =
     searchLane be allowCache
       (searchCacheKey be ''text'' pos radiusM (take 90 (toLowerCase query)))
       (fetchText be pos radiusM query)"

definition fetchPlaceDetailsById ::
  "Backend \<Rightarrow> string \<Rightarrow> int \<Rightarrow> thrown + PlaceDetails option" where
  "fetchPlaceDetailsById be pid tzOffsetSec =
     (if \<not> googleKey be then Inr None
      else
        (case (if hasRedis be then
                 (case redisGet be (detailsCacheKey be pid tzOffsetSec) of
                    Inl e \<Rightarrow> Inl e
                  | Inr None \<Rightarrow> Inr None
                  | Inr (Some cached) \<Rightarrow>
                      if cached = [] then Inr None else Inr (parseDetails be cached))
               else Inr None) of
           Inl e \<Rightarrow> Inl e
         | Inr (Some d) \<Rightarrow> Inr d
         | Inr None \<Rightarrow>
             (case fetchDetails be pid tzOffsetSec of
                Inl e \<Rightarrow> Inl e
              | Inr NotOk \<Rightarrow> Inr None
              | Inr BadJson \<Rightarrow> Inr None
              | Inr (Body None) \<Rightarrow> Inr None
              | Inr (Body (Some payload)) \<Rightarrow>
                  (case (if hasRedis be
                         then trySetPx be (detailsCacheKey be pid tzOffsetSec)
                                (stringifyDetails be payload) DETAILS_TTL_MS
                         else Inr ()) of
                     Inl e \<Rightarrow> Inl e
                   | Inr u \<Rightarrow> Inr (Some payload)))))"

subsection \<open>Lanes\<close>

definition fallbackVibesForSwap :: "string \<Rightarrow> string list" where
  "fallbackVibesForSwap primary =
     (if primary = ''Productive'' then [''Productive'', ''Cozy'', ''Social'']
      else if primary = ''Cozy'' then [''Cozy'', ''Productive'', ''Social'']
      else if primary = ''Social'' then [''Social'', ''Cozy'', ''Luxury'']
      else if primary = ''Outdoors'' then [''Outdoors'', ''Social'', ''Cozy'']
      else if primary = ''Luxury'' then [''Luxury'', ''Social'', ''Cozy'']
      else [primary, ''Cozy'', ''Social''])"

definition keywordFor :: "string \<Rightarrow> string" where
  "keywordFor c = (case KEYWORD_BY_CATEGORY c of Some k \<Rightarrow> k | None \<Rightarrow> c)"

text \<open>The insertion order of a JavaScript \<^verbatim>\<open>Set\<close>: first occurrences, in order.\<close>

fun uniqFirst :: "'a list \<Rightarrow> 'a list \<Rightarrow> 'a list" where
  "uniqFirst seen [] = []"
| "uniqFirst seen (x # xs) =
     (if x \<in> set seen then uniqFirst seen xs else x # uniqFirst (x # seen) xs)"

definition vegKeyword :: "string \<Rightarrow> string" where
  "vegKeyword kw =
     (let k = toLowerCase kw;
          isFood = (str_includes k ''restaurant'' \<or> str_includes k ''fine dining''
                    \<or> str_includes k ''cafe'' \<or> str_includes k ''dessert''
                    \<or> str_includes k ''rooftop'' \<or> str_includes k ''wine bar''
                    \<or> str_includes k ''bar'')
      in if isFood then kw @ '' vegetarian'' else kw)"

definition baseTextFor :: "string \<Rightarrow> string list" where
  "baseTextFor vibe =
     (if vibe = ''Productive'' then
        [''coworking'', ''study cafe'', ''quiet cafe'', ''work cafe'', ''library'',
         ''coffee shop laptop'', ''wifi cafe'']
      else if vibe = ''Cozy'' then
        [''cozy cafe'', ''tea house'', ''dessert cafe'', ''bookstore cafe'', ''quiet cafe'']
      else if vibe = ''Social'' then
        [''cocktail bar'', ''bar'', ''fun activity'', ''arcade'', ''group dining'']
      else if vibe = ''Outdoors'' then
        [''park'', ''waterfront'', ''scenic walk'', ''outdoor market'']
      else if vibe = ''Luxury'' then
        [''fine dining'', ''rooftop bar'', ''tasting menu'', ''premium lounge'']
      else [])"

definition buildLaneQueries :: "string \<Rightarrow> bool \<Rightarrow> string list \<times> string list" where
  "buildLaneQueries vibe vegFriendly =
     (let allowed = allowedFor vibe;
          baseNearby = map keywordFor allowed;
          nearbyKeywords =
            take 8 (filter (\<lambda>s. s \<noteq> [])
              ((if vegFriendly then map vegKeyword baseNearby else baseNearby)
               @ [toLowerCase vibe @ '' spots'']));
          vegText = (if vegFriendly then
                       [''vegetarian restaurant'', ''vegan restaurant'', ''vegetarian cafe'',
                        ''vegan cafe'', ''plant based restaurant'']
                     else []);
          textQueries =
            take 10 (filter (\<lambda>s. s \<noteq> [])
              (uniqFirst [] (vegText @ baseTextFor vibe @ map keywordFor allowed)))
      in (nearbyKeywords, textQueries))"

text \<open>Awaiting a list of promises: the first rejection is thrown.\<close>

fun awaitAll :: "('e + 'a) list \<Rightarrow> 'e + 'a list" where
  "awaitAll [] = Inr []"
| "awaitAll (Inl e # rs) = Inl e"
| "awaitAll (Inr x # rs) = (case awaitAll rs of Inl e \<Rightarrow> Inl e | Inr xs \<Rightarrow> Inr (x # xs))"

text \<open>The loop that keeps the first candidate of each non-empty placeId.\<close>

fun dedupById :: "string list \<Rightarrow> ('a GoogleCandidate_scheme) list \<Rightarrow> ('a GoogleCandidate_scheme) list" where
  "dedupById seen [] = []"
| "dedupById seen (c # cs) =
     (if cand_placeId c = [] then dedupById seen cs
      else if cand_placeId c \<in> set seen then dedupById seen cs
      else c # dedupById (cand_placeId c # seen) cs)"

definition collectCandidatesMultiLane ::
  "Backend \<Rightarrow> LatLng \<Rightarrow> string \<Rightarrow> int \<Rightarrow> bool \<Rightarrow> bool \<Rightarrow> thrown + GoogleCandidate list" where
  "collectCandidatesMultiLane be ctr vibeForLanes radiusM allowCache vegFriendly =
     (case buildLaneQueries vibeForLanes vegFriendly of
        (nearbyKeywords, textQueries) \<Rightarrow>
          (let nearbyJobs = map (\<lambda>kw. googleNearbySearch be ctr radiusM kw allowCache) nearbyKeywords;
               textJobs = map (\<lambda>q. googleTextSearch be ctr radiusM q allowCache) textQueries
           in case awaitAll (nearbyJobs @ textJobs) of
                Inl e \<Rightarrow> Inl e
              | Inr results \<Rightarrow> Inr (dedupById [] (concat results))))"

text \<open>
  The retrieval loop of the route over \<^verbatim>\<open>vibeOrder\<close>: it stops after the run that
  brings the accumulated count to 140.
\<close>

fun gatherLoop ::
  "(string \<Rightarrow> thrown + GoogleCandidate list) \<Rightarrow> string list \<Rightarrow> GoogleCandidate list
     \<Rightarrow> thrown + GoogleCandidate list" where
  "gatherLoop lanes [] allCandidates = Inr allCandidates"
| "gatherLoop lanes (vLane # rest) allCandidates =
     (case lanes vLane of
        Inl e \<Rightarrow> Inl e
      | Inr candidates \<Rightarrow>
          if length (allCandidates @ candidates) \<ge> 140 then Inr (allCandidates @ candidates)
          else gatherLoop lanes rest (allCandidates @ candidates))"

section \<open>Building options and the route\<close>

definition emDash :: string where
  "emDash = [CHR 0xE2, CHR 0x80, CHR 0x94]"

definition defaultWatchouts :: "string list" where
  "defaultWatchouts = [''Can be busy at peak hours'', ''Check live hours on Maps'']"

text \<open>
  The body of the loop of \<^verbatim>\<open>buildOptionsFromCandidates\<close> for one details result:
  \<open>None\<close> where the code says \<^verbatim>\<open>continue\<close>.
\<close>

definition buildOption :: "string \<Rightarrow> string set \<Rightarrow> LatLng \<Rightarrow> PlaceDetails option \<Rightarrow> PlanOption option" where
  "buildOption vibe allowed ctr dOpt =
     (case dOpt of
        None \<Rightarrow> None
      | Some d \<Rightarrow>
          if d_businessStatus d = Some ''CLOSED_PERMANENTLY'' then None
          else if d_openNow d = Some False then None
          else if googleTypeToInternalCategory (d_types d) vibe \<notin> allowed then None
          else Some
            \<lparr>lat = (case d_lat d of Some x \<Rightarrow> x | None \<Rightarrow> lat ctr),
             lng = (case d_lng d of Some x \<Rightarrow> x | None \<Rightarrow> lng ctr),
             opt_id = d_placeId d,
             name = d_name d,
             category = googleTypeToInternalCategory (d_types d) vibe,
             rating = Some (clamp (case d_rating d of Some r \<Rightarrow> r | None \<Rightarrow> 4.4) 4.1 5.0),
             etaMin = 20,
             openStatus =
               (if d_openNow d = Some True then
                  (case d_closingTime d of
                     None \<Rightarrow> ''Open now''
                   | Some ct \<Rightarrow>
                       if ct = [] then ''Open now''
                       else ''Open now '' @ bullet @ '' Closes at '' @ ct)
                else ''Hours unknown '' @ bullet @ '' Check on Maps''),
             why = emDash,
             watchouts = defaultWatchouts,
             address = (case d_formattedAddress d of Some a \<Rightarrow> a | None \<Rightarrow> []),
             closingTime = d_closingTime d,
             placeId = Some (d_placeId d),
             priceLevel = d_priceLevel d,
             userRatingsTotal = d_userRatingsTotal d,
             closeTs = d_closeTs d,
             photoUrls = d_photoUrls d,
             score = None\<rparr>)"

definition candPos :: "GoogleCandidate \<Rightarrow> LatLng" where
  "candPos c = \<lparr>lat = lat c, lng = lng c\<rparr>"

definition buildOptionsFromCandidates ::
  "Backend \<Rightarrow> GoogleCandidate list \<Rightarrow> int \<Rightarrow> string \<Rightarrow> string set \<Rightarrow> LatLng
     \<Rightarrow> thrown + PlanOption list" where
  "buildOptionsFromCandidates be candidates tzOffsetSec vibe allowed ctr =
     (let sorted = sort_key (\<lambda>c. haversineKm ctr (candPos c)) candidates;
          slice = take DETAILS_CAP_TOTAL sorted
      in case awaitAll (map (\<lambda>c. fetchPlaceDetailsById be (cand_placeId c) tzOffsetSec) slice) of
           Inl e \<Rightarrow> Inl e
         | Inr detailsList \<Rightarrow> Inr (List.map_filter (buildOption vibe allowed ctr) detailsList))"

subsection \<open>Request, environment, response\<close>

record PlanRequest =
  req_city :: "string option"
  req_vibe :: "string option"
  req_withWho :: "string option"
  req_vegFriendly :: bool
  req_seenPlaceIds :: "string list"
  req_swappedPlaceIds :: "string list"

text \<open>
  What the route derives from \<^verbatim>\<open>getWeather\<close>: the flags, the city's local hour and
  the time zone offset.
\<close>

record WeatherInfo =
  w_flags :: Flags
  w_cityHour :: int
  w_tzOffsetSec :: int

text \<open>
  One request and its world: the sign-in and rate limit outcome (\<open>Some status\<close> is a
  denial), the parsed body (\<open>None\<close>: invalid JSON), the weather, the clock (one reading
  for the request), the random source and the validated copy the text generator
  returned.
\<close>

record Env =
  backend :: Backend
  env_admission :: "thrown + int option"
  env_body :: "PlanRequest option"
  env_weather :: "thrown + WeatherInfo"
  env_now :: int
  env_rnd :: "nat \<Rightarrow> real"
  env_gptCopy :: "thrown + (string \<rightharpoonup> string \<times> string list)"

text \<open>
  The JSON of a successful response: the shortlist and the pool (\<^verbatim>\<open>meta.pool\<close>) with
  the availability flag; the reason text and the weather echo are left out.
\<close>

record PlanResponse =
  res_options :: "PlanOption list"
  res_pool :: "PlanOption list"
  res_limitedAvailability :: bool

datatype response = Failure int | Success PlanResponse

subsection \<open>Stages of the route\<close>

definition placeIdText :: "PlanOption \<Rightarrow> string" where
  "placeIdText opt = trim (case placeId opt of None \<Rightarrow> [] | Some p \<Rightarrow> p)"

text \<open>The sort that puts candidates not seen before first, nearer ones first among equals.\<close>

definition prioritize :: "string set \<Rightarrow> LatLng \<Rightarrow> GoogleCandidate list \<Rightarrow> GoogleCandidate list" where
  "prioritize seenSet ctr cs =
     sort_key (\<lambda>c. (if cand_placeId c \<in> seenSet then 1 else 0 :: nat,
                     haversineKm ctr (candPos c))) cs"

definition scoreAll ::
  "(nat \<Rightarrow> real) \<Rightarrow> Flags \<Rightarrow> int \<Rightarrow> string \<Rightarrow> bool \<Rightarrow> string set \<Rightarrow> string set
     \<Rightarrow> PlanOption list \<Rightarrow> PlanOption list" where
  "scoreAll draws flags' cityHour' vibe vegFriendly seenSet swappedSet built =
     sort_key (\<lambda>p. - (case score p of None \<Rightarrow> 0 | Some s \<Rightarrow> s))
       (map (\<lambda>(p, i). p\<lparr>score := Some (scoreOption p flags' cityHour' vibe vegFriendly
                                          seenSet swappedSet (draws i))\<rparr>)
            (zip built [0..<length built]))"

definition dedupKey :: "PlanOption \<Rightarrow> string" where
  "dedupKey opt =
     (if placeIdText opt \<noteq> [] then placeIdText opt
      else toLowerCase (name opt) @ ''|'' @ toLowerCase (address opt))"

fun dedupOptions :: "string list \<Rightarrow> PlanOption list \<Rightarrow> PlanOption list" where
  "dedupOptions seenKeys [] = []"
| "dedupOptions seenKeys (p # ps) =
     (if dedupKey p \<in> set seenKeys then dedupOptions seenKeys ps
      else p # dedupOptions (dedupKey p # seenKeys) ps)"

definition swapFeasible :: "int \<Rightarrow> RejectArgs \<Rightarrow> PlanOption list \<Rightarrow> PlanOption list" where
  "swapFeasible nowMs relaxed deduped = filter (\<lambda>p. hardReject nowMs p relaxed = None) deduped"

definition swapPoolOf :: "string set \<Rightarrow> PlanOption list \<Rightarrow> PlanOption list" where
  "swapPoolOf seenSet feasible =
     (let swapNotSeen = filter (\<lambda>p. placeIdText p \<notin> seenSet) feasible;
          swapPool = (if length swapNotSeen \<ge> (TARGET_SWAP_POOL * 7) div 10
                      then swapNotSeen else feasible)
      in take MAX_POOL_RETURN (diversifyPool swapPool 6))"

definition hasClose :: "PlanOption \<Rightarrow> bool" where
  "hasClose p =
     ((closeTs p \<noteq> None \<and> closeTs p \<noteq> Some 0)
      \<or> (closingTime p \<noteq> None \<and> closingTime p \<noteq> Some []))"

definition strictCandidates :: "int \<Rightarrow> RejectArgs \<Rightarrow> PlanOption list \<Rightarrow> PlanOption list" where
  "strictCandidates nowMs strict deduped =
     filter (\<lambda>p. str_includes (toLowerCase (openStatus p)) ''open now''
                 \<and> hasClose p
                 \<and> hardReject nowMs p strict = None) deduped"

definition applyCopy ::
  "(string \<rightharpoonup> string \<times> string list) \<Rightarrow> string \<Rightarrow> string \<Rightarrow> bool \<Rightarrow> PlanOption \<Rightarrow> PlanOption" where
  "applyCopy copyById vibe withWho vegFriendly opt =
     (let pid = placeIdText opt;
          copy = (if pid \<noteq> [] then copyById pid else None);
          fallbackWhy = ''Fits a '' @ vibe @ '' vibe with '' @ toLowerCase withWho @ ''.'';
          why1 = (case copy of
                    Some (w, ws) \<Rightarrow> if w \<noteq> [] then w else fallbackWhy
                  | None \<Rightarrow> fallbackWhy);
          watch1 = take 2 (case copy of
                             Some (w, ws) \<Rightarrow> if ws \<noteq> [] then ws else defaultWatchouts
                           | None \<Rightarrow> defaultWatchouts);
          cat = toLowerCase (category opt);
          foodish = (str_includes cat ''dining'' \<or> str_includes cat ''fine dining''
                     \<or> str_includes cat ''cafe'' \<or> str_includes cat ''dessert''
                     \<or> str_includes cat ''rooftop'' \<or> str_includes cat ''wine'');
          watch2 = (if vegFriendly \<and> foodish \<and> \<not> str_includes (toLowerCase why1) ''veget''
                    then take 2 [case watch1 of w # ws \<Rightarrow> w | [] \<Rightarrow> ''Can be busy at peak hours'',
                                 ''Veg options not confirmed '' @ emDash @ '' check menu.'']
                    else watch1)
      in opt\<lparr>why := why1, watchouts := watch2\<rparr>)"

definition digitChar :: "nat \<Rightarrow> char" where
  "digitChar n = ''0123456789'' ! n"

fun decimal :: "nat \<Rightarrow> string" where
  "decimal n = (if n < 10 then [digitChar n] else decimal (n div 10) @ [digitChar (n mod 10)])"

declare decimal.simps [simp del]

text \<open>The shortlist ids "1".."5" and the removal of \<^verbatim>\<open>_score\<close>.\<close>

definition finalOptions :: "PlanOption list \<Rightarrow> PlanOption list" where
  "finalOptions picked =
     map (\<lambda>(p, idx). p\<lparr>opt_id := decimal (idx + 1)\<rparr>) (zip picked [0..<length picked])"

definition toPublicOption :: "PlanOption \<Rightarrow> PlanOption" where
  "toPublicOption p = p\<lparr>score := None\<rparr>"

text \<open>
  The handler. A vibe or a city that is only an inherited property name passes the
  defaulting and then throws (\<^verbatim>\<open>new Set\<close> of a non-iterable, a read of
  \<^verbatim>\<open>lat\<close> on a missing center); the handler's \<^verbatim>\<open>catch\<close> turns every thrown error
  into status 500.
\<close>

definition POST :: "Env \<Rightarrow> response" where
  "POST env =
     (if \<not> googleKey (backend env) then Failure 500
      else case env_admission env of
        Inl e \<Rightarrow> Failure 500
      | Inr (Some status) \<Rightarrow> Failure status
      | Inr None \<Rightarrow>
      (case env_body env of
        None \<Rightarrow> Failure 400
      | Some body \<Rightarrow>
      (let city = pickDefaultCity (req_city body);
           vibe = pickDefaultVibe (req_vibe body);
           withWho = safeString (req_withWho body) ''Solo'';
           vegFriendly = req_vegFriendly body;
           seenSet = set (sanitizeIdList (req_seenPlaceIds body) MAX_SEEN_IDS);
           swappedSet = set (sanitizeIdList (req_swappedPlaceIds body) MAX_SWAPPED_IDS);
           allowed = set (allowedFor vibe)
       in
       if ALLOWED_BY_VIBE vibe = None then Failure 500
       else case CITY_CENTERS city of
         None \<Rightarrow> Failure 500
       | Some ctr \<Rightarrow>
       (case env_weather env of
         Inl e \<Rightarrow> Failure 500
       | Inr weather \<Rightarrow>
       (let flags' = w_flags weather;
            cityHour' = w_cityHour weather;
            tzOffsetSec = w_tzOffsetSec weather;
            cityNow' = env_now env + tzOffsetSec * 1000;
            vibeOrder = fallbackVibesForSwap vibe
        in
        case gatherLoop
               (\<lambda>vLane. collectCandidatesMultiLane (backend env) ctr vLane
                           CITY_CENTER_RADIUS_SWAP_M True vegFriendly)
               vibeOrder [] of
          Inl e \<Rightarrow> Failure 500
        | Inr gathered \<Rightarrow>
        (let allCandidates = prioritize seenSet ctr (dedupById [] gathered);
             candidatesFiltered = filter (\<lambda>c. cand_placeId c \<notin> swappedSet) allCandidates
         in
         case buildOptionsFromCandidates (backend env) candidatesFiltered tzOffsetSec vibe
                allowed ctr of
           Inl e \<Rightarrow> Failure 500
         | Inr built \<Rightarrow>
         (let scoredAll = scoreAll (env_rnd env) flags' cityHour' vibe vegFriendly
                            seenSet swappedSet built;
              deduped = dedupOptions [] scoredAll;
              swapPool = swapPoolOf seenSet
                           (swapFeasible (env_now env)
                              (relaxedArgs allowed ctr cityNow' cityHour' flags') deduped);
              picked = selectShortlist (env_rnd env) (length built)
                         (strictCandidates (env_now env)
                            (strictArgs allowed ctr cityNow' cityHour' flags') deduped)
          in
          case env_gptCopy env of
            Inl e \<Rightarrow> Failure 500
          | Inr copyById \<Rightarrow>
              Success
                \<lparr>res_options =
                   map toPublicOption
                     (finalOptions (map (applyCopy copyById vibe withWho vegFriendly) picked)),
                 res_pool =
                   map toPublicOption (map (applyCopy copyById vibe withWho vegFriendly) swapPool),
                 res_limitedAvailability = (length picked < 5 \<or> length swapPool < 10)\<rparr>)))))))"

section \<open>Structure of a successful response\<close>

text \<open>
  Two options describe the same venue when they agree on everything but the id, the
  copy (\<open>why\<close>, \<open>watchouts\<close>) and the score, the fields the route rewrites after an
  option is built.
\<close>

definition sameVenue :: "PlanOption \<Rightarrow> PlanOption \<Rightarrow> bool" where
  "sameVenue p q =
     (lat p = lat q \<and> lng p = lng q \<and> name p = name q \<and> category p = category q
      \<and> rating p = rating q \<and> etaMin p = etaMin q \<and> openStatus p = openStatus q
      \<and> address p = address q \<and> closingTime p = closingTime q \<and> placeId p = placeId q
      \<and> priceLevel p = priceLevel q \<and> userRatingsTotal p = userRatingsTotal q
      \<and> closeTs p = closeTs q \<and> photoUrls p = photoUrls q)"

lemma sameVenue_refl [simp]: "sameVenue p p"
  by (simp add: sameVenue_def)

lemma sameVenue_trans: "sameVenue p q \<Longrightarrow> sameVenue q r \<Longrightarrow> sameVenue p r"
  by (simp add: sameVenue_def)

lemma sameVenue_retouch [simp]:
  "sameVenue p (q\<lparr>score := s\<rparr>) = sameVenue p q"
  "sameVenue p (q\<lparr>opt_id := i\<rparr>) = sameVenue p q"
  "sameVenue p (q\<lparr>why := w, watchouts := ws\<rparr>) = sameVenue p q"
  by (simp_all add: sameVenue_def)

lemma sameVenue_applyCopy [simp]:
  "sameVenue p (applyCopy copyById vibe withWho veg q) = sameVenue p q"
  by (simp add: applyCopy_def Let_def sameVenue_def)

lemma sameVenue_toPublicOption [simp]: "sameVenue p (toPublicOption q) = sameVenue p q"
  by (simp add: toPublicOption_def)

lemma hardReject_sameVenue:
  assumes "sameVenue p q"
  shows "hardReject nowMs p args = hardReject nowMs q args"
proof -
  from assms have "category p = category q" "openStatus p = openStatus q"
    "lat p = lat q" "lng p = lng q" "closingTime p = closingTime q" "closeTs p = closeTs q"
    by (simp_all add: sameVenue_def)
  then show ?thesis
    by (simp only: hardReject_def)
qed

lemma hasClose_sameVenue: "sameVenue p q \<Longrightarrow> hasClose p = hasClose q"
  by (simp add: sameVenue_def hasClose_def)

subsection \<open>Stages keep or drop options, they add none\<close>

lemma dedupOptions_subset: "set (dedupOptions seenKeys ps) \<subseteq> set ps"
  by (induction seenKeys ps rule: dedupOptions.induct) auto

lemma diversifyLoop_subset: "set (diversifyLoop mx counts items) \<subseteq> set items"
  by (induction items arbitrary: counts) (auto simp add: Let_def)

lemma swapPoolOf_subset: "set (swapPoolOf seenSet feasible) \<subseteq> set feasible"
proof -
  have sub: "set (take MAX_POOL_RETURN (diversifyPool xs 6)) \<subseteq> set xs" for xs
    using set_take_subset diversifyLoop_subset unfolding diversifyPool_def by fast
  have "set (filter (\<lambda>p. placeIdText p \<notin> seenSet) feasible) \<subseteq> set feasible"
    by auto
  with sub [of "filter (\<lambda>p. placeIdText p \<notin> seenSet) feasible"] sub [of feasible]
  show ?thesis
    unfolding swapPoolOf_def Let_def by (simp split: if_splits) blast
qed

lemma selectLoop_subset:
  "set (selectLoop draws k picked catCount remaining) \<subseteq> set picked \<union> set remaining"
proof (induction draws k picked catCount remaining rule: selectLoop.induct)
  case (1 draws k picked catCount remaining)
  show ?case
  proof (cases "length picked < 5 \<and> remaining \<noteq> []")
    case False
    then show ?thesis
      by (subst selectLoop.simps) auto
  next
    case True
    let ?cn = "filter (\<lambda>p. getCount catCount (catKey p) < 2) remaining"
    let ?pool = "if ?cn \<noteq> [] then ?cn else remaining"
    show ?thesis
    proof (cases "weightedPick (draws k) ?pool")
      case None
      with True show ?thesis
        by (subst selectLoop.simps) (auto simp add: Let_def)
    next
      case (Some chosen)
      then have "chosen \<in> set ?pool"
        by (rule weightedPick_mem)
      then have mem: "chosen \<in> set remaining"
        by (auto split: if_splits)
      have step: "selectLoop draws k picked catCount remaining =
          selectLoop draws (k + 1) (picked @ [chosen])
            (catCount(catKey chosen \<mapsto> getCount catCount (catKey chosen) + 1))
            (filter (\<lambda>p. pickKey p \<noteq> pickKey chosen) remaining)"
        using True Some by (subst selectLoop.simps) (simp add: Let_def)
      have "set (selectLoop draws (k + 1) (picked @ [chosen])
            (catCount(catKey chosen \<mapsto> getCount catCount (catKey chosen) + 1))
            (filter (\<lambda>p. pickKey p \<noteq> pickKey chosen) remaining))
          \<subseteq> set (picked @ [chosen]) \<union> set (filter (\<lambda>p. pickKey p \<noteq> pickKey chosen) remaining)"
        using "1.IH" [OF True refl refl Some] .
      with mem show ?thesis
        unfolding step by auto
    qed
  qed
qed

lemma find_mem: "find P xs = Some a \<Longrightarrow> a \<in> set xs"
  by (induction xs) (auto split: if_splits)

lemma selectShortlist_subset: "set (selectShortlist draws k strict) \<subseteq> set strict"
proof -
  let ?top = "take 30 strict"
  let ?picked = "selectLoop draws k [] Map.empty ?top"
  have picked: "set ?picked \<subseteq> set strict"
    using selectLoop_subset [of draws k "[]" Map.empty ?top] set_take_subset [of 30 strict]
    by auto
  have alt: "set (?picked[length ?picked - 1 := a]) \<subseteq> set strict"
    if "find (\<lambda>p. category p \<noteq> category (?picked ! 0)) ?top = Some a" for a
  proof -
    from that have "a \<in> set ?top"
      by (rule find_mem)
    then have "a \<in> set strict"
      using set_take_subset [of 30 strict] by auto
    with picked show ?thesis
      using set_update_subset_insert [of ?picked "length ?picked - 1" a] by auto
  qed
  show ?thesis
    unfolding selectShortlist_def Let_def
    using picked alt by (auto split: option.splits)
qed

lemma scoreAll_origin:
  assumes "p \<in> set (scoreAll draws fl hr vibe veg seenSet swappedSet built)"
  shows "\<exists>q \<in> set built. sameVenue q p"
proof -
  from assms obtain q i where "(q, i) \<in> set (zip built [0..<length built])"
    and p: "p = q\<lparr>score := Some (scoreOption q fl hr vibe veg seenSet swappedSet (draws i))\<rparr>"
    unfolding scoreAll_def by auto
  then have "q \<in> set built"
    by (auto dest: set_zip_leftD)
  with p show ?thesis
    by (auto intro!: bexI [of _ q])
qed

lemma finalOptions_origin:
  assumes "p \<in> set (finalOptions picked)"
  shows "\<exists>q \<in> set picked. sameVenue q p"
proof -
  from assms obtain q i where "(q, i) \<in> set (zip picked [0..<length picked])"
    and p: "p = q\<lparr>opt_id := decimal (i + 1)\<rparr>"
    unfolding finalOptions_def by auto
  then have "q \<in> set picked"
    by (auto dest: set_zip_leftD)
  with p show ?thesis
    by (auto intro!: bexI [of _ q])
qed

subsection \<open>What a built option is built from\<close>

lemma awaitAll_Inr:
  "awaitAll rs = Inr xs \<Longrightarrow> rs = map Inr xs"
  by (induction rs arbitrary: xs rule: awaitAll.induct) (auto split: sum.splits)

lemma buildOptions_origin:
  assumes "buildOptionsFromCandidates be candidates tz vibe allowed ctr = Inr built"
    and "q \<in> set built"
  shows "\<exists>c \<in> set candidates. \<exists>d.
           fetchPlaceDetailsById be (cand_placeId c) tz = Inr (Some d)
           \<and> buildOption vibe allowed ctr (Some d) = Some q"
proof -
  let ?slice = "take DETAILS_CAP_TOTAL (sort_key (\<lambda>c. haversineKm ctr (candPos c)) candidates)"
  from assms(1) obtain detailsList where
    aw: "awaitAll (map (\<lambda>c. fetchPlaceDetailsById be (cand_placeId c) tz) ?slice) = Inr detailsList"
    and built: "built = List.map_filter (buildOption vibe allowed ctr) detailsList"
    unfolding buildOptionsFromCandidates_def Let_def by (auto split: sum.splits)
  from aw have eq: "map (\<lambda>c. fetchPlaceDetailsById be (cand_placeId c) tz) ?slice = map Inr detailsList"
    by (rule awaitAll_Inr)
  from assms(2) built obtain dOpt where dOpt: "dOpt \<in> set detailsList"
    and b: "buildOption vibe allowed ctr dOpt = Some q"
    by (auto simp add: List.map_filter_def)
  from b obtain d where d: "dOpt = Some d"
    by (cases dOpt) (auto simp add: buildOption_def)
  from dOpt have "Inr dOpt \<in> set (map Inr detailsList)"
    by simp
  with eq obtain c where c: "c \<in> set ?slice"
    and f: "fetchPlaceDetailsById be (cand_placeId c) tz = Inr dOpt"
    by (metis (no_types, lifting) imageE list.set_map)
  from c have "c \<in> set candidates"
    using set_take_subset [of DETAILS_CAP_TOTAL "sort_key (\<lambda>c. haversineKm ctr (candPos c)) candidates"]
    by auto
  with f b d show ?thesis
    by blast
qed

lemma buildOption_category:
  "buildOption vibe allowed ctr dOpt = Some q \<Longrightarrow> category q \<in> allowed"
  by (auto simp add: buildOption_def split: option.splits if_splits)

lemma buildOption_placeId:
  "buildOption vibe allowed ctr (Some d) = Some q \<Longrightarrow> placeId q = Some (d_placeId d)"
  by (auto simp add: buildOption_def split: if_splits)

lemma buildOption_rating:
  "buildOption vibe allowed ctr (Some d) = Some q \<Longrightarrow>
     rating q = Some (clamp (case d_rating d of Some r \<Rightarrow> r | None \<Rightarrow> 4.4) 4.1 5.0)"
  by (auto simp add: buildOption_def split: if_splits)

subsection \<open>The values the handler derives from the request\<close>

definition vibeOf :: "PlanRequest \<Rightarrow> string" where
  "vibeOf body = pickDefaultVibe (req_vibe body)"

definition seenSetOf :: "PlanRequest \<Rightarrow> string set" where
  "seenSetOf body = set (sanitizeIdList (req_seenPlaceIds body) MAX_SEEN_IDS)"

definition swappedSetOf :: "PlanRequest \<Rightarrow> string set" where
  "swappedSetOf body = set (sanitizeIdList (req_swappedPlaceIds body) MAX_SWAPPED_IDS)"

definition cityNowOf :: "Env \<Rightarrow> WeatherInfo \<Rightarrow> int" where
  "cityNowOf env weather = env_now env + w_tzOffsetSec weather * 1000"

definition strictOf :: "Env \<Rightarrow> PlanRequest \<Rightarrow> LatLng \<Rightarrow> WeatherInfo \<Rightarrow> RejectArgs" where
  "strictOf env body ctr weather =
     strictArgs (set (allowedFor (vibeOf body))) ctr (cityNowOf env weather)
       (w_cityHour weather) (w_flags weather)"

definition relaxedOf :: "Env \<Rightarrow> PlanRequest \<Rightarrow> LatLng \<Rightarrow> WeatherInfo \<Rightarrow> RejectArgs" where
  "relaxedOf env body ctr weather =
     relaxedArgs (set (allowedFor (vibeOf body))) ctr (cityNowOf env weather)
       (w_cityHour weather) (w_flags weather)"

text \<open>The lane battery of one vibe, as the retrieval loop calls it.\<close>

definition lanesOf :: "Env \<Rightarrow> PlanRequest \<Rightarrow> LatLng \<Rightarrow> string \<Rightarrow> thrown + GoogleCandidate list" where
  "lanesOf env body ctr vLane =
     collectCandidatesMultiLane (backend env) ctr vLane CITY_CENTER_RADIUS_SWAP_M True
       (req_vegFriendly body)"

text \<open>The candidates handed to \<^verbatim>\<open>buildOptionsFromCandidates\<close>.\<close>

definition candidatesFilteredOf :: "PlanRequest \<Rightarrow> LatLng \<Rightarrow> GoogleCandidate list \<Rightarrow> GoogleCandidate list" where
  "candidatesFilteredOf body ctr gathered =
     filter (\<lambda>c. cand_placeId c \<notin> swappedSetOf body)
       (prioritize (seenSetOf body) ctr (dedupById [] gathered))"

definition dedupedOf :: "Env \<Rightarrow> PlanRequest \<Rightarrow> WeatherInfo \<Rightarrow> PlanOption list \<Rightarrow> PlanOption list" where
  "dedupedOf env body weather built =
     dedupOptions []
       (scoreAll (env_rnd env) (w_flags weather) (w_cityHour weather) (vibeOf body)
          (req_vegFriendly body) (seenSetOf body) (swappedSetOf body) built)"

text \<open>The shortlist and the pool before the copy is applied.\<close>

definition pickedOf :: "Env \<Rightarrow> PlanRequest \<Rightarrow> LatLng \<Rightarrow> WeatherInfo \<Rightarrow> PlanOption list \<Rightarrow> PlanOption list" where
  "pickedOf env body ctr weather built =
     selectShortlist (env_rnd env) (length built)
       (strictCandidates (env_now env) (strictOf env body ctr weather)
          (dedupedOf env body weather built))"

definition swapPoolFor :: "Env \<Rightarrow> PlanRequest \<Rightarrow> LatLng \<Rightarrow> WeatherInfo \<Rightarrow> PlanOption list \<Rightarrow> PlanOption list" where
  "swapPoolFor env body ctr weather built =
     swapPoolOf (seenSetOf body)
       (swapFeasible (env_now env) (relaxedOf env body ctr weather)
          (dedupedOf env body weather built))"

lemma POST_Success_structure:
  assumes "POST env = Success r"
    and "env_body env = Some body"
    and "env_weather env = Inr weather"
    and "CITY_CENTERS (pickDefaultCity (req_city body)) = Some ctr"
  shows "\<exists>gathered built copyById.
           vibeOf body \<in> dom ALLOWED_BY_VIBE
           \<and> gatherLoop (lanesOf env body ctr) (fallbackVibesForSwap (vibeOf body)) [] = Inr gathered
           \<and> buildOptionsFromCandidates (backend env) (candidatesFilteredOf body ctr gathered)
                (w_tzOffsetSec weather) (vibeOf body) (set (allowedFor (vibeOf body))) ctr
                = Inr built
           \<and> env_gptCopy env = Inr copyById
           \<and> res_options r =
                map toPublicOption
                  (finalOptions
                     (map (applyCopy copyById (vibeOf body) (safeString (req_withWho body) ''Solo'')
                             (req_vegFriendly body))
                        (pickedOf env body ctr weather built)))
           \<and> res_pool r =
                map toPublicOption
                  (map (applyCopy copyById (vibeOf body) (safeString (req_withWho body) ''Solo'')
                          (req_vegFriendly body))
                     (swapPoolFor env body ctr weather built))"
  using assms
  unfolding POST_def Let_def vibeOf_def seenSetOf_def swappedSetOf_def cityNowOf_def
    strictOf_def relaxedOf_def lanesOf_def candidatesFilteredOf_def dedupedOf_def
    pickedOf_def swapPoolFor_def
  by (auto split: if_splits sum.splits option.splits)

lemma dedupedOf_origin:
  assumes "x \<in> set (dedupedOf env body weather built)"
  shows "\<exists>q \<in> set built. sameVenue q x"
  using assms dedupOptions_subset scoreAll_origin unfolding dedupedOf_def by blast

lemma pickedOf_strict:
  "set (pickedOf env body ctr weather built)
     \<subseteq> set (strictCandidates (env_now env) (strictOf env body ctr weather)
               (dedupedOf env body weather built))"
  unfolding pickedOf_def by (rule selectShortlist_subset)

lemma swapPoolFor_feasible:
  "set (swapPoolFor env body ctr weather built)
     \<subseteq> set (swapFeasible (env_now env) (relaxedOf env body ctr weather)
               (dedupedOf env body weather built))"
  unfolding swapPoolFor_def by (rule swapPoolOf_subset)

text \<open>
  Every option of the shortlist is a strict candidate and every option of the pool a
  relaxed-feasible one, up to the rewritten fields.
\<close>

lemma res_options_origin:
  assumes "POST env = Success r"
    and "env_body env = Some body"
    and "env_weather env = Inr weather"
    and "CITY_CENTERS (pickDefaultCity (req_city body)) = Some ctr"
    and "p \<in> set (res_options r)"
  shows "\<exists>gathered built x.
           gatherLoop (lanesOf env body ctr) (fallbackVibesForSwap (vibeOf body)) [] = Inr gathered
           \<and> buildOptionsFromCandidates (backend env) (candidatesFilteredOf body ctr gathered)
                (w_tzOffsetSec weather) (vibeOf body) (set (allowedFor (vibeOf body))) ctr
                = Inr built
           \<and> x \<in> set (strictCandidates (env_now env) (strictOf env body ctr weather)
                         (dedupedOf env body weather built))
           \<and> sameVenue x p"
proof -
  from POST_Success_structure [OF assms(1-4)] obtain gathered built copyById where
    g: "gatherLoop (lanesOf env body ctr) (fallbackVibesForSwap (vibeOf body)) [] = Inr gathered"
    and b: "buildOptionsFromCandidates (backend env) (candidatesFilteredOf body ctr gathered)
              (w_tzOffsetSec weather) (vibeOf body) (set (allowedFor (vibeOf body))) ctr = Inr built"
    and o: "res_options r =
              map toPublicOption
                (finalOptions
                   (map (applyCopy copyById (vibeOf body) (safeString (req_withWho body) ''Solo'')
                           (req_vegFriendly body))
                      (pickedOf env body ctr weather built)))"
    by blast
  from assms(5) o obtain y where
    y: "y \<in> set (finalOptions
                   (map (applyCopy copyById (vibeOf body) (safeString (req_withWho body) ''Solo'')
                           (req_vegFriendly body))
                      (pickedOf env body ctr weather built)))"
    and py: "p = toPublicOption y"
    by auto
  from finalOptions_origin [OF y] obtain z where
    z: "z \<in> set (map (applyCopy copyById (vibeOf body) (safeString (req_withWho body) ''Solo'')
                        (req_vegFriendly body))
                   (pickedOf env body ctr weather built))"
    and zy: "sameVenue z y"
    by blast
  from z obtain x where x: "x \<in> set (pickedOf env body ctr weather built)"
    and xz: "z = applyCopy copyById (vibeOf body) (safeString (req_withWho body) ''Solo'')
                   (req_vegFriendly body) x"
    by auto
  have "sameVenue x z"
    using xz by simp
  from this zy have "sameVenue x y"
    by (rule sameVenue_trans)
  with py have "sameVenue x p"
    by simp
  moreover from x pickedOf_strict
  have "x \<in> set (strictCandidates (env_now env) (strictOf env body ctr weather)
                    (dedupedOf env body weather built))"
    by blast
  ultimately show ?thesis
    using g b by blast
qed

lemma res_pool_origin:
  assumes "POST env = Success r"
    and "env_body env = Some body"
    and "env_weather env = Inr weather"
    and "CITY_CENTERS (pickDefaultCity (req_city body)) = Some ctr"
    and "p \<in> set (res_pool r)"
  shows "\<exists>gathered built x.
           gatherLoop (lanesOf env body ctr) (fallbackVibesForSwap (vibeOf body)) [] = Inr gathered
           \<and> buildOptionsFromCandidates (backend env) (candidatesFilteredOf body ctr gathered)
                (w_tzOffsetSec weather) (vibeOf body) (set (allowedFor (vibeOf body))) ctr
                = Inr built
           \<and> x \<in> set (swapFeasible (env_now env) (relaxedOf env body ctr weather)
                         (dedupedOf env body weather built))
           \<and> sameVenue x p"
proof -
  from POST_Success_structure [OF assms(1-4)] obtain gathered built copyById where
    g: "gatherLoop (lanesOf env body ctr) (fallbackVibesForSwap (vibeOf body)) [] = Inr gathered"
    and b: "buildOptionsFromCandidates (backend env) (candidatesFilteredOf body ctr gathered)
              (w_tzOffsetSec weather) (vibeOf body) (set (allowedFor (vibeOf body))) ctr = Inr built"
    and o: "res_pool r =
              map toPublicOption
                (map (applyCopy copyById (vibeOf body) (safeString (req_withWho body) ''Solo'')
                        (req_vegFriendly body))
                   (swapPoolFor env body ctr weather built))"
    by blast
  from assms(5) o obtain x where x: "x \<in> set (swapPoolFor env body ctr weather built)"
    and px: "p = toPublicOption
                   (applyCopy copyById (vibeOf body) (safeString (req_withWho body) ''Solo'')
                      (req_vegFriendly body) x)"
    by auto
  from px have "sameVenue x p"
    by simp
  moreover from x swapPoolFor_feasible
  have "x \<in> set (swapFeasible (env_now env) (relaxedOf env body ctr weather)
                    (dedupedOf env body weather built))"
    by blast
  ultimately show ?thesis
    using g b by blast
qed

text \<open>Every returned option is, up to the rewritten fields, a built option.\<close>

lemma returned_option_built:
  assumes "POST env = Success r"
    and "env_body env = Some body"
    and "env_weather env = Inr weather"
    and "CITY_CENTERS (pickDefaultCity (req_city body)) = Some ctr"
    and "p \<in> set (res_options r) \<union> set (res_pool r)"
  shows "\<exists>gathered built q.
           gatherLoop (lanesOf env body ctr) (fallbackVibesForSwap (vibeOf body)) [] = Inr gathered
           \<and> buildOptionsFromCandidates (backend env) (candidatesFilteredOf body ctr gathered)
                (w_tzOffsetSec weather) (vibeOf body) (set (allowedFor (vibeOf body))) ctr
                = Inr built
           \<and> q \<in> set built \<and> sameVenue q p"
proof -
  from assms(5) consider "p \<in> set (res_options r)" | "p \<in> set (res_pool r)"
    by blast
  then obtain gathered built x where
    g: "gatherLoop (lanesOf env body ctr) (fallbackVibesForSwap (vibeOf body)) [] = Inr gathered"
    and b: "buildOptionsFromCandidates (backend env) (candidatesFilteredOf body ctr gathered)
              (w_tzOffsetSec weather) (vibeOf body) (set (allowedFor (vibeOf body))) ctr = Inr built"
    and x: "x \<in> set (dedupedOf env body weather built)"
    and xp: "sameVenue x p"
  proof cases
    case 1
    from res_options_origin [OF assms(1-4) 1] show ?thesis
      using that unfolding strictCandidates_def by auto
  next
    case 2
    from res_pool_origin [OF assms(1-4) 2] show ?thesis
      using that unfolding swapFeasible_def by auto
  qed
  from dedupedOf_origin [OF x] obtain q where "q \<in> set built" "sameVenue q x"
    by blast
  with xp have "q \<in> set built \<and> sameVenue q p"
    using sameVenue_trans by blast
  with g b show ?thesis
    by blast
qed

section \<open>A sample request\<close>

text \<open>
  A Boston request for vibe "Productive". The provider answers one text query only,
  "cozy cafe", a query of the Cozy lane battery and of no other, with one open cafe
  at the city center that closes in two hours; the cache is reachable and empty.
\<close>

definition beansCandidate :: GoogleCandidate where
  "beansCandidate =
     \<lparr>lat = 42.3601, lng = -71.0589, cand_placeId = ''A'', cand_name = ''Quiet Beans''\<rparr>"

definition sampleNow :: int where
  "sampleNow = 1762100000000"

definition beansDetails :: PlaceDetails where
  "beansDetails =
     \<lparr>d_placeId = ''A'', d_name = ''Quiet Beans'', d_rating = Some 4.6,
      d_userRatingsTotal = None, d_priceLevel = Some 2, d_types = [''cafe'', ''food''],
      d_openNow = Some True, d_businessStatus = Some ''OPERATIONAL'',
      d_closingTime = Some ''9:00 PM'', d_closeTs = Some (sampleNow + 120 * 60000),
      d_formattedAddress = Some ''1 Main St'', d_lat = Some 42.3601, d_lng = Some (- 71.0589),
      d_photoUrls = []\<rparr>"

definition sampleBackend :: Backend where
  "sampleBackend =
     \<lparr>googleKey = True, hasRedis = True,
      redisGet = (\<lambda>key. Inr None),
      redisSetPx = (\<lambda>key v ttlMs. Inr ()),
      searchCacheKey = (\<lambda>lane pos radiusM q. lane @ '':'' @ q),
      detailsCacheKey = (\<lambda>pid tzOffsetSec. ''pp:details:'' @ pid),
      parseCandidates = (\<lambda>s. None),
      stringifyCandidates = (\<lambda>cs. ''[]''),
      parseDetails = (\<lambda>s. None),
      stringifyDetails = (\<lambda>d. ''{}''),
      fetchNearby = (\<lambda>pos radiusM kw. Inr (Body [])),
      fetchText = (\<lambda>pos radiusM q. Inr (Body (if q = ''cozy cafe'' then [beansCandidate] else []))),
      fetchDetails = (\<lambda>pid tzOffsetSec. Inr (Body (if pid = ''A'' then Some beansDetails else None)))\<rparr>"

definition sampleBody :: "string list \<Rightarrow> PlanRequest" where
  "sampleBody swapped =
     \<lparr>req_city = Some ''Boston'', req_vibe = Some ''Productive'', req_withWho = None,
      req_vegFriendly = False, req_seenPlaceIds = [], req_swappedPlaceIds = swapped\<rparr>"

definition sampleWeather :: WeatherInfo where
  "sampleWeather = \<lparr>w_flags = fair, w_cityHour = 14, w_tzOffsetSec = - 18000\<rparr>"

definition sampleEnv :: "string list \<Rightarrow> Env" where
  "sampleEnv swapped =
     \<lparr>backend = sampleBackend, env_admission = Inr None, env_body = Some (sampleBody swapped),
      env_weather = Inr sampleWeather, env_now = sampleNow, env_rnd = (\<lambda>i. 0),
      env_gptCopy = Inr Map.empty\<rparr>"

text \<open>The option the route builds for the cafe, and the copies it returns.\<close>

definition beansOption :: PlanOption where
  "beansOption =
     \<lparr>lat = 42.3601, lng = -71.0589, opt_id = ''A'', name = ''Quiet Beans'',
      category = ''Work Cafe'', rating = Some 4.6, etaMin = 20,
      openStatus = ''Open now '' @ bullet @ '' Closes at 9:00 PM'', why = emDash,
      watchouts = defaultWatchouts, address = ''1 Main St'', closingTime = Some ''9:00 PM'',
      placeId = Some ''A'', priceLevel = Some 2, userRatingsTotal = None,
      closeTs = Some (sampleNow + 120 * 60000), photoUrls = [], score = None\<rparr>"

definition beansShortlisted :: PlanOption where
  "beansShortlisted =
     beansOption\<lparr>opt_id := ''1'', why := ''Fits a Productive vibe with solo.''\<rparr>"

definition beansPooled :: PlanOption where
  "beansPooled = beansOption\<lparr>why := ''Fits a Productive vibe with solo.''\<rparr>"

lemma dropWhile_hd: "xs \<noteq> [] \<Longrightarrow> \<not> P (hd xs) \<Longrightarrow> dropWhile P xs = xs"
  by (cases xs) auto

lemma trim_plain:
  assumes "s \<noteq> []" "\<not> isSpaceChar (hd s)" "\<not> isSpaceChar (last s)"
  shows "trim s = s"
proof -
  have "dropWhile isSpaceChar s = s"
    using assms(1,2) by (rule dropWhile_hd)
  moreover have "dropWhile isSpaceChar (rev s) = rev s"
    using assms(1,3) by (intro dropWhile_hd) (auto simp add: hd_rev)
  ultimately show ?thesis
    by (simp add: trim_def)
qed

lemma trim_Nil [simp]: "trim [] = []"
  by (simp add: trim_def)

lemma sample_city: "pickDefaultCity (Some ''Boston'') = ''Boston''"
  by (simp add: pickDefaultCity_def CITY_CENTERS_def trim_plain isSpaceChar_def)

lemma sample_vibe: "pickDefaultVibe (Some ''Productive'') = ''Productive''"
  by (simp add: pickDefaultVibe_def ALLOWED_BY_VIBE_def trim_plain isSpaceChar_def)

lemma sample_center: "CITY_CENTERS ''Boston'' = Some Boston"
  by (simp add: CITY_CENTERS_def Boston_def)

lemma sample_collect_Cozy:
  "collectCandidatesMultiLane sampleBackend Boston ''Cozy'' CITY_CENTER_RADIUS_SWAP_M True False
     = Inr [beansCandidate]"
  by code_simp

lemma sample_collect_Productive:
  "collectCandidatesMultiLane sampleBackend Boston ''Productive'' CITY_CENTER_RADIUS_SWAP_M True False
     = Inr []"
  by code_simp

lemma sample_collect_Social:
  "collectCandidatesMultiLane sampleBackend Boston ''Social'' CITY_CENTER_RADIUS_SWAP_M True False
     = Inr []"
  by code_simp

lemma sample_vibeOrder:
  "fallbackVibesForSwap ''Productive'' = [''Productive'', ''Cozy'', ''Social'']"
  by (simp add: fallbackVibesForSwap_def)

lemma sample_gather:
  "gatherLoop (lanesOf (sampleEnv sw) (sampleBody sw) Boston)
     (fallbackVibesForSwap ''Productive'') [] = Inr [beansCandidate]"
  by (simp add: sample_vibeOrder lanesOf_def sampleEnv_def sampleBody_def
      sample_collect_Cozy sample_collect_Productive sample_collect_Social)

lemma sample_fetch_details:
  "fetchPlaceDetailsById sampleBackend ''A'' tz = Inr (Some beansDetails)"
  by (simp add: fetchPlaceDetailsById_def sampleBackend_def trySetPx_def)

lemma sample_category: "googleTypeToInternalCategory [''cafe'', ''food''] ''Productive'' = ''Work Cafe''"
  by code_simp

lemma sample_buildOption:
  "buildOption ''Productive'' (set (allowedFor ''Productive'')) Boston (Some beansDetails)
     = Some beansOption"
  by (simp add: buildOption_def beansDetails_def beansOption_def sample_category
      allowedFor_Productive clamp_def)


lemma sample_built:
  "buildOptionsFromCandidates sampleBackend [beansCandidate] tz ''Productive''
     (set (allowedFor ''Productive'')) Boston = Inr [beansOption]"
  by (simp add: buildOptionsFromCandidates_def DETAILS_CAP_TOTAL_def beansCandidate_def
      sample_fetch_details sample_buildOption List.map_filter_def)

lemma beans_pos: "\<lparr>lat = lat beansOption, lng = lng beansOption\<rparr> = Boston"
  by (simp add: beansOption_def Boston_def)

lemma beans_indoor: "\<not> isOutdoorishCategory ''Work Cafe''"
  by code_simp

lemma beans_open:
  "str_includes (toLowerCase (''Open now '' @ bullet @ '' Closes at 9:00 PM'')) ''open now''"
  "\<not> str_includes (toLowerCase (''Open now '' @ bullet @ '' Closes at 9:00 PM'')) ''closed''"
  by (simp_all add: bullet_def toLowerCase_def)

lemma beans_strict:
  "hardReject sampleNow (beansOption\<lparr>score := s\<rparr>)
     (strictArgs (set (allowedFor ''Productive'')) Boston cn hr fl) = None"
  by (simp add: hardReject_def strictArgs_def beansOption_def
      allowedFor_Productive bullet_def toLowerCase_def beans_indoor haversine_same_point Boston_def
      minutesUntilClose_def MIN_REMAINING_MIN_def MAX_DIST_KM_SHORTLIST_def)

lemma beans_relaxed:
  "hardReject sampleNow (beansOption\<lparr>score := s\<rparr>)
     (relaxedArgs (set (allowedFor ''Productive'')) Boston cn hr fl) = None"
  by (simp add: hardReject_def relaxedArgs_def beansOption_def
      allowedFor_Productive bullet_def toLowerCase_def beans_indoor haversine_same_point Boston_def
      minutesUntilClose_def RELAXED_REMAINING_MIN_def MAX_DIST_KM_SWAP_def)

lemma selectLoop_single:
  "selectLoop (\<lambda>i. 0) k [] Map.empty [x] = [x]"
  by (simp add: selectLoop.simps [of _ _ "[]"] selectLoop.simps [of _ _ "[x]"]
      getCount_def weightedPick_zero)

lemma selectShortlist_single:
  "selectShortlist (\<lambda>i. 0) k [x] = [x]"
  by (simp add: selectShortlist_def selectLoop_single)

lemma diversifyPool_single: "diversifyPool [x] 6 = [x]"
  by (simp add: diversifyPool_def getCount_def)

lemma sample_sanitize_Nil: "sanitizeIdList [] cap = []"
  by (simp add: sanitizeIdList_def)

lemma beans_copy:
  "applyCopy Map.empty ''Productive'' ''Solo'' False (beansOption\<lparr>score := s\<rparr>)
     = beansOption\<lparr>score := s, why := ''Fits a Productive vibe with solo.''\<rparr>"
  by (simp add: applyCopy_def beansOption_def placeIdText_def trim_plain isSpaceChar_def
      toLowerCase_def defaultWatchouts_def)

text \<open>The converse of the structure lemma: the response of a run whose stages succeed.\<close>

lemma POST_eval:
  assumes "googleKey (backend env)"
    and "env_admission env = Inr None"
    and "env_body env = Some body"
    and "ALLOWED_BY_VIBE (vibeOf body) \<noteq> None"
    and "CITY_CENTERS (pickDefaultCity (req_city body)) = Some ctr"
    and "env_weather env = Inr weather"
    and "gatherLoop (lanesOf env body ctr) (fallbackVibesForSwap (vibeOf body)) [] = Inr gathered"
    and "buildOptionsFromCandidates (backend env) (candidatesFilteredOf body ctr gathered)
           (w_tzOffsetSec weather) (vibeOf body) (set (allowedFor (vibeOf body))) ctr = Inr built"
    and "env_gptCopy env = Inr copyById"
  shows "POST env =
           Success
             \<lparr>res_options =
                map toPublicOption
                  (finalOptions
                     (map (applyCopy copyById (vibeOf body) (safeString (req_withWho body) ''Solo'')
                             (req_vegFriendly body))
                        (pickedOf env body ctr weather built))),
              res_pool =
                map toPublicOption
                  (map (applyCopy copyById (vibeOf body) (safeString (req_withWho body) ''Solo'')
                          (req_vegFriendly body))
                     (swapPoolFor env body ctr weather built)),
              res_limitedAvailability =
                (length (pickedOf env body ctr weather built) < 5
                 \<or> length (swapPoolFor env body ctr weather built) < 10)\<rparr>"
  using assms
  unfolding POST_def Let_def vibeOf_def seenSetOf_def swappedSetOf_def cityNowOf_def
    strictOf_def relaxedOf_def lanesOf_def candidatesFilteredOf_def dedupedOf_def
    pickedOf_def swapPoolFor_def
  by (simp split: option.splits)

lemma sampleEnv_fields:
  "backend (sampleEnv sw) = sampleBackend"
  "env_admission (sampleEnv sw) = Inr None"
  "env_body (sampleEnv sw) = Some (sampleBody sw)"
  "env_weather (sampleEnv sw) = Inr sampleWeather"
  "env_now (sampleEnv sw) = sampleNow"
  "env_rnd (sampleEnv sw) = (\<lambda>i. 0)"
  "env_gptCopy (sampleEnv sw) = Inr Map.empty"
  by (simp_all add: sampleEnv_def)

lemma sampleWeather_fields:
  "w_flags sampleWeather = fair"
  "w_cityHour sampleWeather = 14"
  "w_tzOffsetSec sampleWeather = - 18000"
  by (simp_all add: sampleWeather_def)

lemma sampleBody_fields:
  "req_city (sampleBody sw) = Some ''Boston''"
  "req_vibe (sampleBody sw) = Some ''Productive''"
  "req_withWho (sampleBody sw) = None"
  "req_vegFriendly (sampleBody sw) = False"
  "req_seenPlaceIds (sampleBody sw) = []"
  "req_swappedPlaceIds (sampleBody sw) = sw"
  by (simp_all add: sampleBody_def)

lemma beans_fields:
  "openStatus beansOption = ''Open now '' @ bullet @ '' Closes at 9:00 PM''"
  "closeTs beansOption = Some (sampleNow + 120 * 60000)"
  "placeId beansOption = Some ''A''"
  "category beansOption = ''Work Cafe''"
  by (simp_all add: beansOption_def)

lemma sample_vibeOf: "vibeOf (sampleBody sw) = ''Productive''"
  by (simp add: vibeOf_def sampleBody_def sample_vibe)

lemma sample_scored:
  "dedupedOf (sampleEnv sw) (sampleBody sw) sampleWeather [beansOption]
     = [beansOption\<lparr>score := Some (scoreOption beansOption fair 14 ''Productive'' False
            (seenSetOf (sampleBody sw)) (swappedSetOf (sampleBody sw)) 0)\<rparr>]"
  by (simp add: dedupedOf_def scoreAll_def sample_vibeOf sampleEnv_fields sampleWeather_fields
      sampleBody_fields)

lemma beans_hasClose: "hasClose (beansOption\<lparr>score := s\<rparr>)"
  by (simp add: hasClose_def beansOption_def sampleNow_def)

lemma beans_open_now:
  "str_includes (toLowerCase (openStatus beansOption)) ''open now''"
  by (simp add: beansOption_def bullet_def toLowerCase_def)

lemma sample_picked:
  "pickedOf (sampleEnv sw) (sampleBody sw) Boston sampleWeather [beansOption]
     = [beansOption\<lparr>score := Some (scoreOption beansOption fair 14 ''Productive'' False
            (seenSetOf (sampleBody sw)) (swappedSetOf (sampleBody sw)) 0)\<rparr>]"
  by (simp add: pickedOf_def sample_scored strictCandidates_def strictOf_def sample_vibeOf
      beans_strict sampleEnv_fields selectShortlist_single beans_hasClose beans_open_now)

lemma sample_pool:
  "swapPoolFor (sampleEnv sw) (sampleBody sw) Boston sampleWeather [beansOption]
     = [beansOption\<lparr>score := Some (scoreOption beansOption fair 14 ''Productive'' False
            (seenSetOf (sampleBody sw)) (swappedSetOf (sampleBody sw)) 0)\<rparr>]"
  by (simp add: swapPoolFor_def sample_scored swapFeasible_def relaxedOf_def sample_vibeOf
      beans_relaxed sampleEnv_fields swapPoolOf_def diversifyPool_single
      MAX_POOL_RETURN_def TARGET_SWAP_POOL_def)

lemma sample_filtered:
  assumes "''A'' \<notin> set (sanitizeIdList sw MAX_SWAPPED_IDS)"
  shows "candidatesFilteredOf (sampleBody sw) Boston [beansCandidate] = [beansCandidate]"
  using assms
  by (simp add: candidatesFilteredOf_def prioritize_def swappedSetOf_def sampleBody_fields
      beansCandidate_def)

lemma sample_POST:
  assumes "''A'' \<notin> set (sanitizeIdList sw MAX_SWAPPED_IDS)"
  shows "POST (sampleEnv sw) =
           Success \<lparr>res_options = [beansShortlisted], res_pool = [beansPooled],
                    res_limitedAvailability = True\<rparr>"
proof -
  have "POST (sampleEnv sw) =
           Success
             \<lparr>res_options =
                map toPublicOption
                  (finalOptions
                     (map (applyCopy Map.empty (vibeOf (sampleBody sw))
                             (safeString (req_withWho (sampleBody sw)) ''Solo'')
                             (req_vegFriendly (sampleBody sw)))
                        (pickedOf (sampleEnv sw) (sampleBody sw) Boston sampleWeather [beansOption]))),
              res_pool =
                map toPublicOption
                  (map (applyCopy Map.empty (vibeOf (sampleBody sw))
                          (safeString (req_withWho (sampleBody sw)) ''Solo'')
                          (req_vegFriendly (sampleBody sw)))
                     (swapPoolFor (sampleEnv sw) (sampleBody sw) Boston sampleWeather [beansOption])),
              res_limitedAvailability =
                (length (pickedOf (sampleEnv sw) (sampleBody sw) Boston sampleWeather [beansOption]) < 5
                 \<or> length (swapPoolFor (sampleEnv sw) (sampleBody sw) Boston sampleWeather [beansOption]) < 10)\<rparr>"
  proof (rule POST_eval [where gathered = "[beansCandidate]"])
    show "googleKey (backend (sampleEnv sw))"
      by (simp add: sampleEnv_fields sampleBackend_def)
    show "env_admission (sampleEnv sw) = Inr None"
      by (simp add: sampleEnv_fields)
    show "env_body (sampleEnv sw) = Some (sampleBody sw)"
      by (simp add: sampleEnv_fields)
    show "ALLOWED_BY_VIBE (vibeOf (sampleBody sw)) \<noteq> None"
      by (simp add: sample_vibeOf ALLOWED_BY_VIBE_def)
    show "CITY_CENTERS (pickDefaultCity (req_city (sampleBody sw))) = Some Boston"
      by (simp add: sampleBody_fields sample_city sample_center)
    show "env_weather (sampleEnv sw) = Inr sampleWeather"
      by (simp add: sampleEnv_fields)
    show "gatherLoop (lanesOf (sampleEnv sw) (sampleBody sw) Boston)
            (fallbackVibesForSwap (vibeOf (sampleBody sw))) [] = Inr [beansCandidate]"
      by (simp add: sample_vibeOf sample_gather)
    show "buildOptionsFromCandidates (backend (sampleEnv sw))
            (candidatesFilteredOf (sampleBody sw) Boston [beansCandidate])
            (w_tzOffsetSec sampleWeather) (vibeOf (sampleBody sw))
            (set (allowedFor (vibeOf (sampleBody sw)))) Boston = Inr [beansOption]"
      using assms by (simp add: sample_filtered sample_vibeOf sample_built sampleEnv_fields)
    show "env_gptCopy (sampleEnv sw) = Inr Map.empty"
      by (simp add: sampleEnv_fields)
  qed
  then have "POST (sampleEnv sw) =
           Success
             \<lparr>res_options =
                [beansOption\<lparr>why := ''Fits a Productive vibe with solo.'', opt_id := ''1'',
                             score := None\<rparr>],
              res_pool =
                [beansOption\<lparr>why := ''Fits a Productive vibe with solo.'', score := None\<rparr>],
              res_limitedAvailability = True\<rparr>"
    by (simp add: sample_picked sample_pool sample_vibeOf sampleBody_fields safeString_def
        beans_copy finalOptions_def toPublicOption_def decimal.simps digitChar_def)
  then show ?thesis
    by (simp add: beansShortlisted_def beansPooled_def beansOption_def)
qed

section \<open>Accepted options and where they come from\<close>

lemma POST_Success_parts:
  assumes "POST env = Success r"
  shows "\<exists>body weather ctr.
           env_body env = Some body \<and> env_weather env = Inr weather
           \<and> CITY_CENTERS (pickDefaultCity (req_city body)) = Some ctr"
  using assms unfolding POST_def Let_def
  by (auto split: if_splits sum.splits option.splits)

text \<open>What an accepted option satisfies.\<close>

lemma hardReject_None:
  assumes "hardReject nowMs p args = None"
  shows "category p \<in> allowedSet args"
    and "\<not> str_includes (toLowerCase (openStatus p)) ''closed''"
    and "haversineKm (center args) \<lparr>lat = lat p, lng = lng p\<rparr> \<le> maxDistKm args"
    and "\<And>m. minutesUntilClose nowMs (cityNow args) (closingTime p) (closeTs p) = Some m
            \<Longrightarrow> minRemaining args \<le> m"
    and "\<not> allowUnknownHours args
           \<Longrightarrow> \<exists>m. minutesUntilClose nowMs (cityNow args) (closingTime p) (closeTs p) = Some m"
  using assms unfolding hardReject_def
  by (auto split: if_splits option.splits)

lemma unknown_status_not_open:
  "\<not> str_includes (toLowerCase (''Hours unknown '' @ bullet @ '' Check on Maps'')) ''open now''"
  by (simp add: bullet_def toLowerCase_def)

lemma buildOption_open_now:
  assumes "buildOption vibe allowed ctr (Some d) = Some q"
    and "str_includes (toLowerCase (openStatus q)) ''open now''"
  shows "d_openNow d = Some True"
proof (rule ccontr)
  assume "d_openNow d \<noteq> Some True"
  with assms(1) have "openStatus q = ''Hours unknown '' @ bullet @ '' Check on Maps''"
    by (auto simp add: buildOption_def split: if_splits)
  with assms(2) unknown_status_not_open show False
    by simp
qed

lemma dedupById_subset: "set (dedupById seen cs) \<subseteq> set cs"
  by (induction seen cs rule: dedupById.induct) auto

lemma candidatesFilteredOf_mem:
  assumes "c \<in> set (candidatesFilteredOf body ctr gathered)"
  shows "c \<in> set gathered" and "cand_placeId c \<notin> swappedSetOf body"
  using assms dedupById_subset [of "[]" gathered]
  unfolding candidatesFilteredOf_def prioritize_def by auto

lemma gatherLoop_origin:
  assumes "gatherLoop lanes vs acc = Inr gathered" and "c \<in> set gathered"
  shows "c \<in> set acc \<or> (\<exists>v \<in> set vs. \<exists>cs. lanes v = Inr cs \<and> c \<in> set cs)"
  using assms
proof (induction lanes vs acc rule: gatherLoop.induct)
  case (1 lanes allCandidates)
  then show ?case by simp
next
  case (2 lanes vLane rest allCandidates)
  from "2.prems"(1) obtain cs where cs: "lanes vLane = Inr cs"
    by (auto split: sum.splits)
  show ?case
  proof (cases "length (allCandidates @ cs) \<ge> 140")
    case True
    with "2.prems" cs show ?thesis
      by auto
  next
    case False
    with "2.prems"(1) cs have "gatherLoop lanes rest (allCandidates @ cs) = Inr gathered"
      by simp
    from "2.IH" [OF cs False this "2.prems"(2)] cs show ?thesis
      by auto
  qed
qed

text \<open>Every returned option goes back to a candidate of one of the lane batteries.\<close>

lemma returned_option_lane:
  assumes "POST env = Success r"
    and "env_body env = Some body"
    and "env_weather env = Inr weather"
    and "CITY_CENTERS (pickDefaultCity (req_city body)) = Some ctr"
    and "p \<in> set (res_options r) \<union> set (res_pool r)"
  shows "\<exists>v \<in> set (fallbackVibesForSwap (vibeOf body)). \<exists>cs c d q.
           lanesOf env body ctr v = Inr cs \<and> c \<in> set cs
           \<and> cand_placeId c \<notin> swappedSetOf body
           \<and> fetchPlaceDetailsById (backend env) (cand_placeId c) (w_tzOffsetSec weather)
                = Inr (Some d)
           \<and> buildOption (vibeOf body) (set (allowedFor (vibeOf body))) ctr (Some d) = Some q
           \<and> sameVenue q p"
proof -
  from returned_option_built [OF assms] obtain gathered built q where
    g: "gatherLoop (lanesOf env body ctr) (fallbackVibesForSwap (vibeOf body)) [] = Inr gathered"
    and b: "buildOptionsFromCandidates (backend env) (candidatesFilteredOf body ctr gathered)
              (w_tzOffsetSec weather) (vibeOf body) (set (allowedFor (vibeOf body))) ctr = Inr built"
    and q: "q \<in> set built" and qp: "sameVenue q p"
    by blast
  from buildOptions_origin [OF b q] obtain c d where
    c: "c \<in> set (candidatesFilteredOf body ctr gathered)"
    and f: "fetchPlaceDetailsById (backend env) (cand_placeId c) (w_tzOffsetSec weather) = Inr (Some d)"
    and bo: "buildOption (vibeOf body) (set (allowedFor (vibeOf body))) ctr (Some d) = Some q"
    by blast
  from candidatesFilteredOf_mem [OF c] have cg: "c \<in> set gathered"
    and ns: "cand_placeId c \<notin> swappedSetOf body"
    by blast+
  from gatherLoop_origin [OF g cg] obtain v cs where
    "v \<in> set (fallbackVibesForSwap (vibeOf body))" "lanesOf env body ctr v = Inr cs" "c \<in> set cs"
    by auto
  with ns f bo qp show ?thesis
    by blast
qed

text \<open>A list of trimmed, non-empty ids is cut at the cap and otherwise kept.\<close>

lemma sanitizeLoop_take:
  assumes "\<forall>s \<in> set xs. s \<noteq> [] \<and> trim s = s" and "length out < cap"
  shows "sanitizeLoop cap out xs = out @ take (cap - length out) xs"
  using assms
proof (induction xs arbitrary: out)
  case Nil
  then show ?case by simp
next
  case (Cons x xs)
  then have x: "trim x = x" "x \<noteq> []"
    by auto
  show ?case
  proof (cases "cap \<le> length (out @ [x])")
    case True
    with Cons.prems(2) have "cap - length out = Suc 0"
      by simp
    with True x show ?thesis
      by simp
  next
    case False
    then have "length (out @ [x]) < cap"
      by simp
    with Cons.IH [of "out @ [x]"] Cons.prems(1)
    have "sanitizeLoop cap (out @ [x]) xs = (out @ [x]) @ take (cap - length (out @ [x])) xs"
      by simp
    moreover have "cap - length out = Suc (cap - length (out @ [x]))"
      using False by simp
    ultimately show ?thesis
      using False x by simp
  qed
qed

lemma sanitizeIdList_take:
  assumes "\<forall>s \<in> set xs. s \<noteq> [] \<and> trim s = s" and "0 < cap"
  shows "sanitizeIdList xs cap = take cap xs"
  using sanitizeLoop_take [OF assms(1), of "[]" cap] assms(2)
  by (simp add: sanitizeIdList_def)

section \<open>Categories and ratings of the returned options\<close>

text \<open>
  C1. The category of every returned Option, in the shortlist and in the pool, is in
  the allowed set of the request's vibe: \<^verbatim>\<open>googleTypeToInternalCategory\<close> maps any
  list of type tags under any vibe key of \<^verbatim>\<open>ALLOWED_BY_VIBE\<close> into that vibe's
  list, \<^verbatim>\<open>buildOptionsFromCandidates\<close> emits only options whose category is in the
  allowed set it is given, and a successful response holds only such options.
\<close>

theorem C1_category_in_allowed_set:
  "(vibe \<in> dom ALLOWED_BY_VIBE
      \<longrightarrow> googleTypeToInternalCategory types vibe \<in> set (allowedFor vibe)) \<and>
   (buildOptionsFromCandidates be candidates tz vibe' allowed ctr = Inr built \<and> q \<in> set built
      \<longrightarrow> category q \<in> allowed) \<and>
   (POST env = Success r \<and> env_body env = Some body
      \<and> p \<in> set (res_options r) \<union> set (res_pool r)
      \<longrightarrow> vibeOf body \<in> dom ALLOWED_BY_VIBE
          \<and> category p \<in> set (allowedFor (vibeOf body)))"
proof (intro conjI impI)
  assume "vibe \<in> dom ALLOWED_BY_VIBE"
  then show "googleTypeToInternalCategory types vibe \<in> set (allowedFor vibe)"
    by (rule googleTypeToInternalCategory_allowed)
next
  assume "buildOptionsFromCandidates be candidates tz vibe' allowed ctr = Inr built \<and> q \<in> set built"
  then obtain c d where "buildOption vibe' allowed ctr (Some d) = Some q"
    using buildOptions_origin by blast
  then show "category q \<in> allowed"
    by (rule buildOption_category)
next
  assume a: "POST env = Success r \<and> env_body env = Some body
      \<and> p \<in> set (res_options r) \<union> set (res_pool r)"
  then obtain weather ctr' where w: "env_weather env = Inr weather"
    and c: "CITY_CENTERS (pickDefaultCity (req_city body)) = Some ctr'"
    using POST_Success_parts [of env r] by auto
  from a w c POST_Success_structure [of env r body weather ctr']
  show "vibeOf body \<in> dom ALLOWED_BY_VIBE"
    by blast
  from a w c returned_option_built [of env r body weather ctr' p] obtain gathered built' q' where
    b: "buildOptionsFromCandidates (backend env) (candidatesFilteredOf body ctr' gathered)
          (w_tzOffsetSec weather) (vibeOf body) (set (allowedFor (vibeOf body))) ctr' = Inr built'"
    and q': "q' \<in> set built'" and s: "sameVenue q' p"
    by blast
  from buildOptions_origin [OF b q'] have "category q' \<in> set (allowedFor (vibeOf body))"
    using buildOption_category by blast
  with s show "category p \<in> set (allowedFor (vibeOf body))"
    by (simp add: sameVenue_def)
qed

theorem C1_category_in_allowed_set_witness:
  "googleTypeToInternalCategory [''cafe'', ''food''] ''Productive''
     \<in> set (allowedFor ''Productive'') \<and>
   category beansOption \<in> set (allowedFor ''Productive'') \<and>
   vibeOf (sampleBody []) \<in> dom ALLOWED_BY_VIBE \<and>
   category beansShortlisted \<in> set (allowedFor (vibeOf (sampleBody [])))"
proof -
  have post: "POST (sampleEnv []) =
      Success \<lparr>res_options = [beansShortlisted], res_pool = [beansPooled],
               res_limitedAvailability = True\<rparr>"
    by (rule sample_POST) (simp add: sample_sanitize_Nil)
  have key: "''Productive'' \<in> dom ALLOWED_BY_VIBE"
    by (simp add: dom_ALLOWED_BY_VIBE)
  show ?thesis
    using C1_category_in_allowed_set
      [of "''Productive''" "[''cafe'', ''food'']" sampleBackend "[beansCandidate]" "- 18000"
        "''Productive''" "set (allowedFor ''Productive'')" Boston "[beansOption]" beansOption
        "sampleEnv []"
        "\<lparr>res_options = [beansShortlisted], res_pool = [beansPooled],
          res_limitedAvailability = True\<rparr>"
        "sampleBody []" beansShortlisted]
      post key sample_built [of "- 18000"]
    by (simp add: sampleEnv_fields)
qed

text \<open>
  C10. Every returned Option has a numeric rating in the closed interval from 4.1 to
  5.0: an option is built with the provider's rating clamped into it, 4.4 when the
  provider reports none, so the options that \<^verbatim>\<open>scoreOption\<close> scores never have a
  missing rating and its default of 4.2 is not used.
\<close>

lemma clamp_bounds: "mn \<le> mx \<Longrightarrow> mn \<le> clamp n mn mx \<and> clamp n mn mx \<le> mx"
  by (auto simp add: clamp_def)

theorem C10_rating_between_4_1_and_5:
  "(buildOption vibe allowed ctr (Some d) = Some q
      \<longrightarrow> (\<exists>x. rating q = Some x \<and> 4.1 \<le> x \<and> x \<le> 5.0)
          \<and> (d_rating d = None \<longrightarrow> rating q = Some 4.4)) \<and>
   (buildOptionsFromCandidates be candidates tz vibe' allowed' ctr' = Inr built \<and> q' \<in> set built
      \<longrightarrow> rating q' \<noteq> None) \<and>
   (POST env = Success r \<and> p \<in> set (res_options r) \<union> set (res_pool r)
      \<longrightarrow> (\<exists>x. rating p = Some x \<and> 4.1 \<le> x \<and> x \<le> 5.0))"
proof (intro conjI impI)
  assume "buildOption vibe allowed ctr (Some d) = Some q"
  then have rq: "rating q = Some (clamp (case d_rating d of Some r \<Rightarrow> r | None \<Rightarrow> 4.4) 4.1 5.0)"
    by (rule buildOption_rating)
  then show "\<exists>x. rating q = Some x \<and> 4.1 \<le> x \<and> x \<le> 5.0"
    using clamp_bounds [of "4.1" "5.0" "case d_rating d of Some r \<Rightarrow> r | None \<Rightarrow> 4.4"] by simp
  assume "d_rating d = None"
  with rq show "rating q = Some 4.4"
    by (simp add: clamp_def)
next
  assume "buildOptionsFromCandidates be candidates tz vibe' allowed' ctr' = Inr built \<and> q' \<in> set built"
  then obtain c d' where "buildOption vibe' allowed' ctr' (Some d') = Some q'"
    using buildOptions_origin by blast
  then show "rating q' \<noteq> None"
    using buildOption_rating by fastforce
next
  assume a: "POST env = Success r \<and> p \<in> set (res_options r) \<union> set (res_pool r)"
  then obtain body weather ctr'' where b: "env_body env = Some body"
    and w: "env_weather env = Inr weather"
    and c: "CITY_CENTERS (pickDefaultCity (req_city body)) = Some ctr''"
    using POST_Success_parts [of env r] by auto
  from a b w c returned_option_lane [of env r body weather ctr'' p] obtain d'' q'' where
    bo: "buildOption (vibeOf body) (set (allowedFor (vibeOf body))) ctr'' (Some d'') = Some q''"
    and s: "sameVenue q'' p"
    by blast
  from bo have "rating q'' = Some (clamp (case d_rating d'' of Some r \<Rightarrow> r | None \<Rightarrow> 4.4) 4.1 5.0)"
    by (rule buildOption_rating)
  moreover from s have "rating p = rating q''"
    by (simp add: sameVenue_def)
  ultimately have "rating p = Some (clamp (case d_rating d'' of Some r \<Rightarrow> r | None \<Rightarrow> 4.4) 4.1 5.0)"
    by simp
  then show "\<exists>x. rating p = Some x \<and> 4.1 \<le> x \<and> x \<le> 5.0"
    using clamp_bounds [of "4.1" "5.0" "case d_rating d'' of Some r \<Rightarrow> r | None \<Rightarrow> 4.4"] by simp
qed

text \<open>A details record without a rating, for the default of 4.4.\<close>

definition unratedDetails :: PlaceDetails where
  "unratedDetails = beansDetails\<lparr>d_rating := None\<rparr>"

theorem C10_rating_between_4_1_and_5_witness:
  "d_rating unratedDetails = None \<and>
   buildOption ''Productive'' (set (allowedFor ''Productive'')) Boston (Some unratedDetails)
     = Some (beansOption\<lparr>rating := Some 4.4\<rparr>) \<and>
   rating (beansOption\<lparr>rating := Some 4.4\<rparr>) = Some 4.4 \<and>
   rating beansOption \<noteq> None \<and>
   (\<exists>x. rating beansPooled = Some x \<and> 4.1 \<le> x \<and> x \<le> 5.0)"
proof -
  have post: "POST (sampleEnv []) =
      Success \<lparr>res_options = [beansShortlisted], res_pool = [beansPooled],
               res_limitedAvailability = True\<rparr>"
    by (rule sample_POST) (simp add: sample_sanitize_Nil)
  have unrated: "buildOption ''Productive'' (set (allowedFor ''Productive'')) Boston
      (Some unratedDetails) = Some (beansOption\<lparr>rating := Some 4.4\<rparr>)"
    by (simp add: buildOption_def unratedDetails_def beansDetails_def beansOption_def
        sample_category allowedFor_Productive clamp_def)
  show ?thesis
    using C10_rating_between_4_1_and_5
      [of "''Productive''" "set (allowedFor ''Productive'')" Boston unratedDetails
        "beansOption\<lparr>rating := Some 4.4\<rparr>"
        sampleBackend "[beansCandidate]" "- 18000" "''Productive''"
        "set (allowedFor ''Productive'')" Boston "[beansOption]" beansOption
        "sampleEnv []"
        "\<lparr>res_options = [beansShortlisted], res_pool = [beansPooled],
          res_limitedAvailability = True\<rparr>"
        beansPooled]
      post unrated sample_built [of "- 18000"]
    by (simp add: unratedDetails_def)
qed

section \<open>The shortlist and the swap pool\<close>

text \<open>
  C2. Every Option of the returned shortlist is open now by the provider's explicit
  word (its status text says "Open now", which an option gets only from a details
  record whose open-now is true), has a known closing instant or label, has at least
  75 remaining minutes computed from them, and lies within 10 km of the city center.
\<close>

theorem C2_shortlist_is_strict:
  assumes "POST env = Success r"
    and "env_body env = Some body"
    and "env_weather env = Inr weather"
    and "CITY_CENTERS (pickDefaultCity (req_city body)) = Some ctr"
    and "p \<in> set (res_options r)"
  shows "str_includes (toLowerCase (openStatus p)) ''open now''
         \<and> (\<exists>(c :: GoogleCandidate) d q. fetchPlaceDetailsById (backend env) (cand_placeId c) (w_tzOffsetSec weather)
                        = Inr (Some d)
                     \<and> buildOption (vibeOf body) (set (allowedFor (vibeOf body))) ctr (Some d) = Some q
                     \<and> sameVenue q p \<and> d_openNow d = Some True)
         \<and> hasClose p
         \<and> (\<exists>m. minutesUntilClose (env_now env) (cityNowOf env weather) (closingTime p) (closeTs p)
                    = Some m \<and> MIN_REMAINING_MIN \<le> m)
         \<and> haversineKm ctr \<lparr>lat = lat p, lng = lng p\<rparr> \<le> MAX_DIST_KM_SHORTLIST"
proof -
  from res_options_origin [OF assms] obtain gathered built x where
    x: "x \<in> set (strictCandidates (env_now env) (strictOf env body ctr weather)
                    (dedupedOf env body weather built))"
    and xp: "sameVenue x p"
    by blast
  from x have xo: "str_includes (toLowerCase (openStatus x)) ''open now''"
    and xc: "hasClose x"
    and xr: "hardReject (env_now env) x (strictOf env body ctr weather) = None"
    unfolding strictCandidates_def by auto
  from xp have eq: "openStatus p = openStatus x" "closingTime p = closingTime x"
    "closeTs p = closeTs x" "lat p = lat x" "lng p = lng x"
    by (simp_all add: sameVenue_def)
  have args: "minRemaining (strictOf env body ctr weather) = MIN_REMAINING_MIN"
    "maxDistKm (strictOf env body ctr weather) = MAX_DIST_KM_SHORTLIST"
    "center (strictOf env body ctr weather) = ctr"
    "cityNow (strictOf env body ctr weather) = cityNowOf env weather"
    "\<not> allowUnknownHours (strictOf env body ctr weather)"
    by (simp_all add: strictOf_def strictArgs_def)
  from hardReject_None(5) [OF xr args(5)] obtain m where
    m: "minutesUntilClose (env_now env) (cityNowOf env weather) (closingTime x) (closeTs x) = Some m"
    unfolding args by blast
  from hardReject_None(4) [OF xr] m have m75: "MIN_REMAINING_MIN \<le> m"
    unfolding args by blast
  from hardReject_None(3) [OF xr]
  have dist: "haversineKm ctr \<lparr>lat = lat x, lng = lng x\<rparr> \<le> MAX_DIST_KM_SHORTLIST"
    unfolding args by blast
  have "p \<in> set (res_options r) \<union> set (res_pool r)"
    using assms(5) by simp
  from returned_option_lane [OF assms(1-4) this] obtain c :: GoogleCandidate and d q where
    f: "fetchPlaceDetailsById (backend env) (cand_placeId c) (w_tzOffsetSec weather) = Inr (Some d)"
    and bo: "buildOption (vibeOf body) (set (allowedFor (vibeOf body))) ctr (Some d) = Some q"
    and qp: "sameVenue q p"
    by blast
  from qp have "openStatus q = openStatus p"
    by (simp add: sameVenue_def)
  with xo eq have "str_includes (toLowerCase (openStatus q)) ''open now''"
    by simp
  with bo have "d_openNow d = Some True"
    by (rule buildOption_open_now)
  with f bo qp xo xc xp m m75 dist eq show ?thesis
    using hasClose_sameVenue [OF xp] by auto
qed

theorem C2_shortlist_is_strict_witness:
  "str_includes (toLowerCase (openStatus beansShortlisted)) ''open now''
   \<and> (\<exists>(c :: GoogleCandidate) d q. fetchPlaceDetailsById (backend (sampleEnv [])) (cand_placeId c)
                  (w_tzOffsetSec sampleWeather) = Inr (Some d)
               \<and> buildOption (vibeOf (sampleBody [])) (set (allowedFor (vibeOf (sampleBody []))))
                    Boston (Some d) = Some q
               \<and> sameVenue q beansShortlisted \<and> d_openNow d = Some True)
   \<and> hasClose beansShortlisted
   \<and> (\<exists>m. minutesUntilClose (env_now (sampleEnv [])) (cityNowOf (sampleEnv []) sampleWeather)
              (closingTime beansShortlisted) (closeTs beansShortlisted) = Some m
           \<and> MIN_REMAINING_MIN \<le> m)
   \<and> haversineKm Boston \<lparr>lat = lat beansShortlisted, lng = lng beansShortlisted\<rparr>
        \<le> MAX_DIST_KM_SHORTLIST"
proof -
  have post: "POST (sampleEnv []) =
      Success \<lparr>res_options = [beansShortlisted], res_pool = [beansPooled],
               res_limitedAvailability = True\<rparr>"
    by (rule sample_POST) (simp add: sample_sanitize_Nil)
  show ?thesis
    by (rule C2_shortlist_is_strict [OF post])
      (simp_all add: sampleEnv_fields sampleBody_fields sample_city sample_center)
qed

text \<open>
  C3 (as amended). Every Option of the returned pool lies within 14 km of the city
  center and, when its remaining minutes are known, has at least 45 of them; an option
  whose remaining minutes are unknown passes the relaxed profile (stated here outside
  the weather block). No Option of the pool or of the shortlist has a placeId among
  the ids the handler keeps of the caller's swappedPlaceIds (the first 220 non-empty
  entries, trimmed), provided each details record carries the placeId it was asked
  for.
\<close>

theorem C3_pool_is_relaxed_and_excludes_swapped:
  assumes "POST env = Success r"
    and "env_body env = Some body"
    and "env_weather env = Inr weather"
    and "CITY_CENTERS (pickDefaultCity (req_city body)) = Some ctr"
    and "\<forall>pid d. fetchPlaceDetailsById (backend env) pid (w_tzOffsetSec weather) = Inr (Some d)
                  \<longrightarrow> d_placeId d = pid"
  shows "(\<forall>p \<in> set (res_pool r).
            haversineKm ctr \<lparr>lat = lat p, lng = lng p\<rparr> \<le> MAX_DIST_KM_SWAP
            \<and> (\<forall>m. minutesUntilClose (env_now env) (cityNowOf env weather)
                       (closingTime p) (closeTs p) = Some m
                     \<longrightarrow> RELAXED_REMAINING_MIN \<le> m))
         \<and> (\<forall>q :: PlanOption. category q \<in> set (allowedFor (vibeOf body))
                 \<and> \<not> str_includes (toLowerCase (openStatus q)) ''closed''
                 \<and> haversineKm ctr \<lparr>lat = lat q, lng = lng q\<rparr> \<le> MAX_DIST_KM_SWAP
                 \<and> minutesUntilClose (env_now env) (cityNowOf env weather)
                      (closingTime q) (closeTs q) = None
                 \<and> \<not> isOutdoorishCategory (category q)
                 \<longrightarrow> hardReject (env_now env) q (relaxedOf env body ctr weather) = None)
         \<and> (\<forall>p \<in> set (res_options r) \<union> set (res_pool r). \<forall>pid.
               placeId p = Some pid
               \<longrightarrow> pid \<notin> set (sanitizeIdList (req_swappedPlaceIds body) MAX_SWAPPED_IDS))"
proof (intro conjI ballI allI impI)
  fix p
  assume p: "p \<in> set (res_pool r)"
  from res_pool_origin [OF assms(1-4) p] obtain gathered built x where
    x: "x \<in> set (swapFeasible (env_now env) (relaxedOf env body ctr weather)
                    (dedupedOf env body weather built))"
    and xp: "sameVenue x p"
    by blast
  from x have xr: "hardReject (env_now env) x (relaxedOf env body ctr weather) = None"
    unfolding swapFeasible_def by auto
  from xp have eq: "closingTime p = closingTime x" "closeTs p = closeTs x"
    "lat p = lat x" "lng p = lng x"
    by (simp_all add: sameVenue_def)
  have args: "minRemaining (relaxedOf env body ctr weather) = RELAXED_REMAINING_MIN"
    "maxDistKm (relaxedOf env body ctr weather) = MAX_DIST_KM_SWAP"
    "center (relaxedOf env body ctr weather) = ctr"
    "cityNow (relaxedOf env body ctr weather) = cityNowOf env weather"
    by (simp_all add: relaxedOf_def relaxedArgs_def)
  from hardReject_None(3) [OF xr]
  show "haversineKm ctr \<lparr>lat = lat p, lng = lng p\<rparr> \<le> MAX_DIST_KM_SWAP"
    unfolding args eq by blast
  fix m
  assume "minutesUntilClose (env_now env) (cityNowOf env weather) (closingTime p) (closeTs p) = Some m"
  with hardReject_None(4) [OF xr, of m] show "RELAXED_REMAINING_MIN \<le> m"
    unfolding args eq by blast
next
  fix q :: PlanOption
  assume "category q \<in> set (allowedFor (vibeOf body))
            \<and> \<not> str_includes (toLowerCase (openStatus q)) ''closed''
            \<and> haversineKm ctr \<lparr>lat = lat q, lng = lng q\<rparr> \<le> MAX_DIST_KM_SWAP
            \<and> minutesUntilClose (env_now env) (cityNowOf env weather)
                 (closingTime q) (closeTs q) = None
            \<and> \<not> isOutdoorishCategory (category q)"
  then show "hardReject (env_now env) q (relaxedOf env body ctr weather) = None"
    by (simp add: hardReject_def relaxedOf_def relaxedArgs_def)
next
  fix p pid
  assume p: "p \<in> set (res_options r) \<union> set (res_pool r)" and pid: "placeId p = Some pid"
  from returned_option_lane [OF assms(1-4) p] obtain c :: GoogleCandidate and d q where
    ns: "cand_placeId c \<notin> swappedSetOf body"
    and f: "fetchPlaceDetailsById (backend env) (cand_placeId c) (w_tzOffsetSec weather) = Inr (Some d)"
    and bo: "buildOption (vibeOf body) (set (allowedFor (vibeOf body))) ctr (Some d) = Some q"
    and qp: "sameVenue q p"
    by blast
  from assms(5) f have "d_placeId d = cand_placeId c"
    by blast
  moreover from bo have "placeId q = Some (d_placeId d)"
    by (rule buildOption_placeId)
  moreover from qp have "placeId q = placeId p"
    by (simp add: sameVenue_def)
  ultimately have "pid = cand_placeId c"
    using pid by simp
  with ns show "pid \<notin> set (sanitizeIdList (req_swappedPlaceIds body) MAX_SWAPPED_IDS)"
    by (simp add: swappedSetOf_def)
qed

lemma sample_echo:
  "\<forall>pid d. fetchPlaceDetailsById (backend (sampleEnv sw)) pid tz = Inr (Some d)
             \<longrightarrow> d_placeId d = pid"
  by (auto simp add: fetchPlaceDetailsById_def sampleEnv_fields sampleBackend_def trySetPx_def
      beansDetails_def split: if_splits)

lemma library_indoor: "\<not> isOutdoorishCategory ''Library''"
  by code_simp

lemma beansPooled_fields:
  "lat beansPooled = lat Boston" "lng beansPooled = lng Boston"
  "closingTime beansPooled = Some ''9:00 PM''"
  "closeTs beansPooled = Some (sampleNow + 120 * 60000)"
  "placeId beansPooled = Some ''A''"
  by (simp_all add: beansPooled_def beansOption_def Boston_def)

lemma beansShortlisted_fields:
  "lat beansShortlisted = lat Boston" "lng beansShortlisted = lng Boston"
  "closingTime beansShortlisted = Some ''9:00 PM''"
  "closeTs beansShortlisted = Some (sampleNow + 120 * 60000)"
  "placeId beansShortlisted = Some ''A''"
  by (simp_all add: beansShortlisted_def beansOption_def Boston_def)

text \<open>
  The sample request with one swapped id, "Z": the pooled cafe is near, has 120
  remaining minutes and an id outside the kept ids; a "Library" with unknown hours at
  the center passes the relaxed profile.
\<close>

theorem C3_pool_is_relaxed_and_excludes_swapped_witness:
  "haversineKm Boston \<lparr>lat = lat beansPooled, lng = lng beansPooled\<rparr> \<le> MAX_DIST_KM_SWAP
   \<and> minutesUntilClose (env_now (sampleEnv [''Z''])) (cityNowOf (sampleEnv [''Z'']) sampleWeather)
        (closingTime beansPooled) (closeTs beansPooled) = Some 120
   \<and> RELAXED_REMAINING_MIN \<le> 120
   \<and> hardReject (env_now (sampleEnv [''Z'']))
        (sampleOption ''Library'' (''Hours unknown '' @ bullet @ '' Check on Maps'') Boston None None)
        (relaxedOf (sampleEnv [''Z'']) (sampleBody [''Z'']) Boston sampleWeather) = None
   \<and> placeId beansPooled = Some ''A''
   \<and> ''A'' \<notin> set (sanitizeIdList (req_swappedPlaceIds (sampleBody [''Z''])) MAX_SWAPPED_IDS)"
proof -
  have z: "sanitizeIdList [''Z''] MAX_SWAPPED_IDS = [''Z'']"
    by (simp add: sanitizeIdList_def trim_plain isSpaceChar_def MAX_SWAPPED_IDS_def)
  have post: "POST (sampleEnv [''Z'']) =
      Success \<lparr>res_options = [beansShortlisted], res_pool = [beansPooled],
               res_limitedAvailability = True\<rparr>"
    by (rule sample_POST) (simp add: z)
  have mins: "minutesUntilClose (env_now (sampleEnv [''Z''])) (cityNowOf (sampleEnv [''Z'']) sampleWeather)
      (closingTime beansPooled) (closeTs beansPooled) = Some 120"
    by (simp add: minutesUntilClose_def beansPooled_fields sampleEnv_fields)
  have unknown: "minutesUntilClose (env_now (sampleEnv [''Z''])) (cityNowOf (sampleEnv [''Z'']) sampleWeather)
      (closingTime (sampleOption ''Library'' (''Hours unknown '' @ bullet @ '' Check on Maps'') Boston None None))
      (closeTs (sampleOption ''Library'' (''Hours unknown '' @ bullet @ '' Check on Maps'') Boston None None))
      = None"
    by (simp add: minutesUntilClose_def parseClosingTimeToMinutes_def sampleOption_def)
  have pre: "category (sampleOption ''Library'' (''Hours unknown '' @ bullet @ '' Check on Maps'') Boston None None)
        \<in> set (allowedFor (vibeOf (sampleBody [''Z''])))"
    "\<not> str_includes (toLowerCase (openStatus
        (sampleOption ''Library'' (''Hours unknown '' @ bullet @ '' Check on Maps'') Boston None None)))
        ''closed''"
    "haversineKm Boston
       \<lparr>lat = lat (sampleOption ''Library'' (''Hours unknown '' @ bullet @ '' Check on Maps'') Boston None None),
        lng = lng (sampleOption ''Library'' (''Hours unknown '' @ bullet @ '' Check on Maps'') Boston None None)\<rparr>
       \<le> MAX_DIST_KM_SWAP"
    "\<not> isOutdoorishCategory
        (category (sampleOption ''Library'' (''Hours unknown '' @ bullet @ '' Check on Maps'') Boston None None))"
    by (simp_all add: sampleOption_def sample_vibeOf allowedFor_Productive bullet_def
        toLowerCase_def haversine_same_point MAX_DIST_KM_SWAP_def library_indoor)
  show ?thesis
    using C3_pool_is_relaxed_and_excludes_swapped
      [OF post, of "sampleBody [''Z'']" sampleWeather Boston] sample_echo [of "[''Z'']"]
      mins unknown pre
    by (simp add: sampleEnv_fields sampleBody_fields sample_city sample_center
        sampleWeather_fields beansPooled_fields)
qed

text \<open>
  C3 as stated speaks of every id the caller supplies. The handler keeps 220 of them:
  with 221 distinct ids whose last is "A", the place "A" is returned in the pool and
  in the shortlist.
\<close>

definition manySwapped :: "string list" where
  "manySwapped = map (\<lambda>n. replicate (Suc n) CHR ''x'') [0..<220] @ [''A'']"

lemma manySwapped_kept:
  "sanitizeIdList manySwapped MAX_SWAPPED_IDS = map (\<lambda>n. replicate (Suc n) CHR ''x'') [0..<220]"
proof -
  have "\<forall>s \<in> set manySwapped. s \<noteq> [] \<and> trim s = s"
    by (auto simp add: manySwapped_def trim_plain isSpaceChar_def)
  then have "sanitizeIdList manySwapped MAX_SWAPPED_IDS = take MAX_SWAPPED_IDS manySwapped"
    by (rule sanitizeIdList_take) (simp add: MAX_SWAPPED_IDS_def)
  then show ?thesis
    by (simp add: manySwapped_def MAX_SWAPPED_IDS_def)
qed

theorem C3_more_than_220_ids_counterexample:
  "length manySwapped = 221 \<and> distinct manySwapped
   \<and> ''A'' \<in> set (req_swappedPlaceIds (sampleBody manySwapped))
   \<and> POST (sampleEnv manySwapped) =
       Success \<lparr>res_options = [beansShortlisted], res_pool = [beansPooled],
                res_limitedAvailability = True\<rparr>
   \<and> placeId beansPooled = Some ''A'' \<and> placeId beansShortlisted = Some ''A''"
proof -
  have notin: "''A'' \<notin> set (sanitizeIdList manySwapped MAX_SWAPPED_IDS)"
    by (auto simp add: manySwapped_kept)
  have inj: "inj_on (\<lambda>n. replicate (Suc n) CHR ''x'') {0..<220}"
    by (rule inj_onI) (metis length_replicate nat.inject)
  have dist: "distinct manySwapped"
    using inj by (auto simp add: manySwapped_def distinct_map)
  have post: "POST (sampleEnv manySwapped) =
      Success \<lparr>res_options = [beansShortlisted], res_pool = [beansPooled],
               res_limitedAvailability = True\<rparr>"
    using notin by (rule sample_POST)
  show ?thesis
    using post dist
    by (simp add: sampleBody_fields beansPooled_fields beansShortlisted_fields)
      (simp add: manySwapped_def)
qed

section \<open>Cache failures\<close>

text \<open>
  C4. A cache read that fails is meant to count as a miss. The sample backend with a
  Redis whose reads throw: the nearby search and the details fetch both throw, and the
  request that succeeds with a reachable cache ends with status 500.
\<close>

definition redisDownBackend :: Backend where
  "redisDownBackend = sampleBackend\<lparr>redisGet := (\<lambda>key. Inl RedisFailure)\<rparr>"

definition redisDownEnv :: Env where
  "redisDownEnv = (sampleEnv [])\<lparr>backend := redisDownBackend\<rparr>"

lemma redisDown_collect:
  "collectCandidatesMultiLane redisDownBackend Boston ''Productive'' CITY_CENTER_RADIUS_SWAP_M
     True False = Inl RedisFailure"
  by code_simp

theorem C4_cache_read_failure_fails_request:
  "googleNearbySearch redisDownBackend Boston CITY_CENTER_RADIUS_SWAP_M ''library'' True
     = Inl RedisFailure
   \<and> fetchPlaceDetailsById redisDownBackend ''A'' (- 18000) = Inl RedisFailure
   \<and> POST redisDownEnv = Failure 500
   \<and> POST (sampleEnv []) =
       Success \<lparr>res_options = [beansShortlisted], res_pool = [beansPooled],
                res_limitedAvailability = True\<rparr>"
proof -
  have post: "POST (sampleEnv []) =
      Success \<lparr>res_options = [beansShortlisted], res_pool = [beansPooled],
               res_limitedAvailability = True\<rparr>"
    by (rule sample_POST) (simp add: sample_sanitize_Nil)
  have nearby: "googleNearbySearch redisDownBackend Boston CITY_CENTER_RADIUS_SWAP_M ''library'' True
     = Inl RedisFailure"
    by (simp add: googleNearbySearch_def searchLane_def redisDownBackend_def sampleBackend_def)
  have details: "fetchPlaceDetailsById redisDownBackend ''A'' (- 18000) = Inl RedisFailure"
    by (simp add: fetchPlaceDetailsById_def redisDownBackend_def sampleBackend_def)
  have down: "POST redisDownEnv = Failure 500"
    by (simp add: POST_def redisDownEnv_def sampleEnv_def sampleBody_fields sample_city
        sample_vibe sample_center sample_vibeOrder redisDown_collect Let_def
        ALLOWED_BY_VIBE_def redisDownBackend_def [THEN arg_cong, of googleKey]
        sampleBackend_def [THEN arg_cong, of googleKey])
  from nearby details down post show ?thesis
    by blast
qed

section \<open>Fallback vibes\<close>

text \<open>
  The retrieval loop runs the lane battery of the primary vibe first, then those of the
  two fallback vibes, and stops after the first run that brings the accumulated
  candidate count to 140.
\<close>

lemma fallbackVibesForSwap_primary_first:
  "hd (fallbackVibesForSwap primary) = primary \<and> length (fallbackVibesForSwap primary) = 3"
  by (simp add: fallbackVibesForSwap_def)

lemma gatherLoop_stops_at_140:
  "lanes v1 = Inr c1 \<Longrightarrow> 140 \<le> length c1 \<Longrightarrow> gatherLoop lanes [v1, v2, v3] [] = Inr c1"
  "lanes v1 = Inr c1 \<Longrightarrow> length c1 < 140 \<Longrightarrow> lanes v2 = Inr c2 \<Longrightarrow> 140 \<le> length (c1 @ c2)
     \<Longrightarrow> gatherLoop lanes [v1, v2, v3] [] = Inr (c1 @ c2)"
  "lanes v1 = Inr c1 \<Longrightarrow> lanes v2 = Inr c2 \<Longrightarrow> lanes v3 = Inr c3 \<Longrightarrow> length (c1 @ c2) < 140
     \<Longrightarrow> gatherLoop lanes [v1, v2, v3] [] = Inr (c1 @ c2 @ c3)"
  by simp_all

text \<open>
  The lane batteries of the sample request: only the battery of the fallback vibe
  "Cozy" finds the cafe.
\<close>

lemma sample_lanesOf:
  "lanesOf (sampleEnv sw) (sampleBody sw) Boston ''Productive'' = Inr []"
  "lanesOf (sampleEnv sw) (sampleBody sw) Boston ''Cozy'' = Inr [beansCandidate]"
  "lanesOf (sampleEnv sw) (sampleBody sw) Boston ''Social'' = Inr []"
  by (simp_all add: lanesOf_def sampleEnv_fields sampleBody_fields sample_collect_Cozy
      sample_collect_Productive sample_collect_Social)

text \<open>
  C9. The runs for the fallback vibes are to contribute candidates to the swap pool
  only, never to the shortlist: every Option of the shortlist is to come from the lane
  battery of the primary vibe. The source says so where it defines the fallback order
  (\<^verbatim>\<open>fallbackVibesForSwap\<close>: "Only used for swap pool abundance; shortlist stays pure."),
  but the route merges the runs of all three vibes into one candidate list, which keeps
  no record of the vibe that found a candidate, and draws the shortlist from that list.
  In the sample request the primary vibe is "Productive", with fallback vibes "Cozy" and
  "Social". The batteries of "Productive" and "Social" find nothing, the battery of
  "Cozy" finds one cafe, and the response carries that cafe in the shortlist.
\<close>

theorem C9_fallback_candidate_shortlisted:
  "vibeOf (sampleBody []) = ''Productive''
   \<and> fallbackVibesForSwap ''Productive'' = [''Productive'', ''Cozy'', ''Social'']
   \<and> lanesOf (sampleEnv []) (sampleBody []) Boston ''Productive'' = Inr []
   \<and> lanesOf (sampleEnv []) (sampleBody []) Boston ''Cozy'' = Inr [beansCandidate]
   \<and> lanesOf (sampleEnv []) (sampleBody []) Boston ''Social'' = Inr []
   \<and> POST (sampleEnv []) =
       Success \<lparr>res_options = [beansShortlisted], res_pool = [beansPooled],
                res_limitedAvailability = True\<rparr>
   \<and> placeId beansShortlisted = Some (cand_placeId beansCandidate)"
proof -
  have post: "POST (sampleEnv []) =
      Success \<lparr>res_options = [beansShortlisted], res_pool = [beansPooled],
               res_limitedAvailability = True\<rparr>"
    by (rule sample_POST) (simp add: sample_sanitize_Nil)
  have order: "fallbackVibesForSwap ''Productive'' = [''Productive'', ''Cozy'', ''Social'']"
    by (simp add: fallbackVibesForSwap_def)
  from post order show ?thesis
    by (simp add: sample_vibeOf sample_lanesOf beansShortlisted_fields beansCandidate_def)
qed

section \<open>Diversity caps\<close>

text \<open>The number of options of a list under one counter key.\<close>

definition countCat :: "PlanOption list \<Rightarrow> string \<Rightarrow> nat" where
  "countCat xs c = length (filter (\<lambda>p. catKey p = c) xs)"

lemma countCat_snoc:
  "countCat (xs @ [x]) c = countCat xs c + (if catKey x = c then 1 else 0)"
  by (simp add: countCat_def)

lemma countCat_Nil [simp]: "countCat [] c = 0"
  by (simp add: countCat_def)

lemma countCat_pos: "0 < countCat xs c \<Longrightarrow> \<exists>p \<in> set xs. catKey p = c"
  by (auto simp add: countCat_def filter_empty_conv)

text \<open>With distinct keys, removing the chosen key removes the chosen option only.\<close>

lemma countCat_remove:
  assumes "distinct (map pickKey xs)" and "x \<in> set xs"
  shows "countCat (filter (\<lambda>p. pickKey p \<noteq> pickKey x) xs) c + (if catKey x = c then 1 else 0)
           = countCat xs c"
  using assms
proof (induction xs)
  case Nil
  then show ?case by simp
next
  case (Cons y ys)
  from Cons.prems(1) have ny: "pickKey y \<notin> pickKey ` set ys" and dys: "distinct (map pickKey ys)"
    by auto
  show ?case
  proof (cases "x = y")
    case True
    have "\<And>p. p \<in> set ys \<Longrightarrow> pickKey p \<noteq> pickKey y"
      using ny by (metis image_eqI)
    then have "filter (\<lambda>p. pickKey p \<noteq> pickKey y) ys = ys"
      by (simp add: filter_id_conv)
    with True show ?thesis
      by (simp add: countCat_def)
  next
    case False
    with Cons.prems(2) have xs: "x \<in> set ys"
      by simp
    with ny have "pickKey y \<noteq> pickKey x"
      by auto
    with Cons.IH [OF dys xs] show ?thesis
      by (simp add: countCat_def)
  qed
qed

lemma sum_countCat_le:
  assumes "distinct Cs"
  shows "sum_list (map (countCat xs) Cs) \<le> length xs"
proof (induction xs)
  case Nil
  then show ?case by simp
next
  case (Cons x xs)
  have one: "sum_list (map (\<lambda>c. if catKey x = c then 1 else 0 :: nat) Cs) \<le> 1"
    using assms by (induction Cs) auto
  have "sum_list (map (countCat (x # xs)) Cs)
      = sum_list (map (\<lambda>c. (if catKey x = c then 1 else 0) + countCat xs c) Cs)"
    by (intro arg_cong [where f = sum_list] map_cong) (auto simp add: countCat_def)
  also have "\<dots> = sum_list (map (\<lambda>c. if catKey x = c then 1 else 0) Cs)
      + sum_list (map (countCat xs) Cs)"
    by (simp add: sum_list_addf)
  finally show ?case
    using one Cons.IH by simp
qed

text \<open>
  The loop keeps every counter at two or below and reaches five picks, as long as the
  categories at hand can fill the open places at no more than two per category.
\<close>

lemma selectLoop_capped:
  assumes "distinct Cs"
    and "distinct (map pickKey remaining)"
    and "\<And>c. getCount catCount c = countCat picked c"
    and "\<And>c. countCat picked c \<le> 2"
    and "length picked \<le> 5"
    and "5 \<le> sum_list (map (\<lambda>c. min 2 (countCat picked c + countCat remaining c)) Cs)"
  shows "length (selectLoop draws k picked catCount remaining) = 5
         \<and> (\<forall>c. countCat (selectLoop draws k picked catCount remaining) c \<le> 2)"
  using assms
proof (induction draws k picked catCount remaining rule: selectLoop.induct)
  case (1 draws k picked catCount remaining)
  let ?cn = "filter (\<lambda>p. getCount catCount (catKey p) < 2) remaining"
  let ?pool = "if ?cn \<noteq> [] then ?cn else remaining"
  have short: "\<exists>p \<in> set remaining. countCat picked (catKey p) < 2" if lt: "length picked < 5"
  proof (rule ccontr)
    assume "\<not> (\<exists>p \<in> set remaining. countCat picked (catKey p) < 2)"
    then have full: "\<And>p. p \<in> set remaining \<Longrightarrow> 2 \<le> countCat picked (catKey p)"
      by (meson not_less)
    have "min 2 (countCat picked c + countCat remaining c) \<le> countCat picked c" for c
    proof (cases "0 < countCat remaining c")
      case True
      then obtain p where "p \<in> set remaining" "catKey p = c"
        using countCat_pos by blast
      with full have "2 \<le> countCat picked c"
        by blast
      then show ?thesis
        by simp
    next
      case False
      then show ?thesis
        by simp
    qed
    then have "sum_list (map (\<lambda>c. min 2 (countCat picked c + countCat remaining c)) Cs)
        \<le> sum_list (map (countCat picked) Cs)"
      by (intro sum_list_mono) simp
    also have "\<dots> \<le> length picked"
      using "1.prems"(1) by (rule sum_countCat_le)
    finally show False
      using "1.prems"(6) lt by simp
  qed
  show ?case
  proof (cases "length picked < 5 \<and> remaining \<noteq> []")
    case False
    have "length picked = 5"
    proof (rule ccontr)
      assume "length picked \<noteq> 5"
      with "1.prems"(5) have lt: "length picked < 5"
        by simp
      with False have "remaining = []"
        by simp
      with short [OF lt] show False
        by simp
    qed
    with False "1.prems"(4) show ?thesis
      by (subst (1 2) selectLoop.simps) auto
  next
    case True
    then have lt: "length picked < 5"
      by simp
    from short [OF lt] "1.prems"(3) have cn: "?cn \<noteq> []"
      by (auto simp add: filter_empty_conv)
    then have pool: "?pool = ?cn"
      by simp
    from cn obtain chosen where ch: "weightedPick (draws k) ?pool = Some chosen"
      using weightedPick_nonempty [of ?pool "draws k"] by auto
    then have "chosen \<in> set ?pool"
      by (rule weightedPick_mem)
    with pool have mem: "chosen \<in> set remaining"
      and under: "getCount catCount (catKey chosen) < 2"
      by auto
    let ?picked' = "picked @ [chosen]"
    let ?cc' = "catCount(catKey chosen \<mapsto> getCount catCount (catKey chosen) + 1)"
    let ?rem' = "filter (\<lambda>p. pickKey p \<noteq> pickKey chosen) remaining"
    have step: "selectLoop draws k picked catCount remaining
        = selectLoop draws (k + 1) ?picked' ?cc' ?rem'"
      using True ch by (subst selectLoop.simps) (simp add: Let_def)
    have i2: "distinct (map pickKey ?rem')"
      using "1.prems"(2) by (rule distinct_map_filter)
    have i3: "getCount ?cc' c = countCat ?picked' c" for c
      using "1.prems"(3) [of c] "1.prems"(3) [of "catKey chosen"]
      by (simp add: getCount_def countCat_snoc)
    have i4: "countCat ?picked' c \<le> 2" for c
      using "1.prems"(4) [of c] under "1.prems"(3) [of "catKey chosen"]
      by (auto simp add: countCat_snoc)
    have i5: "length ?picked' \<le> 5"
      using lt by simp
    have same: "countCat ?picked' c + countCat ?rem' c = countCat picked c + countCat remaining c"
      for c
      using countCat_remove [OF "1.prems"(2) mem, of c] by (simp add: countCat_snoc)
    have i6: "5 \<le> sum_list (map (\<lambda>c. min 2 (countCat ?picked' c + countCat ?rem' c)) Cs)"
      using "1.prems"(6) by (simp only: same)
    from "1.IH" [OF True refl refl ch "1.prems"(1) i2 i3 i4 i5 i6] show ?thesis
      unfolding step .
  qed
qed

lemma length_filter_imp:
  "(\<And>x. x \<in> set xs \<Longrightarrow> P x \<Longrightarrow> Q x) \<Longrightarrow> length (filter P xs) \<le> length (filter Q xs)"
  by (induction xs) auto

lemma category_count_le_countCat:
  "length (filter (\<lambda>p. category p = c) xs)
     \<le> countCat xs (if c = [] then ''Other'' else c)"
  unfolding countCat_def by (rule length_filter_imp) (simp add: catKey_def)

lemma selectShortlist_capped:
  assumes "distinct (map pickKey (take 30 strict))"
    and "5 \<le> sum_list (map (\<lambda>c. min 2 (countCat (take 30 strict) c))
                 (remdups (map catKey (take 30 strict))))"
  shows "length (selectShortlist draws k strict) = 5
         \<and> (\<forall>c. length (filter (\<lambda>p. category p = c) (selectShortlist draws k strict)) \<le> 2)"
proof -
  let ?top = "take 30 strict"
  let ?picked = "selectLoop draws k [] Map.empty ?top"
  have "length ?picked = 5 \<and> (\<forall>c. countCat ?picked c \<le> 2)"
    using assms
    by (intro selectLoop_capped [where Cs = "remdups (map catKey ?top)"])
      (simp_all add: getCount_def)
  then have len: "length ?picked = 5" and cap: "\<And>c. countCat ?picked c \<le> 2"
    by blast+
  have "card (set (map category ?picked)) \<noteq> 1"
  proof
    assume "card (set (map category ?picked)) = 1"
    then obtain c0 where c0: "set (map category ?picked) = {c0}"
      by (auto simp add: card_1_singleton_iff)
    then have "\<And>p. p \<in> set ?picked \<Longrightarrow> category p = c0"
      by auto
    then have "filter (\<lambda>p. category p = c0) ?picked = ?picked"
      by (auto simp add: filter_id_conv)
    then have "length (filter (\<lambda>p. category p = c0) ?picked) = 5"
      using len by simp
    with category_count_le_countCat [of c0 ?picked] cap [of "if c0 = [] then ''Other'' else c0"]
    show False
      by simp
  qed
  then have "selectShortlist draws k strict = ?picked"
    by (simp add: selectShortlist_def Let_def)
  with len cap category_count_le_countCat show ?thesis
    by (metis (no_types, lifting) le_trans)
qed

text \<open>The pool: no counter passes the cap, and the pool is cut at 60.\<close>

lemma diversifyLoop_capped:
  assumes "\<And>c. getCount counts c \<le> mx"
  shows "getCount counts c + countCat (diversifyLoop mx counts items) c \<le> mx"
  using assms
proof (induction items arbitrary: counts)
  case Nil
  then show ?case by simp
next
  case (Cons it items)
  let ?c0 = "catKey it"
  let ?n = "getCount counts ?c0"
  show ?case
  proof (cases "mx \<le> ?n")
    case True
    with Cons show ?thesis
      by (simp add: Let_def)
  next
    case False
    let ?counts' = "counts(?c0 \<mapsto> ?n + 1)"
    have below: "\<And>c. getCount ?counts' c \<le> mx"
      using False Cons.prems by (simp add: getCount_def)
    have "getCount ?counts' c + countCat (diversifyLoop mx ?counts' items) c \<le> mx"
      using below by (rule Cons.IH)
    moreover have "getCount ?counts' c = getCount counts c + (if ?c0 = c then 1 else 0)"
      by (auto simp add: getCount_def)
    ultimately show ?thesis
      using False by (auto simp add: Let_def countCat_def)
  qed
qed

lemma swapPoolOf_capped:
  "length (filter (\<lambda>p. category p = c) (swapPoolOf seenSet feasible)) \<le> 6"
  "length (swapPoolOf seenSet feasible) \<le> 60"
proof -
  have div: "countCat (diversifyPool xs 6) c' \<le> 6" for xs c'
    using diversifyLoop_capped [of Map.empty 6 c' xs]
    by (simp add: diversifyPool_def getCount_def)
  have tk: "countCat (take n xs) c' \<le> countCat xs c'" for n xs c'
  proof -
    have "countCat xs c' = countCat (take n xs @ drop n xs) c'"
      by simp
    also have "\<dots> = countCat (take n xs) c' + countCat (drop n xs) c'"
      unfolding countCat_def by (simp only: filter_append length_append)
    finally show ?thesis
      by simp
  qed
  have "countCat (swapPoolOf seenSet feasible) c' \<le> 6" for c'
    unfolding swapPoolOf_def Let_def using tk div le_trans by blast
  with category_count_le_countCat [of c "swapPoolOf seenSet feasible"]
  show "length (filter (\<lambda>p. category p = c) (swapPoolOf seenSet feasible)) \<le> 6"
    using le_trans by blast
  show "length (swapPoolOf seenSet feasible) \<le> 60"
    by (simp add: swapPoolOf_def Let_def MAX_POOL_RETURN_def)
qed

subsection \<open>Sample venues\<close>

text \<open>Copies of the sample cafe under another id and category, all strict-feasible.\<close>

definition venue :: "string \<Rightarrow> string \<Rightarrow> PlanOption" where
  "venue pid cat = beansOption\<lparr>opt_id := pid, category := cat, placeId := Some pid\<rparr>"

definition fiveVenues :: "PlanOption list" where
  "fiveVenues =
     [venue ''a1'' ''Cafe'', venue ''a2'' ''Cafe'', venue ''a3'' ''Cafe'',
      venue ''b1'' ''Dessert'', venue ''c1'' ''Bookstore'']"

definition sixVenues :: "PlanOption list" where
  "sixVenues =
     [venue ''a1'' ''Cafe'', venue ''a2'' ''Cafe'', venue ''b1'' ''Dessert'',
      venue ''b2'' ''Dessert'', venue ''c1'' ''Bookstore'', venue ''c2'' ''Bookstore'']"

lemma venue_keys:
  "pickKey (venue ''a1'' cat) = ''a1''" "pickKey (venue ''a2'' cat) = ''a2''"
  "pickKey (venue ''a3'' cat) = ''a3''" "pickKey (venue ''b1'' cat) = ''b1''"
  "pickKey (venue ''b2'' cat) = ''b2''" "pickKey (venue ''c1'' cat) = ''c1''"
  "pickKey (venue ''c2'' cat) = ''c2''"
  by (simp_all add: pickKey_def venue_def trim_plain isSpaceChar_def)

lemma venue_cats:
  "catKey (venue pid ''Cafe'') = ''Cafe''" "catKey (venue pid ''Dessert'') = ''Dessert''"
  "catKey (venue pid ''Bookstore'') = ''Bookstore''"
  "category (venue pid cat) = cat"
  by (simp_all add: catKey_def venue_def)

lemma cozy_indoor:
  "\<not> isOutdoorishCategory ''Cafe''" "\<not> isOutdoorishCategory ''Dessert''"
  "\<not> isOutdoorishCategory ''Bookstore''"
  by code_simp+

lemma venue_strict:
  assumes "cat \<in> {''Cafe'', ''Dessert'', ''Bookstore''}"
  shows "str_includes (toLowerCase (openStatus (venue pid cat))) ''open now''
         \<and> hasClose (venue pid cat)
         \<and> hardReject sampleNow (venue pid cat)
             (strictArgs (set (allowedFor ''Cozy'')) Boston cn hr fl) = None"
  using assms
  by (auto simp add: venue_def hasClose_def hardReject_def strictArgs_def beansOption_def
      allowedFor_Cozy bullet_def toLowerCase_def cozy_indoor haversine_same_point Boston_def
      minutesUntilClose_def MIN_REMAINING_MIN_def MAX_DIST_KM_SHORTLIST_def sampleNow_def)

lemma fiveVenues_strict:
  "strictCandidates sampleNow (strictArgs (set (allowedFor ''Cozy'')) Boston cn hr fl) fiveVenues
     = fiveVenues"
  by (simp add: strictCandidates_def fiveVenues_def venue_strict)

lemma fiveVenues_shortlist:
  "selectShortlist (\<lambda>i. 0) 0 fiveVenues =
     [venue ''a1'' ''Cafe'', venue ''a2'' ''Cafe'', venue ''b1'' ''Dessert'',
      venue ''c1'' ''Bookstore'', venue ''a3'' ''Cafe'']"
proof -
  have "selectLoop (\<lambda>i. 0) 0 [] Map.empty fiveVenues =
     [venue ''a1'' ''Cafe'', venue ''a2'' ''Cafe'', venue ''b1'' ''Dessert'',
      venue ''c1'' ''Bookstore'', venue ''a3'' ''Cafe'']"
    by (simp add: fiveVenues_def selectLoop.simps weightedPick_zero venue_keys venue_cats
        getCount_def)
  moreover have "card {''Cafe'', ''Dessert'', ''Bookstore''} \<noteq> Suc 0"
    by simp
  ultimately show ?thesis
    by (simp add: selectShortlist_def fiveVenues_def venue_cats insert_commute)
qed

lemma category_applyCopy [simp]:
  "category (applyCopy copyById vibe withWho veg p) = category p"
  by (simp add: applyCopy_def Let_def)

lemma category_toPublicOption [simp]: "category (toPublicOption p) = category p"
  by (simp add: toPublicOption_def)

lemma res_pool_capped:
  assumes "POST env = Success r"
  shows "length (res_pool r) \<le> 60"
    and "length (filter (\<lambda>p. category p = c) (res_pool r)) \<le> 6"
proof -
  from POST_Success_parts [OF assms] obtain body weather ctr where
    b: "env_body env = Some body" and w: "env_weather env = Inr weather"
    and c: "CITY_CENTERS (pickDefaultCity (req_city body)) = Some ctr"
    by blast
  from POST_Success_structure [OF assms b w c] obtain built copyById where
    pool: "res_pool r =
             map toPublicOption
               (map (applyCopy copyById (vibeOf body) (safeString (req_withWho body) ''Solo'')
                       (req_vegFriendly body))
                  (swapPoolFor env body ctr weather built))"
    by blast
  let ?f = "\<lambda>p. toPublicOption
                 (applyCopy copyById (vibeOf body) (safeString (req_withWho body) ''Solo'')
                    (req_vegFriendly body) p)"
  have pool': "res_pool r = map ?f (swapPoolFor env body ctr weather built)"
    using pool by simp
  show "length (res_pool r) \<le> 60"
    unfolding pool' swapPoolFor_def using swapPoolOf_capped(2) by simp
  have "filter (\<lambda>p. category p = c) (map ?f (swapPoolFor env body ctr weather built))
      = map ?f (filter (\<lambda>p. category p = c) (swapPoolFor env body ctr weather built))"
    by (simp add: filter_map comp_def)
  then show "length (filter (\<lambda>p. category p = c) (res_pool r)) \<le> 6"
    unfolding pool' swapPoolFor_def using swapPoolOf_capped(1) by simp
qed

text \<open>
  C8 (as amended). Whenever the first 30 strict-feasible candidates have distinct keys
  and their categories can fill five places at no more than two per category (the sum
  over the categories of min(2, number of candidates) is at least 5: for instance
  three categories with two candidates each), the selector returns 5 items and no
  category appears more than 2 times among them. No category appears more than 6
  times in the returned swap pool, whose size is at most 60.
\<close>

theorem C8_diversity_caps:
  "(distinct (map pickKey (take 30 strict))
      \<and> 5 \<le> sum_list (map (\<lambda>c. min 2 (countCat (take 30 strict) c))
                    (remdups (map catKey (take 30 strict))))
      \<longrightarrow> length (selectShortlist draws k strict) = 5
          \<and> (\<forall>c. length (filter (\<lambda>p. category p = c) (selectShortlist draws k strict)) \<le> 2)) \<and>
   (\<forall>c. length (filter (\<lambda>p. category p = c) (swapPoolOf seenSet feasible)) \<le> 6) \<and>
   length (swapPoolOf seenSet feasible) \<le> 60 \<and>
   (POST env = Success r
      \<longrightarrow> length (res_pool r) \<le> 60
          \<and> (\<forall>c. length (filter (\<lambda>p. category p = c) (res_pool r)) \<le> 6))"
proof (intro conjI impI allI)
  assume "distinct (map pickKey (take 30 strict))
      \<and> 5 \<le> sum_list (map (\<lambda>c. min 2 (countCat (take 30 strict) c))
                    (remdups (map catKey (take 30 strict))))"
  then have "length (selectShortlist draws k strict) = 5
      \<and> (\<forall>c. length (filter (\<lambda>p. category p = c) (selectShortlist draws k strict)) \<le> 2)"
    using selectShortlist_capped [of strict draws k] by blast
  then show "length (selectShortlist draws k strict) = 5"
    and "\<And>c. length (filter (\<lambda>p. category p = c) (selectShortlist draws k strict)) \<le> 2"
    by blast+
next
  show "\<And>c. length (filter (\<lambda>p. category p = c) (swapPoolOf seenSet feasible)) \<le> 6"
    by (rule swapPoolOf_capped(1))
  show "length (swapPoolOf seenSet feasible) \<le> 60"
    by (rule swapPoolOf_capped(2))
next
  assume "POST env = Success r"
  then show "length (res_pool r) \<le> 60"
    and "\<And>c. length (filter (\<lambda>p. category p = c) (res_pool r)) \<le> 6"
    by (rule res_pool_capped)+
qed

text \<open>
  Six strict-feasible venues, two per category: the selector returns five of them
  with at most two per category. The pool of the sample request has one option.
\<close>

theorem C8_diversity_caps_witness:
  "length (selectShortlist (\<lambda>i. 0) 0 sixVenues) = 5 \<and>
   (\<forall>c. length (filter (\<lambda>p. category p = c) (selectShortlist (\<lambda>i. 0) 0 sixVenues)) \<le> 2) \<and>
   (\<forall>c. length (filter (\<lambda>p. category p = c) (swapPoolOf {} sixVenues)) \<le> 6) \<and>
   length (swapPoolOf {} sixVenues) \<le> 60 \<and>
   length (res_pool \<lparr>res_options = [beansShortlisted], res_pool = [beansPooled],
                      res_limitedAvailability = True\<rparr>) \<le> 60 \<and>
   (\<forall>c. length (filter (\<lambda>p. category p = c)
                   (res_pool \<lparr>res_options = [beansShortlisted], res_pool = [beansPooled],
                              res_limitedAvailability = True\<rparr>)) \<le> 6)"
proof -
  have post: "POST (sampleEnv []) =
      Success \<lparr>res_options = [beansShortlisted], res_pool = [beansPooled],
               res_limitedAvailability = True\<rparr>"
    by (rule sample_POST) (simp add: sample_sanitize_Nil)
  have keys: "distinct (map pickKey (take 30 sixVenues))"
    by (simp add: sixVenues_def venue_keys)
  have room: "5 \<le> sum_list (map (\<lambda>c. min 2 (countCat (take 30 sixVenues) c))
                       (remdups (map catKey (take 30 sixVenues))))"
    by (simp add: sixVenues_def venue_cats countCat_def)
  show ?thesis
    using C8_diversity_caps
      [of sixVenues "\<lambda>i. 0" 0 "{}" sixVenues "sampleEnv []"
        "\<lparr>res_options = [beansShortlisted], res_pool = [beansPooled],
          res_limitedAvailability = True\<rparr>"]
      post keys room
    by blast
qed

text \<open>
  C8 as stated asks for three distinct feasible categories only. Five strict-feasible
  venues under vibe "Cozy", three of category "Cafe", one "Dessert" and one
  "Bookstore": all five are picked, "Cafe" three times.
\<close>

theorem C8_three_categories_counterexample:
  "strictCandidates sampleNow
     (strictArgs (set (allowedFor ''Cozy'')) Boston (sampleNow - 18000000) 14 fair) fiveVenues
     = fiveVenues
   \<and> card (set (map category fiveVenues)) = 3
   \<and> length (selectShortlist (\<lambda>i. 0) 0 fiveVenues) = 5
   \<and> length (filter (\<lambda>p. category p = ''Cafe'') (selectShortlist (\<lambda>i. 0) 0 fiveVenues)) = 3"
proof -
  have "card (set (map category fiveVenues)) = 3"
    by (simp add: fiveVenues_def venue_cats)
  then show ?thesis
    by (simp add: fiveVenues_strict fiveVenues_shortlist venue_cats)
qed

section \<open>An outdoor venue with unknown hours in the rain\<close>

text \<open>
  A Boston request for vibe "Outdoors" while it rains. The provider answers the nearby
  keyword "park" with one park at the city center, whose details carry no opening
  hours (open-now unknown).
\<close>

definition parkCandidate :: GoogleCandidate where
  "parkCandidate =
     \<lparr>lat = 42.3601, lng = -71.0589, cand_placeId = ''P'', cand_name = ''Common Park''\<rparr>"

definition parkDetails :: PlaceDetails where
  "parkDetails =
     \<lparr>d_placeId = ''P'', d_name = ''Common Park'', d_rating = Some 4.7,
      d_userRatingsTotal = None, d_priceLevel = None, d_types = [''park''],
      d_openNow = None, d_businessStatus = Some ''OPERATIONAL'',
      d_closingTime = None, d_closeTs = None,
      d_formattedAddress = Some ''2 Park St'', d_lat = Some 42.3601, d_lng = Some (- 71.0589),
      d_photoUrls = []\<rparr>"

definition parkBackend :: Backend where
  "parkBackend =
     sampleBackend
       \<lparr>fetchNearby := (\<lambda>pos radiusM kw. Inr (Body (if kw = ''park'' then [parkCandidate] else []))),
        fetchText := (\<lambda>pos radiusM q. Inr (Body [])),
        fetchDetails := (\<lambda>pid tzOffsetSec. Inr (Body (if pid = ''P'' then Some parkDetails else None)))\<rparr>"

definition parkBody :: PlanRequest where
  "parkBody =
     \<lparr>req_city = Some ''Boston'', req_vibe = Some ''Outdoors'', req_withWho = None,
      req_vegFriendly = False, req_seenPlaceIds = [], req_swappedPlaceIds = []\<rparr>"

definition rainyWeather :: WeatherInfo where
  "rainyWeather = \<lparr>w_flags = rainy, w_cityHour = 14, w_tzOffsetSec = - 18000\<rparr>"

definition parkEnv :: Env where
  "parkEnv =
     \<lparr>backend = parkBackend, env_admission = Inr None, env_body = Some parkBody,
      env_weather = Inr rainyWeather, env_now = sampleNow, env_rnd = (\<lambda>i. 0),
      env_gptCopy = Inr Map.empty\<rparr>"

definition parkOption :: PlanOption where
  "parkOption =
     \<lparr>lat = 42.3601, lng = -71.0589, opt_id = ''P'', name = ''Common Park'',
      category = ''Park'', rating = Some 4.7, etaMin = 20,
      openStatus = ''Hours unknown '' @ bullet @ '' Check on Maps'', why = emDash,
      watchouts = defaultWatchouts, address = ''2 Park St'', closingTime = None,
      placeId = Some ''P'', priceLevel = None, userRatingsTotal = None,
      closeTs = None, photoUrls = [], score = None\<rparr>"

definition parkPooled :: PlanOption where
  "parkPooled = parkOption\<lparr>why := ''Fits a Outdoors vibe with solo.''\<rparr>"

lemma parkEnv_fields:
  "backend parkEnv = parkBackend"
  "env_admission parkEnv = Inr None"
  "env_body parkEnv = Some parkBody"
  "env_weather parkEnv = Inr rainyWeather"
  "env_now parkEnv = sampleNow"
  "env_rnd parkEnv = (\<lambda>i. 0)"
  "env_gptCopy parkEnv = Inr Map.empty"
  by (simp_all add: parkEnv_def)

lemma parkBody_fields:
  "req_city parkBody = Some ''Boston''"
  "req_vibe parkBody = Some ''Outdoors''"
  "req_withWho parkBody = None"
  "req_vegFriendly parkBody = False"
  "req_seenPlaceIds parkBody = []"
  "req_swappedPlaceIds parkBody = []"
  by (simp_all add: parkBody_def)

lemma rainyWeather_fields:
  "w_flags rainyWeather = rainy"
  "w_cityHour rainyWeather = 14"
  "w_tzOffsetSec rainyWeather = - 18000"
  by (simp_all add: rainyWeather_def)

lemma park_vibeOf: "vibeOf parkBody = ''Outdoors''"
  by (simp add: vibeOf_def parkBody_fields pickDefaultVibe_def ALLOWED_BY_VIBE_def trim_plain
      isSpaceChar_def)

lemma park_vibeOrder:
  "fallbackVibesForSwap ''Outdoors'' = [''Outdoors'', ''Social'', ''Cozy'']"
  by (simp add: fallbackVibesForSwap_def)

lemma park_collect:
  "collectCandidatesMultiLane parkBackend Boston ''Outdoors'' CITY_CENTER_RADIUS_SWAP_M True False
     = Inr [parkCandidate]"
  "collectCandidatesMultiLane parkBackend Boston ''Social'' CITY_CENTER_RADIUS_SWAP_M True False
     = Inr []"
  "collectCandidatesMultiLane parkBackend Boston ''Cozy'' CITY_CENTER_RADIUS_SWAP_M True False
     = Inr []"
  by code_simp+

lemma park_gather:
  "gatherLoop (lanesOf parkEnv parkBody Boston) (fallbackVibesForSwap ''Outdoors'') []
     = Inr [parkCandidate]"
  by (simp add: park_vibeOrder lanesOf_def parkEnv_fields parkBody_fields park_collect)

lemma park_fetch_details:
  "fetchPlaceDetailsById parkBackend ''P'' tz = Inr (Some parkDetails)"
  by (simp add: fetchPlaceDetailsById_def parkBackend_def sampleBackend_def trySetPx_def)

lemma park_category: "googleTypeToInternalCategory [''park''] ''Outdoors'' = ''Park''"
  by code_simp

lemma park_built:
  "buildOptionsFromCandidates parkBackend [parkCandidate] tz ''Outdoors''
     (set (allowedFor ''Outdoors'')) Boston = Inr [parkOption]"
  by (simp add: buildOptionsFromCandidates_def DETAILS_CAP_TOTAL_def parkCandidate_def
      park_fetch_details List.map_filter_def buildOption_def parkDetails_def parkOption_def
      park_category allowedFor_Outdoors clamp_def Boston_def)

lemma park_outdoor: "isOutdoorishCategory ''Park''"
  by code_simp

lemma park_relaxed:
  "hardReject sampleNow (parkOption\<lparr>score := s\<rparr>)
     (relaxedArgs (set (allowedFor ''Outdoors'')) Boston cn hr rainy) = None"
  by (simp add: hardReject_def relaxedArgs_def parkOption_def allowedFor_Outdoors bullet_def
      toLowerCase_def haversine_same_point Boston_def minutesUntilClose_def
      parseClosingTimeToMinutes_def MAX_DIST_KM_SWAP_def)

lemma park_not_open_now:
  "\<not> str_includes (toLowerCase (openStatus parkOption)) ''open now''"
  by (simp add: parkOption_def bullet_def toLowerCase_def)

lemma park_scored:
  "dedupedOf parkEnv parkBody rainyWeather [parkOption]
     = [parkOption\<lparr>score := Some (scoreOption parkOption rainy 14 ''Outdoors'' False
            (seenSetOf parkBody) (swappedSetOf parkBody) 0)\<rparr>]"
  by (simp add: dedupedOf_def scoreAll_def park_vibeOf parkEnv_fields rainyWeather_fields
      parkBody_fields)

lemma selectShortlist_Nil: "selectShortlist draws k [] = []"
  by (simp add: selectShortlist_def selectLoop.simps [of _ _ "[]"])

lemma park_picked: "pickedOf parkEnv parkBody Boston rainyWeather [parkOption] = []"
  by (simp add: pickedOf_def park_scored strictCandidates_def park_not_open_now
      selectShortlist_Nil)

lemma park_pool:
  "swapPoolFor parkEnv parkBody Boston rainyWeather [parkOption]
     = [parkOption\<lparr>score := Some (scoreOption parkOption rainy 14 ''Outdoors'' False
            (seenSetOf parkBody) (swappedSetOf parkBody) 0)\<rparr>]"
  by (simp add: swapPoolFor_def park_scored swapFeasible_def relaxedOf_def park_vibeOf
      park_relaxed parkEnv_fields rainyWeather_fields swapPoolOf_def diversifyPool_single
      MAX_POOL_RETURN_def TARGET_SWAP_POOL_def)

lemma park_copy:
  "applyCopy Map.empty ''Outdoors'' ''Solo'' False (parkOption\<lparr>score := s\<rparr>)
     = parkOption\<lparr>score := s, why := ''Fits a Outdoors vibe with solo.''\<rparr>"
  by (simp add: applyCopy_def parkOption_def placeIdText_def trim_plain isSpaceChar_def
      toLowerCase_def defaultWatchouts_def)

lemma park_POST:
  "POST parkEnv =
     Success \<lparr>res_options = [], res_pool = [parkPooled], res_limitedAvailability = True\<rparr>"
proof -
  have "POST parkEnv =
           Success
             \<lparr>res_options =
                map toPublicOption
                  (finalOptions
                     (map (applyCopy Map.empty (vibeOf parkBody)
                             (safeString (req_withWho parkBody) ''Solo'')
                             (req_vegFriendly parkBody))
                        (pickedOf parkEnv parkBody Boston rainyWeather [parkOption]))),
              res_pool =
                map toPublicOption
                  (map (applyCopy Map.empty (vibeOf parkBody)
                          (safeString (req_withWho parkBody) ''Solo'')
                          (req_vegFriendly parkBody))
                     (swapPoolFor parkEnv parkBody Boston rainyWeather [parkOption])),
              res_limitedAvailability =
                (length (pickedOf parkEnv parkBody Boston rainyWeather [parkOption]) < 5
                 \<or> length (swapPoolFor parkEnv parkBody Boston rainyWeather [parkOption]) < 10)\<rparr>"
  proof (rule POST_eval [where gathered = "[parkCandidate]"])
    show "googleKey (backend parkEnv)"
      by (simp add: parkEnv_fields parkBackend_def sampleBackend_def)
    show "env_admission parkEnv = Inr None"
      by (simp add: parkEnv_fields)
    show "env_body parkEnv = Some parkBody"
      by (simp add: parkEnv_fields)
    show "ALLOWED_BY_VIBE (vibeOf parkBody) \<noteq> None"
      by (simp add: park_vibeOf ALLOWED_BY_VIBE_def)
    show "CITY_CENTERS (pickDefaultCity (req_city parkBody)) = Some Boston"
      by (simp add: parkBody_fields sample_city sample_center)
    show "env_weather parkEnv = Inr rainyWeather"
      by (simp add: parkEnv_fields)
    show "gatherLoop (lanesOf parkEnv parkBody Boston) (fallbackVibesForSwap (vibeOf parkBody)) []
            = Inr [parkCandidate]"
      by (simp add: park_vibeOf park_gather)
    show "buildOptionsFromCandidates (backend parkEnv)
            (candidatesFilteredOf parkBody Boston [parkCandidate])
            (w_tzOffsetSec rainyWeather) (vibeOf parkBody)
            (set (allowedFor (vibeOf parkBody))) Boston = Inr [parkOption]"
      by (simp add: candidatesFilteredOf_def prioritize_def swappedSetOf_def parkBody_fields
          sample_sanitize_Nil park_vibeOf park_built parkEnv_fields
          parkCandidate_def [THEN arg_cong, of cand_placeId])
    show "env_gptCopy parkEnv = Inr Map.empty"
      by (simp add: parkEnv_fields)
  qed
  then have "POST parkEnv =
           Success
             \<lparr>res_options = [],
              res_pool = [parkOption\<lparr>why := ''Fits a Outdoors vibe with solo.'', score := None\<rparr>],
              res_limitedAvailability = True\<rparr>"
    by (simp add: park_picked park_pool park_vibeOf parkBody_fields safeString_def
        park_copy finalOptions_def toPublicOption_def)
  then show ?thesis
    by (simp add: parkPooled_def parkOption_def)
qed

text \<open>
  C5. An outdoor-leaning candidate under precipitation is meant to be rejected by both
  profiles with reason "weather_block", also when its remaining minutes are unknown.
  The relaxed profile returns before the weather guard when the minutes are unknown:
  the park with unknown hours is accepted while it rains, and the request returns it
  in the swap pool.
\<close>

theorem C5_park_unknown_hours_accepted_in_rain:
  "isOutdoorishCategory (category parkOption) \<and> precip (w_flags rainyWeather)
   \<and> minutesUntilClose sampleNow (cityNowOf parkEnv rainyWeather)
        (closingTime parkOption) (closeTs parkOption) = None
   \<and> hardReject sampleNow parkOption (relaxedOf parkEnv parkBody Boston rainyWeather) = None
   \<and> hardReject sampleNow parkOption (strictOf parkEnv parkBody Boston rainyWeather)
        = Some ''unknown_hours''
   \<and> POST parkEnv =
       Success \<lparr>res_options = [], res_pool = [parkPooled], res_limitedAvailability = True\<rparr>
   \<and> category parkPooled = ''Park''"
proof -
  have "parkOption\<lparr>score := None\<rparr> = parkOption"
    by (simp add: parkOption_def)
  with park_relaxed [of None] have relaxed:
    "hardReject sampleNow parkOption (relaxedOf parkEnv parkBody Boston rainyWeather) = None"
    by (simp add: relaxedOf_def park_vibeOf rainyWeather_fields)
  have strict: "hardReject sampleNow parkOption (strictOf parkEnv parkBody Boston rainyWeather)
      = Some ''unknown_hours''"
    by (simp add: hardReject_def strictOf_def strictArgs_def park_vibeOf parkOption_def
        allowedFor_Outdoors bullet_def toLowerCase_def haversine_same_point Boston_def
        minutesUntilClose_def parseClosingTimeToMinutes_def MAX_DIST_KM_SHORTLIST_def)
  have mins: "minutesUntilClose sampleNow (cityNowOf parkEnv rainyWeather)
      (closingTime parkOption) (closeTs parkOption) = None"
    by (simp add: minutesUntilClose_def parseClosingTimeToMinutes_def parkOption_def)
  have "isOutdoorishCategory (category parkOption)"
    by (simp add: parkOption_def park_outdoor)
  with relaxed strict mins park_POST show ?thesis
    by (simp add: rainyWeather_fields rainy_def parkPooled_def parkOption_def)
qed

end
